theory Spec2Isabelle
  imports Complex_Main "HOL-Library.Word" "HOL-Library.Log_Nat"
begin

section \<open>Numbers and vectors\<close>

text \<open>
  The pipeline computes on single-precision floats. The functions of
  \<open>rasterizeTools.h\<close> that decide whether a triangle covers a pixel, and at which
  depth, are modelled twice. In the section on floating point below every operation of
  theirs is rounded as IEEE 754 arithmetic rounds it (to nearest, ties to even, with
  gradual underflow and overflow to an infinity); these are the functions with the suffix
  \<open>32\<close>, and what is proved of the depth interpolation and of the point-in-triangle
  test is proved of them. Everywhere else arithmetic is modelled on \<^typ>\<open>real\<close>:
  there rounding and overflow are outside the model, and so is division by zero (where a
  denominator is 0 the code gets an infinity or NaN, the model the value that HOL gives
  the quotient).

  A kernel launch is modelled by the execution in which its threads run one after the
  other, each to its end, in the order of their ids; this is one of the schedules of the
  launch, and a property of the model is a property of that schedule. \<open>atomicAdd\<close> and
  \<open>atomicCAS\<close> are then an addition and a compare-and-swap. Where a property depends on
  the schedule, the steps of a thread are given one by one (\<open>depthTest\<close>,
  \<open>lowerDepth\<close>, \<open>writeFragment\<close>) and composed in the order of the schedule.

  The values a float can hold are modelled by \<open>fval\<close>, with the IEEE comparisons
  written out (every comparison with \<open>NaN\<close> is false, \<open>!=\<close> with \<open>NaN\<close> is
  true). The depth buffer is cleared to \<open>INFINITY\<close>, so its cells have this type in
  both models.
\<close>

datatype fval = NaN | NInf | Fin real | PInf

fun flt :: "fval \<Rightarrow> fval \<Rightarrow> bool" where
  "flt NaN _ = False"
| "flt _ NaN = False"
| "flt PInf _ = False"
| "flt _ NInf = False"
| "flt NInf _ = True"
| "flt (Fin a) (Fin b) = (a < b)"
| "flt (Fin a) PInf = True"

fun fle :: "fval \<Rightarrow> fval \<Rightarrow> bool" where
  "fle NaN _ = False"
| "fle _ NaN = False"
| "fle NInf _ = True"
| "fle _ PInf = True"
| "fle PInf _ = False"
| "fle _ NInf = False"
| "fle (Fin a) (Fin b) = (a \<le> b)"

definition fne :: "fval \<Rightarrow> fval \<Rightarrow> bool" where
  "fne a b = (a = NaN \<or> b = NaN \<or> a \<noteq> b)"

text \<open>\<open>(int) f\<close>: conversion of a float to \<open>int\<close> truncates toward zero.\<close>

definition itrunc :: "real \<Rightarrow> int" where
  "itrunc r = (if 0 \<le> r then \<lfloor>r\<rfloor> else \<lceil>r\<rceil>)"

text \<open>\<open>glm::clamp(x, lo, hi)\<close> is \<open>min(max(x, lo), hi)\<close>.\<close>

definition glm_clamp :: "real \<Rightarrow> real \<Rightarrow> real \<Rightarrow> real" where
  "glm_clamp x lo hi = min (max x lo) hi"

datatype vec2 = Vec2 (x2: real) (y2: real)

datatype vec3 = Vec3 (x3: real) (y3: real) (z3: real)

datatype vec4 = Vec4 (x4: real) (y4: real) (z4: real) (w4: real)

text \<open>\<open>glm::vec3(v)\<close> of a \<open>vec4\<close> drops the fourth component.\<close>

definition vec3_of :: "vec4 \<Rightarrow> vec3" where
  "vec3_of v = Vec3 (x4 v) (y4 v) (z4 v)"

definition dot3 :: "vec3 \<Rightarrow> vec3 \<Rightarrow> real" where
  "dot3 a b = x3 a * x3 b + y3 a * y3 b + z3 a * z3 b"

definition neg3 :: "vec3 \<Rightarrow> vec3" where
  "neg3 a = Vec3 (- x3 a) (- y3 a) (- z3 a)"

definition scale3 :: "real \<Rightarrow> vec3 \<Rightarrow> vec3" where
  "scale3 k a = Vec3 (k * x3 a) (k * y3 a) (k * z3 a)"

definition add3 :: "vec3 \<Rightarrow> vec3 \<Rightarrow> vec3" where
  "add3 a b = Vec3 (x3 a + x3 b) (y3 a + y3 b) (z3 a + z3 b)"

definition cross3 :: "vec3 \<Rightarrow> vec3 \<Rightarrow> vec3" where
  "cross3 a b = Vec3 (y3 a * z3 b - y3 b * z3 a)
                     (z3 a * x3 b - z3 b * x3 a)
                     (x3 a * y3 b - x3 b * y3 a)"

text \<open>\<open>glm::normalize(v)\<close> is \<open>v * inversesqrt(dot(v, v))\<close>.\<close>

definition normalize3 :: "vec3 \<Rightarrow> vec3" where
  "normalize3 a = scale3 (1 / sqrt (dot3 a a)) a"

definition sub4 :: "vec4 \<Rightarrow> vec4 \<Rightarrow> vec4" where
  "sub4 a b = Vec4 (x4 a - x4 b) (y4 a - y4 b) (z4 a - z4 b) (w4 a - w4 b)"

definition scale2 :: "real \<Rightarrow> vec2 \<Rightarrow> vec2" where
  "scale2 k a = Vec2 (k * x2 a) (k * y2 a)"

definition add2 :: "vec2 \<Rightarrow> vec2 \<Rightarrow> vec2" where
  "add2 a b = Vec2 (x2 a + x2 b) (y2 a + y2 b)"

text \<open>
  glm matrices are column-major: \<open>m[c]\<close> is column \<open>c\<close>, and \<open>m * v\<close> is the sum of
  the columns weighted by the components of \<open>v\<close>.
\<close>

datatype mat4 = Mat4 (col0: vec4) (col1: vec4) (col2: vec4) (col3: vec4)

datatype mat3 = Mat3 (mcol0: vec3) (mcol1: vec3) (mcol2: vec3)

definition mat4_mul :: "mat4 \<Rightarrow> vec4 \<Rightarrow> vec4" where
  "mat4_mul m v = Vec4
     (x4 (col0 m) * x4 v + x4 (col1 m) * y4 v + x4 (col2 m) * z4 v + x4 (col3 m) * w4 v)
     (y4 (col0 m) * x4 v + y4 (col1 m) * y4 v + y4 (col2 m) * z4 v + y4 (col3 m) * w4 v)
     (z4 (col0 m) * x4 v + z4 (col1 m) * y4 v + z4 (col2 m) * z4 v + z4 (col3 m) * w4 v)
     (w4 (col0 m) * x4 v + w4 (col1 m) * y4 v + w4 (col2 m) * z4 v + w4 (col3 m) * w4 v)"

definition mat3_mul :: "mat3 \<Rightarrow> vec3 \<Rightarrow> vec3" where
  "mat3_mul m v = Vec3
     (x3 (mcol0 m) * x3 v + x3 (mcol1 m) * y3 v + x3 (mcol2 m) * z3 v)
     (y3 (mcol0 m) * x3 v + y3 (mcol1 m) * y3 v + y3 (mcol2 m) * z3 v)
     (z3 (mcol0 m) * x3 v + z3 (mcol1 m) * y3 v + z3 (mcol2 m) * z3 v)"

definition identity4 :: mat4 where
  "identity4 = Mat4 (Vec4 1 0 0 0) (Vec4 0 1 0 0) (Vec4 0 0 1 0) (Vec4 0 0 0 1)"

text \<open>\<open>v /= s\<close> on a \<open>vec4\<close> divides every component by the scalar, taken by value.\<close>

definition div4 :: "vec4 \<Rightarrow> real \<Rightarrow> vec4" where
  "div4 v s = Vec4 (x4 v / s) (y4 v / s) (z4 v / s) (w4 v / s)"

section \<open>rasterizeTools.h\<close>

text \<open>
  The functions of the header on exact arithmetic, as the model of the pipeline uses
  them. Those that make the point-in-triangle test and the depth interpolation are given
  in floating point in the next section.
\<close>

record AABB =
  min_aabb :: vec3
  max_aabb :: vec3

text \<open>The array \<open>glm::vec3 tri[3]\<close> is the triple of its three elements.\<close>

type_synonym triangle = "vec3 \<times> vec3 \<times> vec3"

fun getAABBForTriangle :: "triangle \<Rightarrow> int \<Rightarrow> int \<Rightarrow> AABB" where
  "getAABBForTriangle (t0, t1, t2) w h =
     \<lparr> min_aabb = Vec3
         (glm_clamp (min (min (x3 t0) (x3 t1)) (x3 t2)) 0 (real_of_int w))
         (glm_clamp (min (min (y3 t0) (y3 t1)) (y3 t2)) 0 (real_of_int h))
         (min (min (z3 t0) (z3 t1)) (z3 t2)),
       max_aabb = Vec3
         (glm_clamp (max (max (x3 t0) (x3 t1)) (x3 t2)) 0 (real_of_int w))
         (glm_clamp (max (max (y3 t0) (y3 t1)) (y3 t2)) 0 (real_of_int h))
         (max (max (z3 t0) (z3 t1)) (z3 t2)) \<rparr>"

fun calculateSignedArea :: "triangle \<Rightarrow> real" where
  "calculateSignedArea (t0, t1, t2) =
     0.5 * ((x3 t2 - x3 t0) * (y3 t1 - y3 t0) - (x3 t1 - x3 t0) * (y3 t2 - y3 t0))"

definition calculateBarycentricCoordinateValue ::
  "vec2 \<Rightarrow> vec2 \<Rightarrow> vec2 \<Rightarrow> triangle \<Rightarrow> real" where
  "calculateBarycentricCoordinateValue a b c tri =
     calculateSignedArea (Vec3 (x2 a) (y2 a) 0, Vec3 (x2 b) (y2 b) 0, Vec3 (x2 c) (y2 c) 0)
       / calculateSignedArea tri"

fun calculateBarycentricCoordinate :: "triangle \<Rightarrow> vec2 \<Rightarrow> vec3" where
  "calculateBarycentricCoordinate (t0, t1, t2) point =
     (let beta = calculateBarycentricCoordinateValue
                   (Vec2 (x3 t0) (y3 t0)) point (Vec2 (x3 t2) (y3 t2)) (t0, t1, t2);
          gamma = calculateBarycentricCoordinateValue
                   (Vec2 (x3 t0) (y3 t0)) (Vec2 (x3 t1) (y3 t1)) point (t0, t1, t2);
          alpha = 1.0 - beta - gamma
      in Vec3 alpha beta gamma)"

definition isBarycentricCoordInBounds :: "vec3 \<Rightarrow> bool" where
  "isBarycentricCoordInBounds barycentricCoord =
     (x3 barycentricCoord \<ge> 0.0 \<and> x3 barycentricCoord \<le> 1.0 \<and>
      y3 barycentricCoord \<ge> 0.0 \<and> y3 barycentricCoord \<le> 1.0 \<and>
      z3 barycentricCoord \<ge> 0.0 \<and> z3 barycentricCoord \<le> 1.0)"

fun getPerspectiveCorrectZAtCoordinate :: "vec3 \<Rightarrow> triangle \<Rightarrow> real" where
  "getPerspectiveCorrectZAtCoordinate screenSpaceBarycentric (t0, t1, t2) =
     (let inverseZ = x3 screenSpaceBarycentric / z3 t0
                   + y3 screenSpaceBarycentric / z3 t1
                   + z3 screenSpaceBarycentric / z3 t2
      in 1.0 / inverseZ)"

fun getPerspectiveCorrectNormalAtCoordinate ::
  "vec3 \<Rightarrow> triangle \<Rightarrow> vec3 \<times> vec3 \<times> vec3 \<Rightarrow> real \<Rightarrow> vec3" where
  "getPerspectiveCorrectNormalAtCoordinate barycentricCoord (t0, t1, t2) (n0, n1, n2) depth =
     normalize3 (scale3 depth
       (add3 (add3 (scale3 (x3 barycentricCoord / z3 t0) n0)
                   (scale3 (y3 barycentricCoord / z3 t1) n1))
             (scale3 (z3 barycentricCoord / z3 t2) n2)))"

fun getPerspectiveCorrectTexcoordAtCoordinate ::
  "vec3 \<Rightarrow> triangle \<Rightarrow> vec2 \<times> vec2 \<times> vec2 \<Rightarrow> real \<Rightarrow> vec2" where
  "getPerspectiveCorrectTexcoordAtCoordinate barycentricCoord (t0, t1, t2) (c0, c1, c2) depth =
     scale2 depth
       (add2 (add2 (scale2 (x3 barycentricCoord / z3 t0) c0)
                   (scale2 (y3 barycentricCoord / z3 t1) c1))
             (scale2 (z3 barycentricCoord / z3 t2) c2))"


text \<open>
  \<open>fatomicMin\<close>. \<open>__float_as_int\<close> is a CUDA intrinsic (the bit pattern of a float);
  it is a parameter of the model. \<open>atomicCAS\<close> on \<open>unsigned int\<close> returns the old bit
  pattern as an \<open>unsigned int\<close>, and the assignment \<open>old = atomicCAS(...)\<close> to a
  \<open>float\<close> converts that integer by value. The cell is read and written by this thread
  only: the loop is the one a single thread runs when no other thread touches the cell
  between its steps.
\<close>

definition uint_to_float :: "32 word \<Rightarrow> fval" where
  "uint_to_float u = Fin (real (unat u))"

text \<open>
  \<open>atomicCAS(addr, compare, val)\<close> on a cell holding \<open>cell\<close>, with \<open>val\<close> the bit
  pattern of \<open>value\<close>: the new content of the cell and the old bit pattern.
\<close>

definition atomicCAS :: "(fval \<Rightarrow> 32 word) \<Rightarrow> fval \<Rightarrow> 32 word \<Rightarrow> fval \<Rightarrow> fval \<times> 32 word" where
  "atomicCAS float_as_int cell compare value =
     (if float_as_int cell = compare then value else cell, float_as_int cell)"

function fatomicMin_loop :: "(fval \<Rightarrow> 32 word) \<Rightarrow> fval \<Rightarrow> fval \<Rightarrow> fval \<Rightarrow> fval \<times> fval" where
  "fatomicMin_loop float_as_int cell value old =
     (let assumed = old;
          r = atomicCAS float_as_int cell (float_as_int assumed) value;
          old' = uint_to_float (snd r)
      in if fne old' assumed then fatomicMin_loop float_as_int (fst r) value old'
         else (fst r, old'))"
  by pat_completeness auto
termination
proof (relation "measure (\<lambda>(float_as_int, cell, value, old).
          if uint_to_float (float_as_int cell) = old then 0
          else if float_as_int cell = float_as_int old
                  \<and> uint_to_float (float_as_int value) \<noteq> uint_to_float (float_as_int cell)
               then 2 else 1)", goal_cases)
  case 1
  show ?case by simp
next
  case (2 float_as_int cell "value" old assumed r old')
  then show ?case
    by (auto simp: atomicCAS_def fne_def uint_to_float_def)
qed

declare fatomicMin_loop.simps [simp del]

text \<open>The content of the cell afterwards, and the value returned.\<close>

definition fatomicMin :: "(fval \<Rightarrow> 32 word) \<Rightarrow> fval \<Rightarrow> fval \<Rightarrow> fval \<times> fval" where
  "fatomicMin float_as_int cell value =
     (let old = cell
      in if fle old value then (cell, old)
         else fatomicMin_loop float_as_int cell value old)"

section \<open>rasterizeTools.h in floating point\<close>

text \<open>
  Rounding of a real number to a binary floating-point format with \<open>p\<close> bits of
  precision, whose smallest positive value is \<open>2 ^ qmin\<close> and whose finite values are
  below \<open>2 ^ emax\<close>: \<open>p = 24\<close>, \<open>qmin = -149\<close>, \<open>emax = 128\<close> for \<open>float\<close> and
  \<open>p = 53\<close>, \<open>qmin = -1074\<close>, \<open>emax = 1024\<close> for \<open>double\<close>. \<open>ilog2 x\<close> is the
  exponent of a positive \<open>x\<close>, the integer \<open>e\<close> with \<open>2 ^ e \<le> x < 2 ^ (e + 1)\<close>;
  \<open>rne\<close> rounds to the nearest integer, a tie to the even one. A magnitude is rounded
  to the nearest multiple of \<open>2 ^ q\<close>, where \<open>q\<close> is the exponent of the last bit of
  the significand (not below \<open>qmin\<close>: gradual underflow); a result whose exponent
  reaches \<open>emax\<close>, one that is \<open>2 ^ emax\<close> or more, is an infinity. The sign of a
  zero is not modelled: a zero is \<open>Fin 0\<close>, and a zero divisor counts as \<open>+0\<close>.
  Every operation is rounded on its own; a compiler that fuses a multiplication with an
  addition rounds once where this model rounds twice.
\<close>

definition ilog2 :: "real \<Rightarrow> int" where
  "ilog2 x = (if 1 \<le> x then bitlen \<lfloor>x\<rfloor> - 1 else - bitlen (\<lceil>1 / x\<rceil> - 1))"

definition rne :: "real \<Rightarrow> int" where
  "rne y = (let f = \<lfloor>y\<rfloor>; d = y - of_int f
            in if d < 1 / 2 then f else if 1 / 2 < d then f + 1
               else if even f then f else f + 1)"

definition round_magnitude :: "int \<Rightarrow> int \<Rightarrow> real \<Rightarrow> real" where
  "round_magnitude p qmin x =
     (let q = max (ilog2 x - (p - 1)) qmin
      in of_int (rne (x / 2 powi q)) * 2 powi q)"

definition float_round :: "int \<Rightarrow> int \<Rightarrow> int \<Rightarrow> real \<Rightarrow> fval" where
  "float_round p qmin emax x =
     (if x = 0 then Fin 0
      else (let r = round_magnitude p qmin \<bar>x\<bar>
            in if r = 0 then Fin 0
               else if emax \<le> ilog2 r then (if 0 < x then PInf else NInf)
               else if 0 < x then Fin r else Fin (- r)))"

definition round32 :: "real \<Rightarrow> fval" where
  "round32 = float_round 24 (- 149) 128"

definition round64 :: "real \<Rightarrow> fval" where
  "round64 = float_round 53 (- 1074) 1024"

text \<open>
  The arithmetic operations on floats, with the rounding of the format they are computed
  in as a parameter: the exact result is rounded, and the cases with an infinity or a
  \<open>NaN\<close> are those of IEEE 754.
\<close>

fun fneg :: "fval \<Rightarrow> fval" where
  "fneg NaN = NaN"
| "fneg NInf = PInf"
| "fneg PInf = NInf"
| "fneg (Fin a) = Fin (- a)"

fun fadd :: "(real \<Rightarrow> fval) \<Rightarrow> fval \<Rightarrow> fval \<Rightarrow> fval" where
  "fadd rnd NaN _ = NaN"
| "fadd rnd _ NaN = NaN"
| "fadd rnd PInf NInf = NaN"
| "fadd rnd NInf PInf = NaN"
| "fadd rnd PInf _ = PInf"
| "fadd rnd _ PInf = PInf"
| "fadd rnd NInf _ = NInf"
| "fadd rnd _ NInf = NInf"
| "fadd rnd (Fin a) (Fin b) = rnd (a + b)"

definition fsub :: "(real \<Rightarrow> fval) \<Rightarrow> fval \<Rightarrow> fval \<Rightarrow> fval" where
  "fsub rnd a b = fadd rnd a (fneg b)"

fun fmul :: "(real \<Rightarrow> fval) \<Rightarrow> fval \<Rightarrow> fval \<Rightarrow> fval" where
  "fmul rnd NaN _ = NaN"
| "fmul rnd _ NaN = NaN"
| "fmul rnd (Fin a) (Fin b) = rnd (a * b)"
| "fmul rnd (Fin a) PInf = (if a = 0 then NaN else if 0 < a then PInf else NInf)"
| "fmul rnd (Fin a) NInf = (if a = 0 then NaN else if 0 < a then NInf else PInf)"
| "fmul rnd PInf (Fin b) = (if b = 0 then NaN else if 0 < b then PInf else NInf)"
| "fmul rnd NInf (Fin b) = (if b = 0 then NaN else if 0 < b then NInf else PInf)"
| "fmul rnd PInf PInf = PInf"
| "fmul rnd PInf NInf = NInf"
| "fmul rnd NInf PInf = NInf"
| "fmul rnd NInf NInf = PInf"

fun fdiv :: "(real \<Rightarrow> fval) \<Rightarrow> fval \<Rightarrow> fval \<Rightarrow> fval" where
  "fdiv rnd NaN _ = NaN"
| "fdiv rnd _ NaN = NaN"
| "fdiv rnd (Fin a) (Fin b) =
     (if b = 0 then (if a = 0 then NaN else if 0 < a then PInf else NInf) else rnd (a / b))"
| "fdiv rnd (Fin a) PInf = Fin 0"
| "fdiv rnd (Fin a) NInf = Fin 0"
| "fdiv rnd PInf (Fin b) = (if 0 \<le> b then PInf else NInf)"
| "fdiv rnd NInf (Fin b) = (if 0 \<le> b then NInf else PInf)"
| "fdiv rnd PInf PInf = NaN"
| "fdiv rnd PInf NInf = NaN"
| "fdiv rnd NInf PInf = NaN"
| "fdiv rnd NInf NInf = NaN"

text \<open>
  The conversion of a \<open>double\<close> to \<open>float\<close> (the conversion of a \<open>float\<close> to
  \<open>double\<close> is exact), and of an \<open>int\<close> to \<open>float\<close>.
\<close>

fun to_float :: "fval \<Rightarrow> fval" where
  "to_float (Fin a) = round32 a"
| "to_float x = x"

definition int_to_float :: "int \<Rightarrow> fval" where
  "int_to_float i = round32 (of_int i)"

text \<open>\<open>glm::vec2\<close> and \<open>glm::vec3\<close> with float components, and \<open>glm::vec3 tri[3]\<close>.\<close>

datatype fvec2 = FVec2 (fx2: fval) (fy2: fval)

datatype fvec3 = FVec3 (fx3: fval) (fy3: fval) (fz3: fval)

type_synonym ftriangle = "fvec3 \<times> fvec3 \<times> fvec3"

text \<open>
  \<open>calculateSignedArea\<close>: the differences, the two products and their difference are
  float operations; the product with the constant \<open>0.5\<close>, a \<open>double\<close>, is computed
  in double precision and converted to \<open>float\<close> by the \<open>return\<close>.
\<close>

fun calculateSignedArea32 :: "ftriangle \<Rightarrow> fval" where
  "calculateSignedArea32 (t0, t1, t2) =
     to_float (fmul round64 (Fin 0.5)
       (fsub round32
          (fmul round32 (fsub round32 (fx3 t2) (fx3 t0)) (fsub round32 (fy3 t1) (fy3 t0)))
          (fmul round32 (fsub round32 (fx3 t1) (fx3 t0)) (fsub round32 (fy3 t2) (fy3 t0)))))"

definition calculateBarycentricCoordinateValue32 ::
  "fvec2 \<Rightarrow> fvec2 \<Rightarrow> fvec2 \<Rightarrow> ftriangle \<Rightarrow> fval" where
  "calculateBarycentricCoordinateValue32 a b c tri =
     fdiv round32
       (calculateSignedArea32 (FVec3 (fx2 a) (fy2 a) (Fin 0), FVec3 (fx2 b) (fy2 b) (Fin 0),
                               FVec3 (fx2 c) (fy2 c) (Fin 0)))
       (calculateSignedArea32 tri)"

text \<open>
  \<open>calculateBarycentricCoordinate\<close>: \<open>beta\<close> and \<open>gamma\<close> are floats; \<open>alpha\<close> is
  \<open>1.0 - beta - gamma\<close>, two subtractions in double precision (the constant is a
  \<open>double\<close>), converted to \<open>float\<close> by the assignment.
\<close>

fun calculateBarycentricCoordinate32 :: "ftriangle \<Rightarrow> fvec2 \<Rightarrow> fvec3" where
  "calculateBarycentricCoordinate32 (t0, t1, t2) point =
     (let beta = calculateBarycentricCoordinateValue32
                   (FVec2 (fx3 t0) (fy3 t0)) point (FVec2 (fx3 t2) (fy3 t2)) (t0, t1, t2);
          gamma = calculateBarycentricCoordinateValue32
                   (FVec2 (fx3 t0) (fy3 t0)) (FVec2 (fx3 t1) (fy3 t1)) point (t0, t1, t2);
          alpha = to_float (fsub round64 (fsub round64 (Fin 1.0) beta) gamma)
      in FVec3 alpha beta gamma)"

definition isBarycentricCoordInBounds32 :: "fvec3 \<Rightarrow> bool" where
  "isBarycentricCoordInBounds32 barycentricCoord =
     (fle (Fin 0.0) (fx3 barycentricCoord) \<and> fle (fx3 barycentricCoord) (Fin 1.0) \<and>
      fle (Fin 0.0) (fy3 barycentricCoord) \<and> fle (fy3 barycentricCoord) (Fin 1.0) \<and>
      fle (Fin 0.0) (fz3 barycentricCoord) \<and> fle (fz3 barycentricCoord) (Fin 1.0))"

text \<open>
  \<open>getPerspectiveCorrectZAtCoordinate\<close>: three float divisions, two float additions
  (from the left), and the float division \<open>1.0f / inverseZ\<close>.
\<close>

fun getPerspectiveCorrectZAtCoordinate32 :: "fvec3 \<Rightarrow> ftriangle \<Rightarrow> fval" where
  "getPerspectiveCorrectZAtCoordinate32 screenSpaceBarycentric (t0, t1, t2) =
     (let inverseZ = fadd round32
                       (fadd round32 (fdiv round32 (fx3 screenSpaceBarycentric) (fz3 t0))
                                     (fdiv round32 (fy3 screenSpaceBarycentric) (fz3 t1)))
                       (fdiv round32 (fz3 screenSpaceBarycentric) (fz3 t2))
      in fdiv round32 (Fin 1.0) inverseZ)"

text \<open>
  The test that \<open>_rasterize\<close> makes for the pixel \<open>(x, y)\<close> of its scan: the point
  \<open>glm::vec2 point(x, y)\<close>, its barycentric coordinate, and
  \<open>isBarycentricCoordInBounds\<close> of it.
\<close>

definition pixelInBounds32 :: "ftriangle \<Rightarrow> int \<Rightarrow> int \<Rightarrow> bool" where
  "pixelInBounds32 tri x y =
     (let point = FVec2 (int_to_float x) (int_to_float y);
          screenSpaceBarycentric = calculateBarycentricCoordinate32 tri point
      in isBarycentricCoordInBounds32 screenSpaceBarycentric)"

section \<open>rasterize.cu: data\<close>

datatype PrimitiveType = Point | Line | Triangle

fun PrimitiveType_int :: "PrimitiveType \<Rightarrow> int" where
  "PrimitiveType_int Point = 1"
| "PrimitiveType_int Line = 2"
| "PrimitiveType_int Triangle = 3"

text \<open>
  Device arrays are stores from the index the code computes to the element there; a null
  pointer is \<open>None\<close>. \<open>TextureData\<close> is \<open>unsigned char\<close>, \<open>VertexIndex\<close> is
  \<open>unsigned short\<close>.
\<close>

type_synonym TextureData = "8 word"

type_synonym VertexIndex = "16 word"

record VertexOut =
  pos :: vec4
  eyePos :: vec3
  eyeNor :: vec3
  color :: vec4
  texcoord0 :: vec2
  dev_diffuseTex :: "(int \<Rightarrow> TextureData) option"
  texWidth :: int
  texHeight :: int
  materialId :: int

text \<open>The field \<open>v\<close> is the array \<open>VertexOut v[3]\<close>.\<close>

record Primitive =
  primitiveType :: PrimitiveType
  v :: "int \<Rightarrow> VertexOut"

text \<open>
  The fields of \<open>Fragment\<close> carry the prefix \<open>f_\<close> (the struct shares their names
  with \<open>VertexOut\<close>). The \<open>depth\<close> field of the \<open>RENDER_DEPTH_ONLY\<close> build is not
  modelled.
\<close>

record Fragment =
  f_color :: vec4
  f_eyePos :: vec3
  f_eyeNor :: vec3
  f_materialId :: int

text \<open>
  The tinygltf primitive modes (\<open>TINYGLTF_MODE_*\<close>, macros of the loader's header) as a
  datatype; \<open>OTHER_MODE\<close> stands for every other integer.
\<close>

datatype gltf_mode = POINTS | LINE | LINE_LOOP | TRIANGLES | TRIANGLE_STRIP | TRIANGLE_FAN
  | OTHER_MODE int

text \<open>
  \<open>PrimitiveDevBufPointers\<close>. The fields \<open>dev_diffuseTex\<close> and \<open>materialId\<close> carry the
  prefix \<open>part_\<close> (\<open>VertexOut\<close> has fields of the same names).
\<close>

record PrimitiveDevBufPointers =
  primitiveMode :: gltf_mode
  part_primitiveType :: PrimitiveType
  numPrimitives :: int
  numIndices :: int
  numVertices :: int
  dev_indices :: "int \<Rightarrow> VertexIndex"
  dev_position :: "int \<Rightarrow> vec3"
  dev_normal :: "int \<Rightarrow> vec3"
  dev_texcoord0 :: "int \<Rightarrow> vec2"
  part_dev_diffuseTex :: "(int \<Rightarrow> TextureData) option"
  diffuseTexWidth :: int
  diffuseTexHeight :: int
  part_materialId :: int
  dev_verticesOut :: "int \<Rightarrow> VertexOut"

text \<open>The compile-time switches that the modelled kernels branch on.\<close>

record config =
  BILINEAR_FILTERING :: bool
  BACKFACE_CULLING :: bool
  USE_K_BUFFER :: bool

text \<open>The per-pixel device buffers the rasterizer reads and writes.\<close>

record buffers =
  fragmentBuffer :: "int \<Rightarrow> Fragment"
  depths :: "int \<Rightarrow> fval"
  depthAccum :: "int \<Rightarrow> vec4"
  depthRevealage :: "int \<Rightarrow> real"

text \<open>\<open>uchar4\<close>, the element of the presented surface.\<close>

datatype uchar4 = Uchar4 (ux: "8 word") (uy: "8 word") (uz: "8 word") (uw: "8 word")


section \<open>rasterize.cu: the rasterizer\<close>

text \<open>
  \<open>getBilinearFilteredPixelColor\<close>. \<open>glm::floor\<close> followed by the conversion to
  \<open>int\<close> is \<open>\<lfloor>_\<rfloor>\<close>; a texel byte enters the arithmetic as its unsigned value.
\<close>

definition getBilinearFilteredPixelColor ::
  "(int \<Rightarrow> TextureData) \<Rightarrow> vec2 \<Rightarrow> int \<Rightarrow> int \<Rightarrow> vec4" where
  "getBilinearFilteredPixelColor texels uv tw th =
     (let u = x2 uv * real_of_int tw - 0.5;
          t = y2 uv * real_of_int th - 0.5;
          x = \<lfloor>u\<rfloor>;
          y = \<lfloor>t\<rfloor>;
          uRatio = u - real_of_int x;
          vRatio = t - real_of_int y;
          uOpposite = 1 - uRatio;
          vOpposite = 1 - vRatio;
          i0 = 3 * (x + y * tw);
          i1 = 3 * ((x + 1) + y * tw);
          i2 = 3 * (x + (y + 1) * tw);
          i3 = 3 * ((x + 1) + (y + 1) * tw);
          tx = (\<lambda>i. real (unat (texels i)));
          red = (tx i0 * uOpposite + tx i1 * uRatio) * vOpposite
              + (tx i2 * uOpposite + tx i3 * uRatio) * vRatio;
          green = (tx (i0 + 1) * uOpposite + tx (i1 + 1) * uRatio) * vOpposite
              + (tx (i2 + 1) * uOpposite + tx (i3 + 1) * uRatio) * vRatio;
          blue = (tx (i0 + 2) * uOpposite + tx (i1 + 2) * uRatio) * vOpposite
              + (tx (i2 + 2) * uOpposite + tx (i3 + 2) * uRatio) * vRatio
      in Vec4 (red / 255) (green / 255) (blue / 255) (1 / 255))"

text \<open>
  The nearest-neighbour lookup of \<open>_rasterize\<close> (the branch without
  \<open>BILINEAR_FILTERING\<close>): the index of the texel, and the colour read there.
\<close>

definition nearestTexIndex :: "vec2 \<Rightarrow> int \<Rightarrow> int \<Rightarrow> int" where
  "nearestTexIndex uv tw th =
     itrunc (x2 uv * real_of_int tw) + itrunc (y2 uv * real_of_int tw) * th"

definition nearestPixelColor :: "(int \<Rightarrow> TextureData) \<Rightarrow> vec2 \<Rightarrow> int \<Rightarrow> int \<Rightarrow> vec4" where
  "nearestPixelColor texels uv tw th =
     (let texIndex = nearestTexIndex uv tw th
      in Vec4 (real (unat (texels (3 * texIndex))) / 255)
              (real (unat (texels (3 * texIndex + 1))) / 255)
              (real (unat (texels (3 * texIndex + 2))) / 255)
              1)"

text \<open>The triangle \<open>tri\<close> of a primitive: the positions of its vertices as \<open>vec3\<close>.\<close>

definition tri_of :: "Primitive \<Rightarrow> triangle" where
  "tri_of primitive =
     (vec3_of (pos (v primitive 0)), vec3_of (pos (v primitive 1)), vec3_of (pos (v primitive 2)))"

text \<open>
  The colour of a fragment before the k-buffer adjustment: sampled from the texture of
  vertex 0 at the interpolated texture coordinate when there is a texture, the colour of
  vertex 0 otherwise.
\<close>

definition fragmentColor :: "config \<Rightarrow> Primitive \<Rightarrow> triangle \<Rightarrow> vec3 \<Rightarrow> real \<Rightarrow> vec4" where
  "fragmentColor cfg primitive tri screenSpaceBarycentric depth =
     (case dev_diffuseTex (v primitive 0) of
        Some texels \<Rightarrow>
          (let uv = getPerspectiveCorrectTexcoordAtCoordinate screenSpaceBarycentric tri
                      (texcoord0 (v primitive 0), texcoord0 (v primitive 1),
                       texcoord0 (v primitive 2)) depth
           in if BILINEAR_FILTERING cfg
              then getBilinearFilteredPixelColor texels uv
                     (texWidth (v primitive 0)) (texHeight (v primitive 0))
              else nearestPixelColor texels uv
                     (texWidth (v primitive 0)) (texHeight (v primitive 0)))
      | None \<Rightarrow> color (v primitive 0))"

text \<open>The k-buffer branch: the alpha given to the fragment, and its weight.\<close>

definition kbufferAlpha :: "vec4 \<Rightarrow> real" where
  "kbufferAlpha c = 0.1 * (1.0 - glm_clamp ((x4 c + y4 c + z4 c) * (1.0 / 3.0)) 0.0 1.0)"

definition kbufferWeight :: "real \<Rightarrow> real \<Rightarrow> real" where
  "kbufferWeight alpha depth =
     (let a = min 1.0 alpha * 8.0 + 0.01;
          b = depth * 0.95 + 1.0
      in glm_clamp (a * a * a * 100000000 * b * b * b) (1 / 100) 300)"

text \<open>
  The body that \<open>_rasterize\<close> runs for a fragment that passed the depth test (or for
  every fragment, under \<open>USE_K_BUFFER\<close>): the writes to the fragment buffer and, in the
  k-buffer build, to the accumulation buffers. \<open>atomicAdd\<close> adds to the cell; the
  revealage is assigned.
\<close>

definition writeFragment ::
  "config \<Rightarrow> Primitive \<Rightarrow> triangle \<Rightarrow> vec3 \<Rightarrow> real \<Rightarrow> int \<Rightarrow> buffers \<Rightarrow> buffers" where
  "writeFragment cfg primitive tri screenSpaceBarycentric depth index st =
     (let perspectiveCorrectNormal =
            getPerspectiveCorrectNormalAtCoordinate screenSpaceBarycentric tri
              (eyeNor (v primitive 0), eyeNor (v primitive 1), eyeNor (v primitive 2)) depth;
          c = fragmentColor cfg primitive tri screenSpaceBarycentric depth;
          frag = (fragmentBuffer st index)
                   \<lparr> f_eyeNor := perspectiveCorrectNormal,
                     f_materialId := materialId (v primitive 0) \<rparr>
      in if USE_K_BUFFER cfg
         then (let alpha = kbufferAlpha c;
                   c' = Vec4 (x4 c) (y4 c) (z4 c) alpha;
                   w = kbufferWeight alpha depth;
                   acc = depthAccum st index
               in st \<lparr> fragmentBuffer := (fragmentBuffer st)(index := frag \<lparr> f_color := c' \<rparr>),
                       depthAccum := (depthAccum st)(index :=
                          Vec4 (x4 acc + x4 c' * w) (y4 acc + y4 c' * w)
                               (z4 acc + z4 c' * w) (w4 acc + w4 c' * w)),
                       depthRevealage := (depthRevealage st)(index := alpha) \<rparr>)
         else st \<lparr> fragmentBuffer := (fragmentBuffer st)(index := frag \<lparr> f_color := c \<rparr>) \<rparr>)"

text \<open>
  What \<open>_rasterize\<close> does with a pixel whose barycentric coordinate is in bounds: the
  depth is interpolated, and the fragment is written when the build is the k-buffer one or
  when the depth is below the stored one, which \<open>fatomicMin\<close> then lowers.
\<close>

definition processFragment ::
  "config \<Rightarrow> (fval \<Rightarrow> 32 word) \<Rightarrow> Primitive \<Rightarrow> triangle \<Rightarrow> vec3 \<Rightarrow> int \<Rightarrow> int \<Rightarrow> int
     \<Rightarrow> buffers \<Rightarrow> buffers" where
  "processFragment cfg float_as_int primitive tri screenSpaceBarycentric width x y st =
     (let depth = getPerspectiveCorrectZAtCoordinate screenSpaceBarycentric tri;
          index = x + (y * width)
      in if USE_K_BUFFER cfg
         then writeFragment cfg primitive tri screenSpaceBarycentric depth index st
         else if flt (Fin depth) (depths st index)
         then writeFragment cfg primitive tri screenSpaceBarycentric depth index
                (st \<lparr> depths := (depths st)(index :=
                         fst (fatomicMin float_as_int (depths st index) (Fin depth))) \<rparr>)
         else st)"

text \<open>
  The three steps of the standard build in \<open>processFragment\<close>, one by one: the test
  \<open>depth < depths[index]\<close>, the call \<open>fatomicMin(&depths[index], depth)\<close>, and the
  stores of \<open>writeFragment\<close>. Between two of them other threads may run.
\<close>

definition depthTest :: "real \<Rightarrow> int \<Rightarrow> buffers \<Rightarrow> bool" where
  "depthTest depth index st = flt (Fin depth) (depths st index)"

definition lowerDepth :: "(fval \<Rightarrow> 32 word) \<Rightarrow> real \<Rightarrow> int \<Rightarrow> buffers \<Rightarrow> buffers" where
  "lowerDepth float_as_int depth index st =
     st \<lparr> depths := (depths st)(index :=
            fst (fatomicMin float_as_int (depths st index) (Fin depth))) \<rparr>"

text \<open>The body of the two loops of \<open>_rasterize\<close>, for the pixel \<open>(x, y)\<close>.\<close>

definition rasterizePixel ::
  "config \<Rightarrow> (fval \<Rightarrow> 32 word) \<Rightarrow> Primitive \<Rightarrow> triangle \<Rightarrow> int \<Rightarrow> int \<Rightarrow> int
     \<Rightarrow> buffers \<Rightarrow> buffers" where
  "rasterizePixel cfg float_as_int primitive tri width x y st =
     (let point = Vec2 (real_of_int x) (real_of_int y);
          screenSpaceBarycentric = calculateBarycentricCoordinate tri point
      in if isBarycentricCoordInBounds screenSpaceBarycentric
         then processFragment cfg float_as_int primitive tri screenSpaceBarycentric width x y st
         else st)"

text \<open>
  The values a loop \<open>for (int i = lo; i <= hi; ++i)\<close> with float bounds runs through:
  \<open>i\<close> starts at the truncated \<open>lo\<close>, and \<open>i <= hi\<close> holds as long as \<open>i\<close> is
  at most \<open>\<lfloor>hi\<rfloor>\<close>.
\<close>

definition scanRange :: "real \<Rightarrow> real \<Rightarrow> int list" where
  "scanRange lo hi = [itrunc lo .. \<lfloor>hi\<rfloor>]"

text \<open>The pixels one thread scans, in the order of the loops (\<open>x\<close> outside).\<close>

definition scannedPixels :: "AABB \<Rightarrow> (int \<times> int) list" where
  "scannedPixels bbox =
     List.product (scanRange (x3 (min_aabb bbox)) (x3 (max_aabb bbox)))
                  (scanRange (y3 (min_aabb bbox)) (y3 (max_aabb bbox)))"

text \<open>One thread of \<open>_rasterize\<close>, for the primitive \<open>pid\<close>.\<close>

definition rasterizeThread ::
  "config \<Rightarrow> (fval \<Rightarrow> 32 word) \<Rightarrow> int \<Rightarrow> (int \<Rightarrow> Primitive) \<Rightarrow> int \<Rightarrow> int \<Rightarrow> int
     \<Rightarrow> buffers \<Rightarrow> buffers" where
  "rasterizeThread cfg float_as_int numPrims primitives width height pid st =
     (if pid < numPrims
      then (let primitive = primitives pid
            in if BACKFACE_CULLING cfg
                  \<and> dot3 (eyeNor (v primitive 0)) (neg3 (eyePos (v primitive 0))) < 0.0
               then st
               else (let tri = tri_of primitive;
                         bbox = getAABBForTriangle tri width height
                     in fold (\<lambda>(x, y). rasterizePixel cfg float_as_int primitive tri width x y)
                          (scannedPixels bbox) st))
      else st)"

text \<open>
  The launch \<open>_rasterize<<<numBlocks, numThreadsPerBlock>>>\<close> of \<open>rasterize\<close>. With
  a count of 0 the host divides by zero when it computes the number of blocks, and with a
  negative count the block size is not one a device accepts: there is no launch
  (\<open>None\<close>). Otherwise the result is that of the threads run one after the other in the
  order of their ids, each to its end. The threads of the device run concurrently, and
  the threads of two primitives that cover the same pixel read and write the same cells;
  the steps of such threads may interleave in ways that this execution does not show.
\<close>

definition rasterizeKernel ::
  "config \<Rightarrow> (fval \<Rightarrow> 32 word) \<Rightarrow> int \<Rightarrow> (int \<Rightarrow> Primitive) \<Rightarrow> int \<Rightarrow> int
     \<Rightarrow> buffers \<Rightarrow> buffers option" where
  "rasterizeKernel cfg float_as_int numPrims primitives width height st =
     (if numPrims \<le> 0 then None
      else (let numThreadsPerBlock = (if 128 < numPrims then 128 else numPrims);
                numBlocks = (numPrims + numThreadsPerBlock - 1) div numThreadsPerBlock
            in Some (fold (rasterizeThread cfg float_as_int numPrims primitives width height)
                       [0 .. numBlocks * numThreadsPerBlock - 1] st)))"


section \<open>rasterize.cu: buffer setup, vertex stage and primitive assembly\<close>

text \<open>
  The \<open>switch (primitive.mode)\<close> of \<open>rasterizeSetBuffers\<close>: the primitive type and the
  number of primitives of a mesh part with \<open>numIndices\<close> indices. The \<open>default\<close> branch
  assigns neither variable (\<open>None\<close>). \<open>numIndices\<close> is an accessor's count, so the
  integer divisions are on non-negative numbers.
\<close>

fun primitiveInfo :: "gltf_mode \<Rightarrow> int \<Rightarrow> (PrimitiveType \<times> int) option" where
  "primitiveInfo TRIANGLES n = Some (Triangle, n div 3)"
| "primitiveInfo TRIANGLE_STRIP n = Some (Triangle, n - 2)"
| "primitiveInfo TRIANGLE_FAN n = Some (Triangle, n - 2)"
| "primitiveInfo LINE n = Some (Line, n div 2)"
| "primitiveInfo LINE_LOOP n = Some (Line, n + 1)"
| "primitiveInfo POINTS n = Some (Point, n)"
| "primitiveInfo (OTHER_MODE m) n = None"

text \<open>
  The part record that \<open>rasterizeSetBuffers\<close> pushes: the mode and the number of indices
  come from the scene, the type and the number of primitives from the switch. In the
  \<open>default\<close> branch the two fields keep the values of the argument, which stand for the
  uninitialised variables.
\<close>

definition setPrimitiveInfo :: "PrimitiveDevBufPointers \<Rightarrow> PrimitiveDevBufPointers" where
  "setPrimitiveInfo part =
     (case primitiveInfo (primitiveMode part) (numIndices part) of
        Some (t, n) \<Rightarrow> part \<lparr> part_primitiveType := t, numPrimitives := n \<rparr>
      | None \<Rightarrow> part)"

text \<open>
  \<open>totalNumPrimitives\<close> after \<open>rasterizeSetBuffers\<close>: the sum over the parts, in the
  order in which the frame loop visits them.
\<close>

definition totalNumPrimitives :: "PrimitiveDevBufPointers list \<Rightarrow> int" where
  "totalNumPrimitives parts = sum_list (map numPrimitives parts)"

text \<open>
  The thread ids of a one-dimensional launch with 128 threads per block for \<open>n\<close> items,
  and of the two-dimensional launches with blocks of 8 by 8 threads over the image.
\<close>

definition launch1d :: "int \<Rightarrow> int list" where
  "launch1d n = [0 .. ((n + 128 - 1) div 128) * 128 - 1]"

definition launch2d :: "int \<Rightarrow> int \<Rightarrow> (int \<times> int) list" where
  "launch2d w h =
     List.product [0 .. ((w - 1) div 8 + 1) * 8 - 1] [0 .. ((h - 1) div 8 + 1) * 8 - 1]"

text \<open>One thread of \<open>_vertexTransformAndAssembly\<close>; the part is returned with its output
  vertex written.\<close>

definition vertexTransformAndAssembly ::
  "int \<Rightarrow> mat4 \<Rightarrow> mat4 \<Rightarrow> mat3 \<Rightarrow> int \<Rightarrow> int \<Rightarrow> int
     \<Rightarrow> PrimitiveDevBufPointers \<Rightarrow> PrimitiveDevBufPointers" where
  "vertexTransformAndAssembly numVerts MVP MV MV_normal width height vid primitive =
     (if vid < numVerts
      then (let p = dev_position primitive vid;
                position = Vec4 (x3 p) (y3 p) (z3 p) 1.0;
                clip = mat4_mul MVP position;
                ndc = div4 clip (w4 clip);
                transformedPosition =
                  Vec4 (0.5 * real_of_int width * (x4 ndc + 1.0))
                       (0.5 * real_of_int height * (1 - y4 ndc))
                       (z4 ndc) (w4 ndc);
                eye = mat4_mul MV position;
                eyeSpacePosition = div4 eye (w4 eye);
                out0 = (dev_verticesOut primitive vid)
                         \<lparr> eyeNor := normalize3 (mat3_mul MV_normal (dev_normal primitive vid)),
                           eyePos := vec3_of eyeSpacePosition,
                           pos := transformedPosition \<rparr>;
                out1 = (case part_dev_diffuseTex primitive of
                          Some tex \<Rightarrow> out0 \<lparr> dev_diffuseTex := Some tex,
                                             texcoord0 := dev_texcoord0 primitive vid,
                                             texWidth := diffuseTexWidth primitive,
                                             texHeight := diffuseTexHeight primitive \<rparr>
                        | None \<Rightarrow> out0);
                out2 = out1 \<lparr> materialId := part_materialId primitive,
                              color := Vec4 1.0 1.0 1.0 1.0 \<rparr>
            in primitive \<lparr> dev_verticesOut := (dev_verticesOut primitive)(vid := out2) \<rparr>)
      else primitive)"

definition vertexTransformAndAssemblyKernel ::
  "mat4 \<Rightarrow> mat4 \<Rightarrow> mat3 \<Rightarrow> int \<Rightarrow> int \<Rightarrow> PrimitiveDevBufPointers \<Rightarrow> PrimitiveDevBufPointers" where
  "vertexTransformAndAssemblyKernel MVP MV MV_normal width height primitive =
     fold (vertexTransformAndAssembly (numVertices primitive) MVP MV MV_normal width height)
       (launch1d (numVertices primitive)) primitive"

text \<open>One thread of \<open>_primitiveAssembly\<close>, and the launch for a part.\<close>

definition primitiveAssembly ::
  "int \<Rightarrow> int \<Rightarrow> PrimitiveDevBufPointers \<Rightarrow> int \<Rightarrow> (int \<Rightarrow> Primitive) \<Rightarrow> (int \<Rightarrow> Primitive)" where
  "primitiveAssembly numIdx curPrimitiveBeginId primitive iid dev_primitives =
     (if iid < numIdx
      then (if primitiveMode primitive = TRIANGLES
            then (let pid = iid div PrimitiveType_int (part_primitiveType primitive);
                      slot = pid + curPrimitiveBeginId;
                      k = iid mod PrimitiveType_int (part_primitiveType primitive);
                      vertex = dev_verticesOut primitive (uint (dev_indices primitive iid))
                  in dev_primitives(slot := (dev_primitives slot)
                       \<lparr> v := (v (dev_primitives slot))(k := vertex) \<rparr>))
            else dev_primitives)
      else dev_primitives)"

definition primitiveAssemblyKernel ::
  "int \<Rightarrow> PrimitiveDevBufPointers \<Rightarrow> (int \<Rightarrow> Primitive) \<Rightarrow> (int \<Rightarrow> Primitive)" where
  "primitiveAssemblyKernel curPrimitiveBeginId primitive dev_primitives =
     fold (primitiveAssembly (numIndices primitive) curPrimitiveBeginId primitive)
       (launch1d (numIndices primitive)) dev_primitives"

text \<open>
  The loop of \<open>rasterize\<close> over the parts (all parts of all meshes, in the order of the
  iteration): the vertex stage of a part, its primitive assembly at
  \<open>curPrimitiveBeginId\<close>, and the advance of \<open>curPrimitiveBeginId\<close> by the part's
  number of primitives.
\<close>

fun assembleParts ::
  "mat4 \<Rightarrow> mat4 \<Rightarrow> mat3 \<Rightarrow> int \<Rightarrow> int \<Rightarrow> int \<Rightarrow> PrimitiveDevBufPointers list
     \<Rightarrow> (int \<Rightarrow> Primitive) \<Rightarrow> (int \<Rightarrow> Primitive)" where
  "assembleParts MVP MV MV_normal width height curPrimitiveBeginId [] dev_primitives =
     dev_primitives"
| "assembleParts MVP MV MV_normal width height curPrimitiveBeginId (p # ps) dev_primitives =
     assembleParts MVP MV MV_normal width height (curPrimitiveBeginId + numPrimitives p) ps
       (primitiveAssemblyKernel curPrimitiveBeginId
          (vertexTransformAndAssemblyKernel MVP MV MV_normal width height p) dev_primitives)"

section \<open>rasterize.cu: the frame\<close>

definition shouldBackfaceCull :: "Primitive \<Rightarrow> bool" where
  "shouldBackfaceCull p =
     (let edge1 = sub4 (pos (v p 0)) (pos (v p 1));
          edge2 = sub4 (pos (v p 1)) (pos (v p 2));
          faceNormal = cross3 (vec3_of edge1) (vec3_of edge2)
      in dot3 faceNormal (neg3 (eyePos (v p 0))) < 0.0)"

text \<open>
  \<open>thrust::remove_if\<close> on the first \<open>n\<close> elements of an array: the elements that do
  not satisfy the predicate move to the front in their order, and the result is the array
  with the number of elements kept (the offset of the returned end from the start of the
  range). The elements behind the new end are left as they were.
\<close>

definition remove_if :: "('a \<Rightarrow> bool) \<Rightarrow> (int \<Rightarrow> 'a) \<Rightarrow> int \<Rightarrow> (int \<Rightarrow> 'a) \<times> int" where
  "remove_if pred arr n =
     (let kept = filter (\<lambda>e. \<not> pred e) (map arr [0 .. n - 1])
      in ((\<lambda>i. if 0 \<le> i \<and> i < int (length kept) then kept ! nat i else arr i),
          int (length kept)))"

text \<open>\<open>cudaMemcpy\<close> of the first \<open>n\<close> elements, and \<open>cudaMemset\<close> of them to the
  element that the byte pattern stands for.\<close>

definition cudaMemcpy :: "(int \<Rightarrow> 'a) \<Rightarrow> (int \<Rightarrow> 'a) \<Rightarrow> int \<Rightarrow> (int \<Rightarrow> 'a)" where
  "cudaMemcpy dst src n = (\<lambda>i. if 0 \<le> i \<and> i < n then src i else dst i)"

definition cudaMemset :: "(int \<Rightarrow> 'a) \<Rightarrow> 'a \<Rightarrow> int \<Rightarrow> (int \<Rightarrow> 'a)" where
  "cudaMemset dst e n = (\<lambda>i. if 0 \<le> i \<and> i < n then e else dst i)"

text \<open>
  The copy of the primitives and the culling step of \<open>rasterize\<close>. The two device
  pointers \<open>dev_primitives\<close> and \<open>dev_culledPrimitives\<close> are the addresses of the two
  arrays, counted in elements; the result is the array handed to the rasterizer and
  \<open>culledNumPrimitives\<close>.
\<close>

definition cullPrimitives ::
  "config \<Rightarrow> int \<Rightarrow> int \<Rightarrow> int \<Rightarrow> (int \<Rightarrow> Primitive) \<Rightarrow> (int \<Rightarrow> Primitive)
     \<Rightarrow> (int \<Rightarrow> Primitive) \<times> int" where
  "cullPrimitives cfg dev_primitives dev_culledPrimitives totalNum primitives culledPrimitives =
     (let copied = cudaMemcpy culledPrimitives primitives totalNum
      in if BACKFACE_CULLING cfg
         then (let r = remove_if shouldBackfaceCull copied totalNum;
                   dev_primitives_end = dev_culledPrimitives + snd r;
                   culledNumPrimitives = dev_primitives_end - dev_primitives
               in (fst r, if culledNumPrimitives \<le> 0 then 1 else culledNumPrimitives))
         else (copied, totalNum))"

text \<open>One thread of \<open>initDepth\<close>, and the launch over the image.\<close>

definition initDepth :: "int \<Rightarrow> int \<Rightarrow> int \<times> int \<Rightarrow> (int \<Rightarrow> fval) \<Rightarrow> (int \<Rightarrow> fval)" where
  "initDepth w h xy depth =
     (case xy of (x, y) \<Rightarrow>
        if x < w \<and> y < h then depth(x + (y * w) := PInf) else depth)"

definition initDepthKernel :: "int \<Rightarrow> int \<Rightarrow> (int \<Rightarrow> fval) \<Rightarrow> (int \<Rightarrow> fval)" where
  "initDepthKernel w h depth = fold (initDepth w h) (launch2d w h) depth"

text \<open>
  The clearing of the per-pixel buffers in \<open>rasterize\<close>. \<open>cudaMemset\<close> with the byte 0
  gives the fragment and the vector whose components are all zero; with the byte 1 it
  gives the float whose four bytes are \<open>0x01\<close>, which is
  \<open>2^(2 - 127) * (1 + 65793 / 2^23)\<close>.
\<close>

definition zeroFragment :: Fragment where
  "zeroFragment = \<lparr> f_color = Vec4 0 0 0 0, f_eyePos = Vec3 0 0 0, f_eyeNor = Vec3 0 0 0,
                    f_materialId = 0 \<rparr>"

definition float_0x01010101 :: real where
  "float_0x01010101 = (1 + 65793 / 2 ^ 23) / 2 ^ 125"

definition clearBuffers :: "int \<Rightarrow> int \<Rightarrow> buffers \<Rightarrow> buffers" where
  "clearBuffers width height st =
     \<lparr> fragmentBuffer = cudaMemset (fragmentBuffer st) zeroFragment (width * height),
       depths = initDepthKernel width height (depths st),
       depthAccum = cudaMemset (depthAccum st) (Vec4 0 0 0 0) (width * height),
       depthRevealage = cudaMemset (depthRevealage st) float_0x01010101 (width * height) \<rparr>"

text \<open>
  \<open>rasterize\<close> up to the end of the rasterizer kernel: assembly of all parts, the copy
  and the culling, the clearing of the buffers, and the launch of \<open>_rasterize\<close> on the
  culled array (\<open>None\<close> when there is no launch).
\<close>

definition rasterizeFrame ::
  "config \<Rightarrow> (fval \<Rightarrow> 32 word) \<Rightarrow> int \<Rightarrow> int \<Rightarrow> mat4 \<Rightarrow> mat4 \<Rightarrow> mat3 \<Rightarrow> int \<Rightarrow> int
     \<Rightarrow> PrimitiveDevBufPointers list \<Rightarrow> (int \<Rightarrow> Primitive) \<Rightarrow> (int \<Rightarrow> Primitive)
     \<Rightarrow> buffers \<Rightarrow> buffers option" where
  "rasterizeFrame cfg float_as_int dev_primitives dev_culledPrimitives MVP MV MV_normal
       width height parts primitives culledPrimitives st =
     (let assembled = assembleParts MVP MV MV_normal width height 0 parts primitives;
          culled = cullPrimitives cfg dev_primitives dev_culledPrimitives
                     (totalNumPrimitives parts) assembled culledPrimitives
      in rasterizeKernel cfg float_as_int (snd culled) (fst culled) width height
           (clearBuffers width height st))"

text \<open>
  \<open>sendImageToPBO\<close>. A channel of the surface is an \<open>unsigned char\<close>: the float
  assigned to it is truncated, and is in the range of the type after the clamp.
\<close>

definition to_uchar :: "real \<Rightarrow> 8 word" where
  "to_uchar r = word_of_int (itrunc r)"

definition sendImageToPBO ::
  "int \<Rightarrow> int \<Rightarrow> (int \<Rightarrow> vec4) \<Rightarrow> int \<times> int \<Rightarrow> (int \<Rightarrow> uchar4) \<Rightarrow> (int \<Rightarrow> uchar4)" where
  "sendImageToPBO w h img xy pbo =
     (case xy of (x, y) \<Rightarrow>
        (let index = x + (y * w)
         in if x < w \<and> y < h
            then (let cx = glm_clamp (x4 (img index)) 0.0 1.0 * 255.0;
                      cy = glm_clamp (y4 (img index)) 0.0 1.0 * 255.0;
                      cz = glm_clamp (z4 (img index)) 0.0 1.0 * 255.0;
                      cw = glm_clamp (z4 (img index)) 0.0 1.0 * 255.0
                  in pbo(index := Uchar4 (to_uchar cx) (to_uchar cy) (to_uchar cz) (to_uchar cw)))
            else pbo))"

definition sendImageToPBOKernel ::
  "int \<Rightarrow> int \<Rightarrow> (int \<Rightarrow> vec4) \<Rightarrow> (int \<Rightarrow> uchar4) \<Rightarrow> (int \<Rightarrow> uchar4)" where
  "sendImageToPBOKernel w h img pbo = fold (sendImageToPBO w h img) (launch2d w h) pbo"

text \<open>
  The texel index the specification gives for the nearest-neighbour lookup
  (\<open>floor(u*W) + floor(v*H)*W\<close>), to compare with \<open>nearestTexIndex\<close>.
\<close>

definition spec_nearestTexIndex :: "vec2 \<Rightarrow> int \<Rightarrow> int \<Rightarrow> int" where
  "spec_nearestTexIndex uv tw th =
     \<lfloor>x2 uv * real_of_int tw\<rfloor> + \<lfloor>y2 uv * real_of_int th\<rfloor> * tw"


section \<open>Example inputs\<close>

text \<open>
  Concrete inputs on which the properties below are evaluated: a vertex without texture and
  material, and an untextured triangle of one colour whose vertices have \<open>w = 1\<close>.
\<close>

definition exampleVertex :: "vec3 \<Rightarrow> vec4 \<Rightarrow> VertexOut" where
  "exampleVertex p c =
     \<lparr> pos = Vec4 (x3 p) (y3 p) (z3 p) 1, eyePos = Vec3 0 0 (- 1), eyeNor = Vec3 0 0 1,
       color = c, texcoord0 = Vec2 0 0, dev_diffuseTex = None, texWidth = 0, texHeight = 0,
       materialId = - 1 \<rparr>"

definition flatTriangle :: "vec3 \<Rightarrow> vec3 \<Rightarrow> vec3 \<Rightarrow> vec4 \<Rightarrow> Primitive" where
  "flatTriangle p0 p1 p2 c =
     \<lparr> primitiveType = Triangle,
       v = (\<lambda>i. if i = 0 then exampleVertex p0 c
                else if i = 1 then exampleVertex p1 c else exampleVertex p2 c) \<rparr>"

text \<open>The buffers as \<open>rasterize\<close> clears them, and three builds.\<close>

definition clearedBuffers :: buffers where
  "clearedBuffers =
     \<lparr> fragmentBuffer = (\<lambda>i. zeroFragment), depths = (\<lambda>i. PInf),
       depthAccum = (\<lambda>i. Vec4 0 0 0 0), depthRevealage = (\<lambda>i. float_0x01010101) \<rparr>"

definition standardConfig :: config where
  "standardConfig =
     \<lparr> BILINEAR_FILTERING = False, BACKFACE_CULLING = False, USE_K_BUFFER = False \<rparr>"

definition kbufferConfig :: config where
  "kbufferConfig =
     \<lparr> BILINEAR_FILTERING = False, BACKFACE_CULLING = False, USE_K_BUFFER = True \<rparr>"

definition cullingConfig :: config where
  "cullingConfig =
     \<lparr> BILINEAR_FILTERING = False, BACKFACE_CULLING = True, USE_K_BUFFER = False \<rparr>"

text \<open>
  Two triangles over the same pixels at depths 0.3 (red) and 0.7 (blue), the same pair in
  grey and black, and a triangle that extends beyond a 4 by 4 image.
\<close>

definition nearTriangle :: Primitive where
  "nearTriangle =
     flatTriangle (Vec3 10 10 (3/10)) (Vec3 20 10 (3/10)) (Vec3 10 20 (3/10)) (Vec4 1 0 0 1)"

definition farTriangle :: Primitive where
  "farTriangle =
     flatTriangle (Vec3 10 10 (7/10)) (Vec3 20 10 (7/10)) (Vec3 10 20 (7/10)) (Vec4 0 0 1 1)"

definition greyTriangle :: Primitive where
  "greyTriangle =
     flatTriangle (Vec3 10 10 (3/10)) (Vec3 20 10 (3/10)) (Vec3 10 20 (3/10))
       (Vec4 (1/2) (1/2) (1/2) 1)"

definition blackTriangle :: Primitive where
  "blackTriangle =
     flatTriangle (Vec3 10 10 (7/10)) (Vec3 20 10 (7/10)) (Vec3 10 20 (7/10)) (Vec4 0 0 0 1)"

definition bigTriangle :: Primitive where
  "bigTriangle = flatTriangle (Vec3 0 0 1) (Vec3 10 0 1) (Vec3 0 10 1) (Vec4 1 1 1 1)"

text \<open>
  A red triangle at depth 1/2 over the pixels near the origin, and a blue triangle whose
  depth falls from 1 at its first vertex to 1/8 at its second: at the pixel (0, 1) the
  blue one is behind the red one. A green triangle wound the other way, which culling
  removes.
\<close>

definition frontTriangle :: Primitive where
  "frontTriangle =
     flatTriangle (Vec3 0 0 (1/2)) (Vec3 2 0 (1/2)) (Vec3 0 2 (1/2)) (Vec4 1 0 0 1)"

definition slopedTriangle :: Primitive where
  "slopedTriangle = flatTriangle (Vec3 0 0 1) (Vec3 8 0 (1/8)) (Vec3 0 8 1) (Vec4 0 0 1 1)"

definition backTriangle :: Primitive where
  "backTriangle =
     flatTriangle (Vec3 10 10 (3/10)) (Vec3 10 20 (3/10)) (Vec3 20 10 (3/10)) (Vec4 0 1 0 1)"

text \<open>
  A mesh part of three vertices with the given mode and number of indices, as the scene
  gives it (type and count not yet set); the identity of \<open>mat3\<close>; and a stand-in for
  \<open>__float_as_int\<close> where an evaluation needs one (no result depends on it).
\<close>

definition examplePart :: "gltf_mode \<Rightarrow> int \<Rightarrow> PrimitiveDevBufPointers" where
  "examplePart mode n =
     \<lparr> primitiveMode = mode, part_primitiveType = Point, numPrimitives = 0, numIndices = n,
       numVertices = 3,
       dev_indices = (\<lambda>i. word_of_int (i mod 3)),
       dev_position = (\<lambda>i. if i = 0 then Vec3 (1/2) (- 1/2) (1/5)
                             else if i = 1 then Vec3 1 0 (1/5) else Vec3 0 1 (1/5)),
       dev_normal = (\<lambda>i. Vec3 0 0 1),
       dev_texcoord0 = (\<lambda>i. Vec2 0 0),
       part_dev_diffuseTex = None, diffuseTexWidth = 0, diffuseTexHeight = 0,
       part_materialId = - 1,
       dev_verticesOut = (\<lambda>i. exampleVertex (Vec3 0 0 0) (Vec4 0 0 0 0)) \<rparr>"

definition identity3 :: mat3 where
  "identity3 = Mat3 (Vec3 1 0 0) (Vec3 0 1 0) (Vec3 0 0 1)"

text \<open>
  The three output vertices of the example part after the vertex stage, with the identity
  for the three matrices and a viewport of 32 by 32.
\<close>

definition exampleOut0 :: VertexOut where
  "exampleOut0 = (exampleVertex (Vec3 24 24 (1/5)) (Vec4 1 1 1 1))
                   \<lparr> eyePos := Vec3 (1/2) (- 1/2) (1/5) \<rparr>"

definition exampleOut1 :: VertexOut where
  "exampleOut1 = (exampleVertex (Vec3 32 16 (1/5)) (Vec4 1 1 1 1))
                   \<lparr> eyePos := Vec3 1 0 (1/5) \<rparr>"

definition exampleOut2 :: VertexOut where
  "exampleOut2 = (exampleVertex (Vec3 16 0 (1/5)) (Vec4 1 1 1 1))
                   \<lparr> eyePos := Vec3 0 1 (1/5) \<rparr>"

definition zeroBits :: "fval \<Rightarrow> 32 word" where
  "zeroBits f = 0"

section \<open>Perspective-correct depth\<close>

lemma convex3_bounds:
  fixes a b c r0 r1 r2 lo hi :: real
  assumes w: "0 < a" "0 < b" "0 < c" "a + b + c = 1"
    and r: "lo \<le> r0" "r0 \<le> hi" "lo \<le> r1" "r1 \<le> hi" "lo \<le> r2" "r2 \<le> hi"
  shows "lo \<le> a * r0 + b * r1 + c * r2 \<and> a * r0 + b * r1 + c * r2 \<le> hi"
proof -
  have l: "a * lo \<le> a * r0" "b * lo \<le> b * r1" "c * lo \<le> c * r2"
    using w r by simp_all
  have u: "a * r0 \<le> a * hi" "b * r1 \<le> b * hi" "c * r2 \<le> c * hi"
    using w r by simp_all
  have s: "a * lo + b * lo + c * lo = lo" "a * hi + b * hi + c * hi = hi"
    using w(4) by (simp_all add: distrib_right [symmetric])
  show ?thesis
    using l u s by linarith
qed

lemma reciprocal_sum_between:
  fixes a b c z0 z1 z2 :: real
  assumes w: "0 < a" "0 < b" "0 < c" "a + b + c = 1"
    and z: "(0 < z0 \<and> 0 < z1 \<and> 0 < z2) \<or> (z0 < 0 \<and> z1 < 0 \<and> z2 < 0)"
  shows "min (min z0 z1) z2 \<le> 1 / (a / z0 + b / z1 + c / z2)
       \<and> 1 / (a / z0 + b / z1 + c / z2) \<le> max (max z0 z1) z2"
proof -
  define m where "m = min (min z0 z1) z2"
  define M where "M = max (max z0 z1) z2"
  define S where "S = a * (1 / z0) + b * (1 / z1) + c * (1 / z2)"
  have b0: "m \<le> z0" "z0 \<le> M" "m \<le> z1" "z1 \<le> M" "m \<le> z2" "z2 \<le> M"
    by (auto simp: m_def M_def)
  have sgn: "(0 < m \<and> 0 < M) \<or> (m < 0 \<and> M < 0)"
    using z by (auto simp: m_def M_def)
  have r: "1 / M \<le> 1 / z0" "1 / z0 \<le> 1 / m" "1 / M \<le> 1 / z1" "1 / z1 \<le> 1 / m"
          "1 / M \<le> 1 / z2" "1 / z2 \<le> 1 / m"
    using b0 z sgn by (auto simp: field_simps)
  from convex3_bounds [OF w r]
  have S: "1 / M \<le> S" "S \<le> 1 / m"
    by (simp_all add: S_def)
  have "m \<le> 1 / S \<and> 1 / S \<le> M"
  proof (rule disjE [OF sgn])
    assume p: "0 < m \<and> 0 < M"
    then have "0 < 1 / M" by simp
    with S(1) have Spos: "0 < S" by linarith
    show ?thesis using S p Spos by (simp add: field_simps)
  next
    assume n: "m < 0 \<and> M < 0"
    then have "1 / m < 0" by simp
    with S(2) have Sneg: "S < 0" by linarith
    show ?thesis using S n Sneg by (simp add: field_simps)
  qed
  moreover have "a / z0 + b / z1 + c / z2 = S" by (simp add: S_def)
  ultimately show ?thesis unfolding m_def M_def by simp
qed

text \<open>
  On exact arithmetic: for weights strictly between 0 and 1 that sum to 1 and vertex
  depths of one sign, the reciprocal of the weighted sum of the reciprocal depths lies
  between the smallest and the largest depth.
\<close>

lemma exact_depth_between_vertex_depths:
  assumes "0 < x3 b" "x3 b < 1" "0 < y3 b" "y3 b < 1" "0 < z3 b" "z3 b < 1"
    and "x3 b + y3 b + z3 b = 1"
    and "(0 < z3 t0 \<and> 0 < z3 t1 \<and> 0 < z3 t2) \<or> (z3 t0 < 0 \<and> z3 t1 < 0 \<and> z3 t2 < 0)"
  shows "min (min (z3 t0) (z3 t1)) (z3 t2) \<le> getPerspectiveCorrectZAtCoordinate b (t0, t1, t2)
       \<and> getPerspectiveCorrectZAtCoordinate b (t0, t1, t2) \<le> max (max (z3 t0) (z3 t1)) (z3 t2)"
  using reciprocal_sum_between [OF assms(1) assms(3) assms(5) assms(7) assms(8)]
  by simp

subsection \<open>Rounding to single precision\<close>

text \<open>
  The exponent that \<open>ilog2\<close> computes is that of the number,
  \<open>2 ^ ilog2 x \<le> x < 2 ^ (ilog2 x + 1)\<close>, and \<open>rne\<close> is within 1/2 of its argument.
  So the rounding of a magnitude differs from it by at most half a unit in the last
  place: by at most \<open>x / 2 ^ 24\<close>, or by at most \<open>2 ^ -150\<close> where the format has
  no more bits.
\<close>

lemma ilog2_lower:
  assumes "0 < x"
  shows "2 powi (ilog2 x) \<le> x"
proof (cases "1 \<le> x")
  case True
  then have n: "0 < \<lfloor>x\<rfloor>" by simp
  have b: "1 \<le> bitlen \<lfloor>x\<rfloor>"
    using n by (simp add: bitlen_alt_def)
  have "(2::int) ^ nat (bitlen \<lfloor>x\<rfloor> - 1) \<le> \<lfloor>x\<rfloor>"
    using bitlen_bounds [OF n] by simp
  then have "real_of_int (2 ^ nat (bitlen \<lfloor>x\<rfloor> - 1)) \<le> x"
    by (simp only: le_floor_iff)
  then have "(2::real) ^ nat (bitlen \<lfloor>x\<rfloor> - 1) \<le> x"
    by simp
  moreover have "(2::real) powi (bitlen \<lfloor>x\<rfloor> - 1) = 2 ^ nat (bitlen \<lfloor>x\<rfloor> - 1)"
    using b by (simp add: power_int_nonneg_exp)
  ultimately show ?thesis
    using True by (simp add: ilog2_def)
next
  case False
  let ?n = "\<lceil>1 / x\<rceil>"
  let ?k = "bitlen (?n - 1)"
  have x1: "x < 1" using False by simp
  then have "1 < 1 / x" using assms by simp
  then have n: "0 < ?n - 1" by (simp add: less_ceiling_iff)
  have "?n - 1 < 2 ^ nat ?k"
    using bitlen_bounds [OF n] by simp
  then have "?n \<le> 2 ^ nat ?k" by simp
  then have "real_of_int ?n \<le> 2 ^ nat ?k"
    by (metis of_int_le_iff of_int_numeral of_int_power)
  moreover have "1 / x \<le> real_of_int ?n" by (rule le_of_int_ceiling)
  ultimately have "1 / x \<le> 2 ^ nat ?k" by linarith
  then have "1 / 2 ^ nat ?k \<le> x"
    using assms by (simp add: field_simps)
  moreover have "(2::real) powi (- ?k) = 1 / 2 ^ nat ?k"
    using bitlen_nonneg [of "?n - 1"] by (simp add: power_int_minus_divide power_int_nonneg_exp)
  ultimately show ?thesis
    using False by (simp add: ilog2_def)
qed

lemma ilog2_upper:
  assumes "0 < x"
  shows "x < 2 powi (ilog2 x + 1)"
proof (cases "1 \<le> x")
  case True
  then have n: "0 < \<lfloor>x\<rfloor>" by simp
  have b: "1 \<le> bitlen \<lfloor>x\<rfloor>"
    using n by (simp add: bitlen_alt_def)
  have "\<lfloor>x\<rfloor> < 2 ^ nat (bitlen \<lfloor>x\<rfloor>)"
    using bitlen_bounds [OF n] by simp
  then have "\<lfloor>x\<rfloor> + 1 \<le> 2 ^ nat (bitlen \<lfloor>x\<rfloor>)" by simp
  then have "real_of_int (\<lfloor>x\<rfloor> + 1) \<le> real_of_int (2 ^ nat (bitlen \<lfloor>x\<rfloor>))"
    by (simp only: of_int_le_iff)
  moreover have "x < real_of_int (\<lfloor>x\<rfloor> + 1)" by linarith
  moreover have "real_of_int (2 ^ nat (bitlen \<lfloor>x\<rfloor>)) = 2 ^ nat (bitlen \<lfloor>x\<rfloor>)" by simp
  ultimately have "x < 2 ^ nat (bitlen \<lfloor>x\<rfloor>)" by linarith
  moreover have "(2::real) powi (bitlen \<lfloor>x\<rfloor>) = 2 ^ nat (bitlen \<lfloor>x\<rfloor>)"
    using b by (simp add: power_int_nonneg_exp)
  ultimately show ?thesis
    using True by (simp add: ilog2_def)
next
  case False
  let ?n = "\<lceil>1 / x\<rceil>"
  let ?k = "bitlen (?n - 1)"
  have x1: "x < 1" using False by simp
  then have "1 < 1 / x" using assms by simp
  then have n: "0 < ?n - 1" by (simp add: less_ceiling_iff)
  have k: "1 \<le> ?k" using n by (simp add: bitlen_alt_def)
  have "2 ^ nat (?k - 1) \<le> ?n - 1"
    using bitlen_bounds [OF n] by simp
  then have "real_of_int (2 ^ nat (?k - 1)) \<le> real_of_int (?n - 1)"
    by (simp only: of_int_le_iff)
  moreover have "real_of_int (?n - 1) < 1 / x" by linarith
  moreover have "real_of_int (2 ^ nat (?k - 1)) = 2 ^ nat (?k - 1)" by simp
  ultimately have "2 ^ nat (?k - 1) < 1 / x" by linarith
  then have "x < 1 / 2 ^ nat (?k - 1)"
    using assms by (simp add: field_simps)
  moreover have "(2::real) powi (- ?k + 1) = 1 / 2 ^ nat (?k - 1)"
  proof -
    have "(2::real) powi (- ?k + 1) = 2 powi (- (?k - 1))" by simp
    also have "\<dots> = 1 / 2 powi (?k - 1)" by (rule power_int_minus_divide)
    also have "\<dots> = 1 / 2 ^ nat (?k - 1)"
      using k by (simp add: power_int_nonneg_exp)
    finally show ?thesis .
  qed
  ultimately show ?thesis
    using False by (simp add: ilog2_def)
qed

lemma rne_error: "\<bar>real_of_int (rne y) - y\<bar> \<le> 1 / 2"
proof -
  have "real_of_int \<lfloor>y\<rfloor> \<le> y" "y < real_of_int \<lfloor>y\<rfloor> + 1" by linarith+
  then show ?thesis
    unfolding rne_def Let_def by (auto simp: abs_le_iff)
qed

lemma rne_nonneg: "0 \<le> y \<Longrightarrow> 0 \<le> rne y"
  unfolding rne_def Let_def by auto

lemma round_magnitude_error:
  assumes "0 < x"
  shows "0 \<le> round_magnitude 24 (- 149) x"
    and "\<bar>round_magnitude 24 (- 149) x - x\<bar> \<le> max (x / 2 ^ 24) (1 / 2 ^ 150)"
proof -
  define q where "q = max (ilog2 x - (24 - 1)) (- 149)"
  define s :: real where "s = 2 powi q"
  have s0: "0 < s" by (simp add: s_def)
  have r: "round_magnitude 24 (- 149) x = real_of_int (rne (x / s)) * s"
    by (simp add: round_magnitude_def Let_def q_def s_def)
  have "0 \<le> x / s" using assms s0 by simp
  then have "0 \<le> rne (x / s)" by (rule rne_nonneg)
  then show "0 \<le> round_magnitude 24 (- 149) x"
    unfolding r using s0 by simp
  have "real_of_int (rne (x / s)) * s - x = (real_of_int (rne (x / s)) - x / s) * s"
    using s0 by (simp add: field_simps)
  then have "\<bar>real_of_int (rne (x / s)) * s - x\<bar> = \<bar>real_of_int (rne (x / s)) - x / s\<bar> * s"
    using s0 by (simp add: abs_mult)
  also have "\<dots> \<le> 1 / 2 * s"
    using rne_error [of "x / s"] s0 by (intro mult_right_mono) simp_all
  finally have e: "\<bar>round_magnitude 24 (- 149) x - x\<bar> \<le> s / 2"
    unfolding r by simp
  have "s / 2 \<le> max (x / 2 ^ 24) (1 / 2 ^ 150)"
  proof (cases "- 149 \<le> ilog2 x - 23")
    case True
    then have "q = ilog2 x - 23" by (simp add: q_def)
    then have "s = 2 powi (ilog2 x) / 2 powi 23"
      unfolding s_def by (simp add: power_int_diff)
    then have "s / 2 = 2 powi (ilog2 x) / 2 ^ 24"
      by simp
    also have "\<dots> \<le> x / 2 ^ 24"
      using ilog2_lower [OF assms] by (simp add: divide_right_mono)
    finally show ?thesis by simp
  next
    case False
    then have "q = - 149" by (simp add: q_def)
    then have "s / 2 = 1 / 2 ^ 150"
      by (simp add: s_def power_int_minus_divide)
    then show ?thesis by simp
  qed
  with e show "\<bar>round_magnitude 24 (- 149) x - x\<bar> \<le> max (x / 2 ^ 24) (1 / 2 ^ 150)"
    by linarith
qed

lemma round32_error:
  assumes "\<bar>x\<bar> \<le> 2 ^ 127"
  shows "\<exists>r. round32 x = Fin r \<and> \<bar>r - x\<bar> \<le> max (\<bar>x\<bar> / 2 ^ 24) (1 / 2 ^ 150)
           \<and> (0 \<le> x \<longrightarrow> 0 \<le> r) \<and> (x \<le> 0 \<longrightarrow> r \<le> 0)"
proof (cases "x = 0")
  case True
  then show ?thesis by (simp add: round32_def float_round_def)
next
  case False
  then have p: "0 < \<bar>x\<bar>" by simp
  let ?r = "round_magnitude 24 (- 149) \<bar>x\<bar>"
  note e = round_magnitude_error [OF p]
  have "max (\<bar>x\<bar> / 2 ^ 24) (1 / 2 ^ 150) \<le> 2 ^ 127 / 2 ^ 24"
    using assms by (simp add: divide_right_mono)
  then have "?r \<le> 2 ^ 127 + 2 ^ 127 / 2 ^ 24"
    using e(2) assms by linarith
  also have "\<dots> < 2 ^ 128" by simp
  finally have lt: "?r < 2 ^ 128" .
  have no: "\<not> 128 \<le> ilog2 ?r" if "?r \<noteq> 0"
  proof
    assume "128 \<le> ilog2 ?r"
    then have "(2::real) powi 128 \<le> 2 powi (ilog2 ?r)"
      by (intro power_int_increasing) simp_all
    also have "\<dots> \<le> ?r"
      using e(1) that by (intro ilog2_lower) simp
    finally show False using lt by simp
  qed
  show ?thesis
  proof (cases "?r = 0")
    case True
    then have "round32 x = Fin 0"
      using \<open>x \<noteq> 0\<close> by (simp add: round32_def float_round_def Let_def)
    moreover have "\<bar>0 - x\<bar> = \<bar>?r - \<bar>x\<bar>\<bar>" using True by simp
    ultimately show ?thesis
      using e(2) by simp
  next
    case r0: False
    show ?thesis
    proof (cases "0 < x")
      case True
      then have "round32 x = Fin ?r"
        using no [OF r0] r0 by (simp add: round32_def float_round_def Let_def)
      then show ?thesis
        using e True by simp
    next
      case False
      then have n: "x < 0" using \<open>x \<noteq> 0\<close> by simp
      then have "round32 x = Fin (- ?r)"
        using no [OF r0] r0 by (simp add: round32_def float_round_def Let_def)
      moreover have "\<bar>- ?r - x\<bar> = \<bar>?r - \<bar>x\<bar>\<bar>" using n by simp
      ultimately show ?thesis
        using e n by simp
    qed
  qed
qed

lemma round32_neg: "round32 (- x) = fneg (round32 x)"
  by (simp add: round32_def float_round_def Let_def)

text \<open>
  The steps of the interpolation in the form in which they are chained: a rounding of a
  non-negative number below the overflow threshold, and a rounding of a number in the
  normal range of the format.
\<close>

lemma round32_step:
  assumes "0 \<le> x" "x \<le> 2 ^ 127"
  obtains r where "round32 x = Fin r" "0 \<le> r" "r \<le> x + x / 2 ^ 24 + 1 / 2 ^ 150"
    "x - x / 2 ^ 24 - 1 / 2 ^ 150 \<le> r"
proof -
  from round32_error [of x] assms obtain r where
    r: "round32 x = Fin r" "\<bar>r - x\<bar> \<le> max (\<bar>x\<bar> / 2 ^ 24) (1 / 2 ^ 150)" "0 \<le> r"
    by auto
  have "max (\<bar>x\<bar> / 2 ^ 24) (1 / 2 ^ 150) \<le> x / 2 ^ 24 + 1 / 2 ^ 150"
    using assms(1) by simp
  with r(2) have "r \<le> x + x / 2 ^ 24 + 1 / 2 ^ 150" "x - x / 2 ^ 24 - 1 / 2 ^ 150 \<le> r"
    by linarith+
  with r(1,3) that show thesis by blast
qed

lemma round32_step_normal:
  assumes "1 / 2 ^ 126 \<le> x" "x \<le> 2 ^ 127"
  obtains r where "round32 x = Fin r" "r \<le> x + x / 2 ^ 24" "x - x / 2 ^ 24 \<le> r"
proof -
  have "(0::real) \<le> 1 / 2 ^ 126" by simp
  then have x0: "0 \<le> x" using assms(1) by linarith
  from round32_error [of x] assms x0 obtain r where
    r: "round32 x = Fin r" "\<bar>r - x\<bar> \<le> max (\<bar>x\<bar> / 2 ^ 24) (1 / 2 ^ 150)"
    by auto
  have "(1 / 2 ^ 126) / 2 ^ 24 \<le> x / 2 ^ 24"
    using assms(1) by (intro divide_right_mono) simp_all
  then have "1 / 2 ^ 150 \<le> x / 2 ^ 24" by simp
  then have "max (\<bar>x\<bar> / 2 ^ 24) (1 / 2 ^ 150) = x / 2 ^ 24"
    using x0 by simp
  with r(2) have "r \<le> x + x / 2 ^ 24" "x - x / 2 ^ 24 \<le> r"
    by linarith+
  with r(1) that show thesis by blast
qed

lemma round32_near:
  assumes "0 \<le> x" "x \<le> 2 ^ 127"
  obtains r where "round32 x = Fin r" "0 \<le> r" "r \<le> x + x / 16777216 + 1 / 2 ^ 150"
    "x - x / 16777216 - 1 / 2 ^ 150 \<le> r"
proof -
  obtain r where "round32 x = Fin r" "0 \<le> r" "r \<le> x + x / 2 ^ 24 + 1 / 2 ^ 150"
    "x - x / 2 ^ 24 - 1 / 2 ^ 150 \<le> r"
    using round32_step [OF assms] by blast
  moreover have "(2::real) ^ 24 = 16777216" by simp
  ultimately show thesis using that by simp
qed

lemma round32_near_normal:
  assumes "1 / 2 ^ 126 \<le> x" "x \<le> 2 ^ 127"
  obtains r where "round32 x = Fin r" "r \<le> x + x / 16777216" "x - x / 16777216 \<le> r"
proof -
  obtain r where "round32 x = Fin r" "r \<le> x + x / 2 ^ 24" "x - x / 2 ^ 24 \<le> r"
    using round32_step_normal [OF assms] by blast
  moreover have "(2::real) ^ 24 = 16777216" by simp
  ultimately show thesis using that by simp
qed


subsection \<open>The interpolated depth\<close>

text \<open>A quotient of a weight below 1 by a depth of magnitude at least 2^-100.\<close>

lemma weight_over_depth:
  fixes a z :: real
  assumes "0 < a" "a < 1" "1 / 2 ^ 100 \<le> z"
  shows "0 < a / z" "a / z \<le> 2 ^ 100"
proof -
  have "(0::real) < 1 / 2 ^ 100" by simp
  then have z0: "0 < z" using assms(3) by linarith
  show "0 < a / z" using assms(1) z0 by simp
  have "1 \<le> z * 2 ^ 100" using assms(3) by (simp add: field_simps)
  then have "a \<le> z * 2 ^ 100" using assms(2) by linarith
  then show "a / z \<le> 2 ^ 100" using z0 by (simp add: field_simps)
qed


lemma three_roundings_sum:
  fixes q0 q1 q2 f0 f1 f2 s1 s2 S e :: real
  assumes "f0 \<le> q0 + q0 / 16777216 + e" "q0 - q0 / 16777216 - e \<le> f0"
    "f1 \<le> q1 + q1 / 16777216 + e" "q1 - q1 / 16777216 - e \<le> f1"
    "f2 \<le> q2 + q2 / 16777216 + e" "q2 - q2 / 16777216 - e \<le> f2"
    "s1 \<le> (f0 + f1) + (f0 + f1) / 16777216 + e"
    "(f0 + f1) - (f0 + f1) / 16777216 - e \<le> s1"
    "s2 \<le> (s1 + f2) + (s1 + f2) / 16777216 + e"
    "(s1 + f2) - (s1 + f2) / 16777216 - e \<le> s2"
    "e \<le> S / 1125899906842624" "0 < q0" "0 < q1" "0 < q2" "S = q0 + q1 + q2" "0 \<le> e"
  shows "S - S / 4194304 \<le> s2" "s2 \<le> S + S / 4194304"
  using assms unfolding add_divide_distrib by linarith+

lemma sums_in_range:
  fixes q0 q1 q2 f0 f1 f2 s1 T e :: real
  assumes "f0 \<le> q0 + q0 / 16777216 + e" "f1 \<le> q1 + q1 / 16777216 + e"
    "f2 \<le> q2 + q2 / 16777216 + e"
    "q0 \<le> T" "q1 \<le> T" "q2 \<le> T" "e \<le> 1" "0 \<le> T" "0 \<le> f0" "0 \<le> f1" "0 \<le> f2"
  shows "f0 + f1 \<le> 4 * T + 2"
    and "0 \<le> s1 \<Longrightarrow> s1 \<le> (f0 + f1) + (f0 + f1) / 16777216 + e \<Longrightarrow> s1 + f2 \<le> 12 * T + 6"
  using assms unfolding add_divide_distrib by linarith+

lemma reciprocal_in_range:
  fixes D R m M t T :: real
  assumes "D - D / 4194304 \<le> R" "R \<le> D + D / 4194304" "m \<le> R" "R \<le> M"
    "t \<le> m" "M \<le> T" "0 \<le> t" "0 \<le> T"
  shows "t / 2 \<le> D" "D \<le> 2 * T"
  using assms by linarith+

lemma last_rounding:
  fixes d D R m M :: real
  assumes "d \<le> D + D / 16777216" "D - D / 16777216 \<le> d"
    "D - D / 4194304 \<le> R" "R \<le> D + D / 4194304" "m \<le> R" "R \<le> M" "0 < m" "0 < M"
  shows "m - m / 2097152 \<le> d" "d \<le> M + M / 2097152"
  using assms by linarith+

lemma reciprocal_within:
  fixes S s :: real
  assumes "0 < S" "S - S / 4194304 \<le> s" "s \<le> S + S / 4194304"
  shows "0 < s" "(1 / s) - (1 / s) / 4194304 \<le> 1 / S" "1 / S \<le> (1 / s) + (1 / s) / 4194304"
proof -
  show s0: "0 < s" using assms(1,2) by linarith
  have "(1 - 1 / 4194304) * S \<le> s" using assms(2) by (simp add: algebra_simps)
  then have "(1 - 1 / 4194304) / s \<le> 1 / S"
    using s0 assms(1) by (simp add: field_simps)
  then show "(1 / s) - (1 / s) / 4194304 \<le> 1 / S"
    by (simp add: diff_divide_distrib)
  have "s \<le> (1 + 1 / 4194304) * S" using assms(3) by (simp add: algebra_simps)
  then have "1 / S \<le> (1 + 1 / 4194304) / s"
    using s0 assms(1) by (simp add: field_simps)
  then show "1 / S \<le> (1 / s) + (1 / s) / 4194304"
    by (simp add: add_divide_distrib)
qed

lemma depth32_positive:
  fixes a b c z0 z1 z2 :: real
  assumes w: "0 < a" "a < 1" "0 < b" "b < 1" "0 < c" "c < 1" "a + b + c = 1"
    and z: "1 / 2 ^ 100 \<le> z0" "z0 \<le> 2 ^ 100" "1 / 2 ^ 100 \<le> z1" "z1 \<le> 2 ^ 100"
           "1 / 2 ^ 100 \<le> z2" "z2 \<le> 2 ^ 100"
  shows "\<exists>d. getPerspectiveCorrectZAtCoordinate32 (FVec3 (Fin a) (Fin b) (Fin c))
               (FVec3 vx0 vy0 (Fin z0), FVec3 vx1 vy1 (Fin z1), FVec3 vx2 vy2 (Fin z2)) = Fin d
           \<and> min (min z0 z1) z2 - min (min z0 z1) z2 / 2 ^ 21 \<le> d
           \<and> d \<le> max (max z0 z1) z2 + max (max z0 z1) z2 / 2 ^ 21"
proof -
  define m where "m = min (min z0 z1) z2"
  define M where "M = max (max z0 z1) z2"
  define S where "S = a / z0 + b / z1 + c / z2"
  define T :: real where "T = 2 ^ 100"
  define t :: real where "t = 1 / 2 ^ 100"
  define e :: real where "e = 1 / 2 ^ 150"
  have c0: "0 < t" "0 < T" "0 \<le> e" "e \<le> 1"
    by (simp_all add: t_def T_def e_def)
  have c1: "T \<le> 2 ^ 127" "4 * T + 2 \<le> 2 ^ 127" "12 * T + 6 \<le> 2 ^ 127" "2 * T \<le> 2 ^ 127"
    by (simp_all add: T_def)
  have c2: "1 / 2 ^ 126 \<le> t / 2"
    by (simp add: t_def)
  have c3: "e = t / 1125899906842624"
    by (simp add: t_def e_def)
  have zp: "0 < z0" "0 < z1" "0 < z2" using z c0(1) unfolding t_def by linarith+
  have mM: "t \<le> m" "M \<le> T" "0 < m" "0 < M"
    using z zp by (auto simp: m_def M_def t_def T_def)
  have q0: "0 < a / z0" "a / z0 \<le> T"
    using weight_over_depth [OF w(1) w(2) z(1)] by (simp_all add: T_def)
  have q1: "0 < b / z1" "b / z1 \<le> T"
    using weight_over_depth [OF w(3) w(4) z(3)] by (simp_all add: T_def)
  have q2: "0 < c / z2" "c / z2 \<le> T"
    using weight_over_depth [OF w(5) w(6) z(5)] by (simp_all add: T_def)
  have R: "m \<le> 1 / S" "1 / S \<le> M"
    using reciprocal_sum_between [OF w(1) w(3) w(5) w(7), of z0 z1 z2] zp
    by (simp_all add: m_def M_def S_def)
  have S0: "0 < S" using q0(1) q1(1) q2(1) unfolding S_def by linarith
  have "1 / S \<le> T" using R(2) mM(2) by linarith
  then have "1 \<le> T * S" using S0 by (simp add: field_simps)
  then have "t \<le> S" by (simp add: t_def T_def field_simps)
  then have eta: "e \<le> S / 1125899906842624"
    unfolding c3 by simp
  have q0r: "0 \<le> a / z0" "a / z0 \<le> 2 ^ 127" using q0 c1(1) by linarith+
  have q1r: "0 \<le> b / z1" "b / z1 \<le> 2 ^ 127" using q1 c1(1) by linarith+
  have q2r: "0 \<le> c / z2" "c / z2 \<le> 2 ^ 127" using q2 c1(1) by linarith+
  obtain f0 where f0: "round32 (a / z0) = Fin f0" "0 \<le> f0"
      "f0 \<le> a / z0 + (a / z0) / 16777216 + e" "a / z0 - (a / z0) / 16777216 - e \<le> f0"
    using round32_near [OF q0r] unfolding e_def by blast
  obtain f1 where f1: "round32 (b / z1) = Fin f1" "0 \<le> f1"
      "f1 \<le> b / z1 + (b / z1) / 16777216 + e" "b / z1 - (b / z1) / 16777216 - e \<le> f1"
    using round32_near [OF q1r] unfolding e_def by blast
  obtain f2 where f2: "round32 (c / z2) = Fin f2" "0 \<le> f2"
      "f2 \<le> c / z2 + (c / z2) / 16777216 + e" "c / z2 - (c / z2) / 16777216 - e \<le> f2"
    using round32_near [OF q2r] unfolding e_def by blast
  note rng = sums_in_range [OF f0(3) f1(3) f2(3) q0(2) q1(2) q2(2) c0(4) less_imp_le [OF c0(2)]
      f0(2) f1(2) f2(2)]
  have A: "0 \<le> f0 + f1" "f0 + f1 \<le> 2 ^ 127"
    using f0(2) f1(2) rng(1) c1(2) by linarith+
  obtain s1 where s1: "round32 (f0 + f1) = Fin s1" "0 \<le> s1"
      "s1 \<le> (f0 + f1) + (f0 + f1) / 16777216 + e" "(f0 + f1) - (f0 + f1) / 16777216 - e \<le> s1"
    using round32_near [OF A] unfolding e_def by blast
  have B: "0 \<le> s1 + f2" "s1 + f2 \<le> 2 ^ 127"
    using s1(2) f2(2) rng(2) [OF s1(2) s1(3)] c1(3) by linarith+
  obtain s2 where s2: "round32 (s1 + f2) = Fin s2" "0 \<le> s2"
      "s2 \<le> (s1 + f2) + (s1 + f2) / 16777216 + e" "(s1 + f2) - (s1 + f2) / 16777216 - e \<le> s2"
    using round32_near [OF B] unfolding e_def by blast
  note near = three_roundings_sum [OF f0(3,4) f1(3,4) f2(3,4) s1(3,4) s2(3,4) eta q0(1) q1(1) q2(1)
      S_def c0(3)]
  note D = reciprocal_within [OF S0 near]
  note Dr = reciprocal_in_range [OF D(2) D(3) R mM(1) mM(2) less_imp_le [OF c0(1)]
      less_imp_le [OF c0(2)]]
  have Dlo: "1 / 2 ^ 126 \<le> 1 / s2" using Dr(1) c2 by linarith
  have Dhi: "1 / s2 \<le> 2 ^ 127" using Dr(2) c1(4) by linarith
  obtain d where d: "round32 (1 / s2) = Fin d" "d \<le> 1 / s2 + (1 / s2) / 16777216"
      "1 / s2 - (1 / s2) / 16777216 \<le> d"
    using round32_near_normal [OF Dlo Dhi] by blast
  have s2n: "s2 \<noteq> 0" using D(1) by simp
  have z0n: "z0 \<noteq> 0" "z1 \<noteq> 0" "z2 \<noteq> 0" using zp by simp_all
  have "getPerspectiveCorrectZAtCoordinate32 (FVec3 (Fin a) (Fin b) (Fin c))
          (FVec3 vx0 vy0 (Fin z0), FVec3 vx1 vy1 (Fin z1), FVec3 vx2 vy2 (Fin z2)) = Fin d"
    using z0n s2n by (simp add: Let_def f0(1) f1(1) f2(1) s1(1) s2(1) d(1))
  moreover have "m - m / 2 ^ 21 \<le> d" "d \<le> M + M / 2 ^ 21"
    using last_rounding [OF d(2) d(3) D(2) D(3) R mM(3) mM(4)] by simp_all
  ultimately show ?thesis
    unfolding m_def M_def by blast
qed

text \<open>
  Rounding commutes with negation, and so does the interpolation: the depth for the
  negated vertex depths is the negated depth.
\<close>

lemma fadd_fneg: "fadd round32 (fneg x) (fneg y) = fneg (fadd round32 x y)"
  using round32_neg [of "a + b" for a b]
  by (cases x; cases y) (simp_all add: round32_neg [symmetric])

lemma fdiv_neg_depth:
  "z \<noteq> 0 \<Longrightarrow> fdiv round32 (Fin a) (Fin (- z)) = fneg (fdiv round32 (Fin a) (Fin z))"
  by (simp add: round32_neg [symmetric])

lemma reciprocal_fneg:
  "fdiv round32 (Fin 1) i = Fin d \<Longrightarrow> fdiv round32 (Fin 1) (fneg i) = Fin (- d)"
proof (cases i)
  case (Fin s)
  assume r: "fdiv round32 (Fin 1) i = Fin d"
  show ?thesis
  proof (cases "s = 0")
    case True
    with r Fin show ?thesis by simp
  next
    case False
    with r Fin have "round32 (1 / s) = Fin d" by simp
    then have "round32 (- (1 / s)) = Fin (- d)" by (simp add: round32_neg)
    with False Fin show ?thesis by simp
  qed
qed auto

lemma depth32_mirror:
  assumes "z0 \<noteq> 0" "z1 \<noteq> 0" "z2 \<noteq> 0"
    and "getPerspectiveCorrectZAtCoordinate32 (FVec3 (Fin a) (Fin b) (Fin c))
           (FVec3 vx0 vy0 (Fin z0), FVec3 vx1 vy1 (Fin z1), FVec3 vx2 vy2 (Fin z2)) = Fin d"
  shows "getPerspectiveCorrectZAtCoordinate32 (FVec3 (Fin a) (Fin b) (Fin c))
           (FVec3 vx0 vy0 (Fin (- z0)), FVec3 vx1 vy1 (Fin (- z1)), FVec3 vx2 vy2 (Fin (- z2)))
         = Fin (- d)"
proof -
  let ?i = "fadd round32 (fadd round32 (fdiv round32 (Fin a) (Fin z0))
                                        (fdiv round32 (Fin b) (Fin z1)))
                         (fdiv round32 (Fin c) (Fin z2))"
  have "fdiv round32 (Fin 1) ?i = Fin d"
    using assms(4) by (simp add: Let_def)
  then have "fdiv round32 (Fin 1) (fneg ?i) = Fin (- d)"
    by (rule reciprocal_fneg)
  then show ?thesis
    unfolding getPerspectiveCorrectZAtCoordinate32.simps Let_def fvec3.sel
      fdiv_neg_depth [OF assms(1)] fdiv_neg_depth [OF assms(2)] fdiv_neg_depth [OF assms(3)]
      fadd_fneg
    by simp
qed

text \<open>
  C2, as amended. For a barycentric coordinate whose components lie strictly between 0 and
  1 and sum to 1, and a triangle whose three vertex depths are all positive or all
  negative and have magnitudes between \<open>2 ^ -100\<close> and \<open>2 ^ 100\<close>, the
  perspective-correct depth that \<open>getPerspectiveCorrectZAtCoordinate\<close> computes in
  single precision is a finite number, and it lies between the smallest and the largest
  of the three vertex depths up to a relative error of \<open>2 ^ -21\<close>: it is at least
  \<open>min z - |min z| / 2 ^ 21\<close> and at most \<open>max z + |max z| / 2 ^ 21\<close>.
\<close>

theorem perspective_depth_within_rounding_of_vertex_depths:
  fixes a b c z0 z1 z2 :: real
  assumes "0 < a" "a < 1" "0 < b" "b < 1" "0 < c" "c < 1" "a + b + c = 1"
    and "(0 < z0 \<and> 0 < z1 \<and> 0 < z2) \<or> (z0 < 0 \<and> z1 < 0 \<and> z2 < 0)"
    and "1 / 2 ^ 100 \<le> \<bar>z0\<bar>" "\<bar>z0\<bar> \<le> 2 ^ 100" "1 / 2 ^ 100 \<le> \<bar>z1\<bar>" "\<bar>z1\<bar> \<le> 2 ^ 100"
        "1 / 2 ^ 100 \<le> \<bar>z2\<bar>" "\<bar>z2\<bar> \<le> 2 ^ 100"
  shows "\<exists>d. getPerspectiveCorrectZAtCoordinate32 (FVec3 (Fin a) (Fin b) (Fin c))
               (FVec3 vx0 vy0 (Fin z0), FVec3 vx1 vy1 (Fin z1), FVec3 vx2 vy2 (Fin z2)) = Fin d
           \<and> min (min z0 z1) z2 - \<bar>min (min z0 z1) z2\<bar> / 2 ^ 21 \<le> d
           \<and> d \<le> max (max z0 z1) z2 + \<bar>max (max z0 z1) z2\<bar> / 2 ^ 21"
proof (rule disjE [OF assms(8)])
  assume p: "0 < z0 \<and> 0 < z1 \<and> 0 < z2"
  then have "1 / 2 ^ 100 \<le> z0" "z0 \<le> 2 ^ 100" "1 / 2 ^ 100 \<le> z1" "z1 \<le> 2 ^ 100"
      "1 / 2 ^ 100 \<le> z2" "z2 \<le> 2 ^ 100"
    using assms(9-14) by simp_all
  from depth32_positive [OF assms(1-7) this, of vx0 vy0 vx1 vy1 vx2 vy2]
  obtain d where d: "getPerspectiveCorrectZAtCoordinate32 (FVec3 (Fin a) (Fin b) (Fin c))
               (FVec3 vx0 vy0 (Fin z0), FVec3 vx1 vy1 (Fin z1), FVec3 vx2 vy2 (Fin z2)) = Fin d"
      "min (min z0 z1) z2 - min (min z0 z1) z2 / 2 ^ 21 \<le> d"
      "d \<le> max (max z0 z1) z2 + max (max z0 z1) z2 / 2 ^ 21"
    by blast
  have "0 < min (min z0 z1) z2" "0 < max (max z0 z1) z2"
    using p by auto
  then have "\<bar>min (min z0 z1) z2\<bar> = min (min z0 z1) z2" "\<bar>max (max z0 z1) z2\<bar> = max (max z0 z1) z2"
    by simp_all
  with d show ?thesis by metis
next
  assume n: "z0 < 0 \<and> z1 < 0 \<and> z2 < 0"
  then have r: "1 / 2 ^ 100 \<le> - z0" "- z0 \<le> 2 ^ 100" "1 / 2 ^ 100 \<le> - z1" "- z1 \<le> 2 ^ 100"
      "1 / 2 ^ 100 \<le> - z2" "- z2 \<le> 2 ^ 100"
    using assms(9-14) by simp_all
  from depth32_positive [OF assms(1-7) r, of vx0 vy0 vx1 vy1 vx2 vy2]
  obtain d where d: "getPerspectiveCorrectZAtCoordinate32 (FVec3 (Fin a) (Fin b) (Fin c))
               (FVec3 vx0 vy0 (Fin (- z0)), FVec3 vx1 vy1 (Fin (- z1)),
                FVec3 vx2 vy2 (Fin (- z2))) = Fin d"
      "min (min (- z0) (- z1)) (- z2) - min (min (- z0) (- z1)) (- z2) / 2 ^ 21 \<le> d"
      "d \<le> max (max (- z0) (- z1)) (- z2) + max (max (- z0) (- z1)) (- z2) / 2 ^ 21"
    by blast
  have nz: "- z0 \<noteq> 0" "- z1 \<noteq> 0" "- z2 \<noteq> 0" using n by simp_all
  have e: "getPerspectiveCorrectZAtCoordinate32 (FVec3 (Fin a) (Fin b) (Fin c))
               (FVec3 vx0 vy0 (Fin z0), FVec3 vx1 vy1 (Fin z1), FVec3 vx2 vy2 (Fin z2)) = Fin (- d)"
    using depth32_mirror [OF nz d(1)] by simp
  have mm: "min (min (- z0) (- z1)) (- z2) = - max (max z0 z1) z2"
           "max (max (- z0) (- z1)) (- z2) = - min (min z0 z1) z2"
    by (simp_all add: min_def max_def)
  have "min (min z0 z1) z2 < 0" "max (max z0 z1) z2 < 0"
    using n by auto
  then have ab: "\<bar>min (min z0 z1) z2\<bar> = - min (min z0 z1) z2"
                "\<bar>max (max z0 z1) z2\<bar> = - max (max z0 z1) z2"
    by simp_all
  have "min (min z0 z1) z2 - \<bar>min (min z0 z1) z2\<bar> / 2 ^ 21 \<le> - d"
       "- d \<le> max (max z0 z1) z2 + \<bar>max (max z0 z1) z2\<bar> / 2 ^ 21"
    using d(2,3) unfolding mm ab by simp_all
  with e show ?thesis by blast
qed

text \<open>
  The vertex depths 1, 2 and 4 with the weights (1/4, 1/4, 1/2): the depth computed lies
  between \<open>1 - 2 ^ -21\<close> and \<open>4 + 2 ^ -19\<close>.
\<close>

theorem perspective_depth_within_rounding_witness:
  "\<exists>d. getPerspectiveCorrectZAtCoordinate32 (FVec3 (Fin (1/4)) (Fin (1/4)) (Fin (1/2)))
          (FVec3 (Fin 0) (Fin 0) (Fin 1), FVec3 (Fin 1) (Fin 0) (Fin 2), FVec3 (Fin 0) (Fin 1) (Fin 4))
        = Fin d
      \<and> 1 - 1 / 2 ^ 21 \<le> d \<and> d \<le> 4 + 4 / 2 ^ 21"
  using perspective_depth_within_rounding_of_vertex_depths
          [of "1/4" "1/4" "1/2" 1 2 4 "Fin 0" "Fin 0" "Fin 1" "Fin 0" "Fin 0" "Fin 1"]
  by simp

text \<open>
  C2 as stated fails, in four ways. With vertex depths of both signs, 1, -1 and 1
  (normalised device depths on both sides of 0), and the weights (1/4, 1/4, 1/2) the depth
  computed is 2, above the largest vertex depth 1. With the three vertex depths equal to
  \<open>0.03f = 16106127 / 2 ^ 29\<close> and the weights (1/2, 1/4, 1/4) the depth computed is
  the float below, \<open>16106126 / 2 ^ 29\<close>: the roundings of the three quotients, of the
  two sums and of the reciprocal do not cancel. With the three vertex depths equal to
  \<open>2 ^ -130\<close> the quotients overflow, their sum is \<open>INFINITY\<close> and the depth computed
  is 0. With the three vertex depths equal to \<open>16777162 * 2 ^ 104\<close> and the weights
  (3/8, 3/8, 1/4) the quotients are subnormal, and the depth computed is below the vertex
  depth by more than the relative error \<open>2 ^ -21\<close>.
\<close>

theorem perspective_depth_outside_vertex_depths_counterexample:
  "(0::real) < 1 / 4 \<and> (1::real) / 4 < 1 \<and> (0::real) < 1 / 2 \<and> (1::real) / 2 < 1
   \<and> (1::real) / 4 + 1 / 4 + 1 / 2 = 1
   \<and> getPerspectiveCorrectZAtCoordinate32 (FVec3 (Fin (1/4)) (Fin (1/4)) (Fin (1/2)))
        (FVec3 (Fin 0) (Fin 0) (Fin 1), FVec3 (Fin 1) (Fin 0) (Fin (- 1)),
         FVec3 (Fin 0) (Fin 1) (Fin 1)) = Fin 2
   \<and> max (max 1 (- 1)) 1 < (2::real)
   \<and> (1::real) / 2 + 1 / 4 + 1 / 4 = 1
   \<and> getPerspectiveCorrectZAtCoordinate32 (FVec3 (Fin (1/2)) (Fin (1/4)) (Fin (1/4)))
        (FVec3 (Fin 0) (Fin 0) (Fin (16106127 / 2 ^ 29)),
         FVec3 (Fin 1) (Fin 0) (Fin (16106127 / 2 ^ 29)),
         FVec3 (Fin 0) (Fin 1) (Fin (16106127 / 2 ^ 29))) = Fin (16106126 / 2 ^ 29)
   \<and> (16106126::real) / 2 ^ 29
         < min (min (16106127 / 2 ^ 29) (16106127 / 2 ^ 29)) (16106127 / 2 ^ 29)
   \<and> getPerspectiveCorrectZAtCoordinate32 (FVec3 (Fin (1/2)) (Fin (1/4)) (Fin (1/4)))
        (FVec3 (Fin 0) (Fin 0) (Fin (1 / 2 ^ 130)),
         FVec3 (Fin 1) (Fin 0) (Fin (1 / 2 ^ 130)),
         FVec3 (Fin 0) (Fin 1) (Fin (1 / 2 ^ 130))) = Fin 0
   \<and> (0::real) < 1 / 2 ^ 130 - \<bar>1 / 2 ^ 130\<bar> / 2 ^ 21
   \<and> (0::real) < 3 / 8 \<and> (3::real) / 8 < 1 \<and> (3::real) / 8 + 3 / 8 + 1 / 4 = 1
   \<and> getPerspectiveCorrectZAtCoordinate32 (FVec3 (Fin (3/8)) (Fin (3/8)) (Fin (1/4)))
        (FVec3 (Fin 0) (Fin 0) (Fin (16777162 * 2 ^ 104)),
         FVec3 (Fin 1) (Fin 0) (Fin (16777162 * 2 ^ 104)),
         FVec3 (Fin 0) (Fin 1) (Fin (16777162 * 2 ^ 104)))
       = Fin 340281068846723829756467474807685906432
   \<and> (340281068846723829756467474807685906432::real)
         < 16777162 * 2 ^ 104 - \<bar>16777162 * 2 ^ 104\<bar> / 2 ^ 21"
  by code_simp

section \<open>The rasterizer\<close>

text \<open>
  \<open>fatomicMin\<close> returns: its loop is a total function (the termination proof above),
  and after it the cell holds the smaller of its content and the value.
\<close>

lemma fatomicMin_loop_stores:
  "float_as_int cell = float_as_int old \<or> cell = value \<Longrightarrow>
   fst (fatomicMin_loop float_as_int cell value old) = value"
proof (induction float_as_int cell "value" old rule: fatomicMin_loop.induct)
  case (1 float_as_int cell "value" old)
  let ?r = "atomicCAS float_as_int cell (float_as_int old) value"
  have c: "fst ?r = value"
    using "1.prems" by (auto simp: atomicCAS_def)
  show ?case
  proof (cases "fne (uint_to_float (snd ?r)) old")
    case True
    have "fst (fatomicMin_loop float_as_int (fst ?r) value (uint_to_float (snd ?r))) = value"
      by (rule "1.IH" [OF refl refl refl True]) (simp add: c)
    then show ?thesis
      using True by (subst fatomicMin_loop.simps) (simp add: Let_def)
  next
    case False
    then show ?thesis
      using c by (subst fatomicMin_loop.simps) (simp add: Let_def)
  qed
qed

lemma fatomicMin_cell:
  "fst (fatomicMin float_as_int cell value) = (if fle cell value then cell else value)"
  by (simp add: fatomicMin_def Let_def fatomicMin_loop_stores)

lemma flt_not_fle: "flt a b \<Longrightarrow> \<not> fle b a"
  by (cases a; cases b) auto

lemma writeFragment_depths [simp]:
  "depths (writeFragment cfg primitive tri b d i st) = depths st"
  by (simp add: writeFragment_def Let_def)

lemma writeFragment_color:
  "\<not> USE_K_BUFFER cfg \<Longrightarrow>
   f_color (fragmentBuffer (writeFragment cfg primitive tri b d i st) i)
     = fragmentColor cfg primitive tri b d"
  by (simp add: writeFragment_def Let_def)

text \<open>The effect of a fragment in the standard build on the two cells of its pixel.\<close>

lemma processFragment_standard:
  assumes "\<not> USE_K_BUFFER cfg"
  shows "depths (processFragment cfg fai primitive tri b width x y st) (x + y * width) =
           (if flt (Fin (getPerspectiveCorrectZAtCoordinate b tri)) (depths st (x + y * width))
            then Fin (getPerspectiveCorrectZAtCoordinate b tri) else depths st (x + y * width))"
    and "f_color (fragmentBuffer (processFragment cfg fai primitive tri b width x y st)
                    (x + y * width)) =
           (if flt (Fin (getPerspectiveCorrectZAtCoordinate b tri)) (depths st (x + y * width))
            then fragmentColor cfg primitive tri b (getPerspectiveCorrectZAtCoordinate b tri)
            else f_color (fragmentBuffer st (x + y * width)))"
  using assms
  by (simp_all add: processFragment_def Let_def fatomicMin_cell flt_not_fle writeFragment_color)

lemma tri_of_flatTriangle [simp]: "tri_of (flatTriangle p0 p1 p2 c) = (p0, p1, p2)"
  by (simp add: tri_of_def flatTriangle_def exampleVertex_def vec3_of_def)

lemma fragmentColor_flatTriangle [simp]:
  "fragmentColor cfg (flatTriangle p0 p1 p2 c) tri b d = c"
  by (simp add: fragmentColor_def flatTriangle_def exampleVertex_def)

text \<open>
  Two updates of one pixel that run one after the other, each to its end, in the standard
  build: when both triangles cover the pixel \<open>(x, y)\<close>, the depth of \<open>pA\<close> there is
  strictly smaller than that of \<open>pB\<close> and passes the test against the content of the
  depth buffer before the two, the colour at the flat index of the pixel is afterwards
  the one that \<open>pA\<close> produces, whichever of the two updates runs first.
\<close>

lemma sequential_pixel_updates_keep_nearer:
  fixes pA pB :: Primitive and x y width :: int
  defines "bA \<equiv> calculateBarycentricCoordinate (tri_of pA) (Vec2 (real_of_int x) (real_of_int y))"
      and "bB \<equiv> calculateBarycentricCoordinate (tri_of pB) (Vec2 (real_of_int x) (real_of_int y))"
  defines "dA \<equiv> getPerspectiveCorrectZAtCoordinate bA (tri_of pA)"
      and "dB \<equiv> getPerspectiveCorrectZAtCoordinate bB (tri_of pB)"
  assumes std: "\<not> USE_K_BUFFER cfg"
    and coverA: "isBarycentricCoordInBounds bA"
    and coverB: "isBarycentricCoordInBounds bB"
    and nearer: "dA < dB"
    and passes: "flt (Fin dA) (depths st (x + y * width))"
  shows "f_color (fragmentBuffer
           (rasterizePixel cfg float_as_int pB (tri_of pB) width x y
             (rasterizePixel cfg float_as_int pA (tri_of pA) width x y st)) (x + y * width))
           = fragmentColor cfg pA (tri_of pA) bA dA
       \<and> f_color (fragmentBuffer
           (rasterizePixel cfg float_as_int pA (tri_of pA) width x y
             (rasterizePixel cfg float_as_int pB (tri_of pB) width x y st)) (x + y * width))
           = fragmentColor cfg pA (tri_of pA) bA dA"
proof -
  have rA: "\<And>s. rasterizePixel cfg float_as_int pA (tri_of pA) width x y s
              = processFragment cfg float_as_int pA (tri_of pA) bA width x y s"
    using coverA by (simp add: rasterizePixel_def Let_def bA_def)
  have rB: "\<And>s. rasterizePixel cfg float_as_int pB (tri_of pB) width x y s
              = processFragment cfg float_as_int pB (tri_of pB) bB width x y s"
    using coverB by (simp add: rasterizePixel_def Let_def bB_def)
  have AB: "\<not> flt (Fin dB) (Fin dA)" using nearer by simp
  have BA: "flt (Fin dA) (Fin dB)" using nearer by simp
  show ?thesis
    unfolding rA rB
    using passes AB BA
    by (simp add: processFragment_standard [OF std] dA_def [symmetric] dB_def [symmetric])
qed

lemma example_barycentric:
  "calculateBarycentricCoordinate (Vec3 10 10 z0, Vec3 20 10 z1, Vec3 10 20 z2)
     (Vec2 (real_of_int 12) (real_of_int 12)) = Vec3 (3/5) (1/5) (1/5)"
  by (simp add: calculateBarycentricCoordinateValue_def Let_def)

lemma processFragment_steps:
  "\<not> USE_K_BUFFER cfg \<Longrightarrow>
   processFragment cfg fai primitive tri b width x y st =
     (let depth = getPerspectiveCorrectZAtCoordinate b tri;
          index = x + (y * width)
      in if depthTest depth index st
         then writeFragment cfg primitive tri b depth index (lowerDepth fai depth index st)
         else st)"
  by (simp add: processFragment_def depthTest_def lowerDepth_def Let_def)

text \<open>
  The depth and the colour of the cell \<open>j\<close> after the body of the loops has run for a
  pixel, from the two before: they change when the pixel has the flat index \<open>j\<close>, is
  covered, and passes the depth test.
\<close>

lemma pixel_cell:
  "(depths (rasterizePixel standardConfig fai (flatTriangle p0 p1 p2 c) (p0, p1, p2) w x y st) j,
    f_color (fragmentBuffer
      (rasterizePixel standardConfig fai (flatTriangle p0 p1 p2 c) (p0, p1, p2) w x y st) j))
   = (let b = calculateBarycentricCoordinate (p0, p1, p2) (Vec2 (real_of_int x) (real_of_int y));
          d = getPerspectiveCorrectZAtCoordinate b (p0, p1, p2)
      in if j = x + y * w \<and> isBarycentricCoordInBounds b \<and> flt (Fin d) (depths st j)
         then (Fin d, c)
         else (depths st j, f_color (fragmentBuffer st j)))"
  by (auto simp add: rasterizePixel_def processFragment_def Let_def standardConfig_def
        fatomicMin_cell flt_not_fle writeFragment_def fragmentColor_flatTriangle
        simp del: calculateBarycentricCoordinate.simps getPerspectiveCorrectZAtCoordinate.simps)

lemma fold_cell:
  assumes "\<And>p st. (depths (F p st) j, f_color (fragmentBuffer (F p st) j))
                    = G p (depths st j, f_color (fragmentBuffer st j))"
  shows "(depths (fold F ps st) j, f_color (fragmentBuffer (fold F ps st) j))
           = fold G ps (depths st j, f_color (fragmentBuffer st j))"
  by (induction ps arbitrary: st) (simp_all add: assms)

lemma thread_cell:
  assumes "pid < n" "prims pid = flatTriangle p0 p1 p2 c"
  shows "(depths (rasterizeThread standardConfig fai n prims w h pid st) j,
          f_color (fragmentBuffer (rasterizeThread standardConfig fai n prims w h pid st) j))
   = fold (\<lambda>(x, y) cell.
        let b = calculateBarycentricCoordinate (p0, p1, p2) (Vec2 (real_of_int x) (real_of_int y));
            d = getPerspectiveCorrectZAtCoordinate b (p0, p1, p2)
        in if j = x + y * w \<and> isBarycentricCoordInBounds b \<and> flt (Fin d) (fst cell)
           then (Fin d, c) else cell)
      (scannedPixels (getAABBForTriangle (p0, p1, p2) w h))
      (depths st j, f_color (fragmentBuffer st j))"
proof -
  have t: "rasterizeThread standardConfig fai n prims w h pid st
         = fold (\<lambda>(x, y). rasterizePixel standardConfig fai (flatTriangle p0 p1 p2 c)
                            (p0, p1, p2) w x y)
             (scannedPixels (getAABBForTriangle (p0, p1, p2) w h)) st"
    using assms by (simp add: rasterizeThread_def Let_def standardConfig_def)
  show ?thesis
    unfolding t
    by (rule fold_cell) (simp add: pixel_cell split: prod.splits)
qed

lemma bary_front:
  "calculateBarycentricCoordinate (Vec3 0 0 (1/2), Vec3 2 0 (1/2), Vec3 0 2 (1/2)) (Vec2 x y)
     = Vec3 (1 - x / 2 - y / 2) (x / 2) (y / 2)"
  by (simp add: calculateBarycentricCoordinateValue_def Let_def field_simps)

lemma bary_sloped:
  "calculateBarycentricCoordinate (Vec3 0 0 1, Vec3 8 0 (1/8), Vec3 0 8 1) (Vec2 x y)
     = Vec3 (1 - x / 8 - y / 8) (x / 8) (y / 8)"
  by (simp add: calculateBarycentricCoordinateValue_def Let_def field_simps)

lemma scan_front:
  "scannedPixels (getAABBForTriangle (Vec3 0 0 (1/2), Vec3 2 0 (1/2), Vec3 0 2 (1/2)) 4 4)
     = List.product [0, 1, 2] [0, 1, 2]"
  by (simp add: scannedPixels_def scanRange_def glm_clamp_def itrunc_def upto.simps)

lemma scan_sloped:
  "scannedPixels (getAABBForTriangle (Vec3 0 0 1, Vec3 8 0 (1/8), Vec3 0 8 1) 4 4)
     = List.product [0, 1, 2, 3, 4] [0, 1, 2, 3, 4]"
  by (simp add: scannedPixels_def scanRange_def glm_clamp_def itrunc_def upto.simps)

text \<open>
  The thread of the red triangle, on a 4 by 4 image, leaves at the flat index 4 its depth
  1/2 and its colour unless the cell holds a depth of at most 1/2; the thread of the blue
  triangle leaves there the depth 2/9 of its pixel (4, 0) and its colour, whatever of the
  three contents below the cell held.
\<close>

lemma front_thread_cell:
  assumes "pid < n" "prims pid = frontTriangle"
  shows "depths st 4 = PInf \<Longrightarrow>
         (depths (rasterizeThread standardConfig fai n prims 4 4 pid st) 4,
          f_color (fragmentBuffer (rasterizeThread standardConfig fai n prims 4 4 pid st) 4))
           = (Fin (1/2), Vec4 1 0 0 1)"
    and "depths st 4 = Fin (2/9) \<Longrightarrow>
         (depths (rasterizeThread standardConfig fai n prims 4 4 pid st) 4,
          f_color (fragmentBuffer (rasterizeThread standardConfig fai n prims 4 4 pid st) 4))
           = (Fin (2/9), f_color (fragmentBuffer st 4))"
  unfolding thread_cell [where prims = prims and pid = pid,
      OF assms(1) assms(2) [unfolded frontTriangle_def]]
    scan_front
  by (simp_all add: bary_front isBarycentricCoordInBounds_def Let_def
        del: calculateBarycentricCoordinate.simps)

lemma sloped_thread_cell:
  assumes "pid < n" "prims pid = slopedTriangle"
    and "depths st 4 = PInf \<or> depths st 4 = Fin (1/2)"
  shows "(depths (rasterizeThread standardConfig fai n prims 4 4 pid st) 4,
          f_color (fragmentBuffer (rasterizeThread standardConfig fai n prims 4 4 pid st) 4))
           = (Fin (2/9), Vec4 0 0 1 1)"
  unfolding thread_cell [where prims = prims and pid = pid,
      OF assms(1) assms(2) [unfolded slopedTriangle_def]]
    scan_sloped
  using assms(3)
  by (auto simp add: bary_sloped isBarycentricCoordInBounds_def Let_def
        simp del: calculateBarycentricCoordinate.simps)

lemma rasterizeKernel_two:
  "rasterizeKernel cfg fai 2 prims w h st
     = Some (rasterizeThread cfg fai 2 prims w h 1 (rasterizeThread cfg fai 2 prims w h 0 st))"
  by (simp add: rasterizeKernel_def Let_def upto.simps)

text \<open>
  C1, evaluated where it fails. Standard build, an image of 4 by 4 pixels, cleared. The red
  \<open>frontTriangle\<close> and the blue \<open>slopedTriangle\<close> both cover the pixel (0, 1), the
  red one at the depth 1/2 and the blue one behind it at the depth 1. After the launch
  of \<open>_rasterize\<close> for the two, in either order of the two in the array of primitives,
  the fragment at the flat index \<open>0 + 1 * 4\<close> of the pixel has the colour of the blue
  triangle and the depth 2/9: the scan of the blue triangle reaches the pixel (4, 0)
  beyond the last column, whose flat index \<open>4 + 0 * 4\<close> is that of the pixel (0, 1),
  and its depth there is 2/9.

  The second part is an execution of the threads of the red \<open>nearTriangle\<close> (depth
  3/10) and the blue \<open>farTriangle\<close> (depth 7/10) at the pixel (12, 12) of an image of
  width 32, in which the steps of the two threads alternate: both make the depth test on
  the cleared buffer and pass it, both call \<open>fatomicMin\<close>, the thread of the near
  triangle stores its fragment and then the thread of the far triangle stores its own.
  The depth left is 3/10, the colour left is that of the far triangle.
\<close>

theorem farther_triangle_colours_the_pixel:
  "isBarycentricCoordInBounds (calculateBarycentricCoordinate (tri_of frontTriangle) (Vec2 0 1))
   \<and> isBarycentricCoordInBounds (calculateBarycentricCoordinate (tri_of slopedTriangle) (Vec2 0 1))
   \<and> getPerspectiveCorrectZAtCoordinate
        (calculateBarycentricCoordinate (tri_of frontTriangle) (Vec2 0 1)) (tri_of frontTriangle)
       = 1 / 2
   \<and> getPerspectiveCorrectZAtCoordinate
        (calculateBarycentricCoordinate (tri_of slopedTriangle) (Vec2 0 1)) (tri_of slopedTriangle)
       = 1
   \<and> fragmentColor standardConfig frontTriangle (tri_of frontTriangle)
        (calculateBarycentricCoordinate (tri_of frontTriangle) (Vec2 0 1)) (1 / 2) = Vec4 1 0 0 1
   \<and> map_option (\<lambda>st. (depths st (0 + 1 * 4), f_color (fragmentBuffer st (0 + 1 * 4))))
        (rasterizeKernel standardConfig float_as_int 2
           (\<lambda>i. if i = 0 then frontTriangle else slopedTriangle) 4 4 clearedBuffers)
       = Some (Fin (2 / 9), Vec4 0 0 1 1)
   \<and> map_option (\<lambda>st. (depths st (0 + 1 * 4), f_color (fragmentBuffer st (0 + 1 * 4))))
        (rasterizeKernel standardConfig float_as_int 2
           (\<lambda>i. if i = 0 then slopedTriangle else frontTriangle) 4 4 clearedBuffers)
       = Some (Fin (2 / 9), Vec4 0 0 1 1)
   \<and> calculateBarycentricCoordinate (tri_of nearTriangle) (Vec2 12 12) = Vec3 (3/5) (1/5) (1/5)
   \<and> calculateBarycentricCoordinate (tri_of farTriangle) (Vec2 12 12) = Vec3 (3/5) (1/5) (1/5)
   \<and> getPerspectiveCorrectZAtCoordinate (Vec3 (3/5) (1/5) (1/5)) (tri_of nearTriangle) = 3 / 10
   \<and> getPerspectiveCorrectZAtCoordinate (Vec3 (3/5) (1/5) (1/5)) (tri_of farTriangle) = 7 / 10
   \<and> depthTest (3 / 10) (12 + 12 * 32) clearedBuffers
   \<and> depthTest (7 / 10) (12 + 12 * 32) clearedBuffers
   \<and> depths
        (writeFragment standardConfig farTriangle (tri_of farTriangle) (Vec3 (3/5) (1/5) (1/5))
           (7 / 10) (12 + 12 * 32)
          (writeFragment standardConfig nearTriangle (tri_of nearTriangle) (Vec3 (3/5) (1/5) (1/5))
             (3 / 10) (12 + 12 * 32)
            (lowerDepth float_as_int (7 / 10) (12 + 12 * 32)
              (lowerDepth float_as_int (3 / 10) (12 + 12 * 32) clearedBuffers))))
        (12 + 12 * 32) = Fin (3 / 10)
   \<and> f_color (fragmentBuffer
        (writeFragment standardConfig farTriangle (tri_of farTriangle) (Vec3 (3/5) (1/5) (1/5))
           (7 / 10) (12 + 12 * 32)
          (writeFragment standardConfig nearTriangle (tri_of nearTriangle) (Vec3 (3/5) (1/5) (1/5))
             (3 / 10) (12 + 12 * 32)
            (lowerDepth float_as_int (7 / 10) (12 + 12 * 32)
              (lowerDepth float_as_int (3 / 10) (12 + 12 * 32) clearedBuffers))))
        (12 + 12 * 32)) = Vec4 0 0 1 1"
proof -
  have b1: "calculateBarycentricCoordinate (tri_of frontTriangle) (Vec2 0 1) = Vec3 (1/2) 0 (1/2)"
    unfolding frontTriangle_def tri_of_flatTriangle bary_front by simp
  have b2: "calculateBarycentricCoordinate (tri_of slopedTriangle) (Vec2 0 1) = Vec3 (7/8) 0 (1/8)"
    unfolding slopedTriangle_def tri_of_flatTriangle bary_sloped by simp
  have c1: "isBarycentricCoordInBounds (Vec3 (1/2) 0 (1/2))"
           "isBarycentricCoordInBounds (Vec3 (7/8) 0 (1/8))"
    by (simp_all add: isBarycentricCoordInBounds_def)
  have d1: "getPerspectiveCorrectZAtCoordinate (Vec3 (1/2) 0 (1/2)) (tri_of frontTriangle) = 1 / 2"
    by (simp add: frontTriangle_def Let_def)
  have d2: "getPerspectiveCorrectZAtCoordinate (Vec3 (7/8) 0 (1/8)) (tri_of slopedTriangle) = 1"
    by (simp add: slopedTriangle_def Let_def)
  have col: "fragmentColor standardConfig frontTriangle (tri_of frontTriangle)
               (Vec3 (1/2) 0 (1/2)) (1 / 2) = Vec4 1 0 0 1"
    by (simp add: frontTriangle_def)
  have cl: "depths clearedBuffers 4 = PInf"
    by (simp add: clearedBuffers_def)
  let ?fs = "\<lambda>i::int. if i = 0 then frontTriangle else slopedTriangle"
  let ?sf = "\<lambda>i::int. if i = 0 then slopedTriangle else frontTriangle"
  let ?f = "rasterizeThread standardConfig float_as_int 2 ?fs 4 4 0 clearedBuffers"
  let ?s = "rasterizeThread standardConfig float_as_int 2 ?sf 4 4 0 clearedBuffers"
  have f: "depths ?f 4 = Fin (1/2)"
    using front_thread_cell(1) [where prims = ?fs and pid = 0 and n = 2 and st = clearedBuffers
        and fai = float_as_int] cl
    by simp
  have fs: "(depths (rasterizeThread standardConfig float_as_int 2 ?fs 4 4 1 ?f) 4,
             f_color (fragmentBuffer (rasterizeThread standardConfig float_as_int 2 ?fs 4 4 1 ?f) 4))
            = (Fin (2/9), Vec4 0 0 1 1)"
    by (rule sloped_thread_cell) (simp_all add: f)
  have s: "(depths ?s 4, f_color (fragmentBuffer ?s 4)) = (Fin (2/9), Vec4 0 0 1 1)"
    by (rule sloped_thread_cell) (simp_all add: cl)
  have sf: "(depths (rasterizeThread standardConfig float_as_int 2 ?sf 4 4 1 ?s) 4,
             f_color (fragmentBuffer (rasterizeThread standardConfig float_as_int 2 ?sf 4 4 1 ?s) 4))
            = (Fin (2/9), Vec4 0 0 1 1)"
    using front_thread_cell(2) [where prims = ?sf and pid = 1 and n = 2 and st = ?s
        and fai = float_as_int] s
    by simp
  have k1: "map_option (\<lambda>st. (depths st (0 + 1 * 4), f_color (fragmentBuffer st (0 + 1 * 4))))
        (rasterizeKernel standardConfig float_as_int 2 ?fs 4 4 clearedBuffers)
       = Some (Fin (2 / 9), Vec4 0 0 1 1)"
    unfolding rasterizeKernel_two using fs by simp
  have k2: "map_option (\<lambda>st. (depths st (0 + 1 * 4), f_color (fragmentBuffer st (0 + 1 * 4))))
        (rasterizeKernel standardConfig float_as_int 2 ?sf 4 4 clearedBuffers)
       = Some (Fin (2 / 9), Vec4 0 0 1 1)"
    unfolding rasterizeKernel_two using sf by simp
  have n1: "calculateBarycentricCoordinate (tri_of nearTriangle) (Vec2 12 12) = Vec3 (3/5) (1/5) (1/5)"
    unfolding nearTriangle_def tri_of_flatTriangle using example_barycentric by simp
  have n2: "calculateBarycentricCoordinate (tri_of farTriangle) (Vec2 12 12) = Vec3 (3/5) (1/5) (1/5)"
    unfolding farTriangle_def tri_of_flatTriangle using example_barycentric by simp
  have e1: "getPerspectiveCorrectZAtCoordinate (Vec3 (3/5) (1/5) (1/5)) (tri_of nearTriangle) = 3 / 10"
    by (simp add: nearTriangle_def Let_def)
  have e2: "getPerspectiveCorrectZAtCoordinate (Vec3 (3/5) (1/5) (1/5)) (tri_of farTriangle) = 7 / 10"
    by (simp add: farTriangle_def Let_def)
  have t: "depthTest (3 / 10) (12 + 12 * 32) clearedBuffers"
          "depthTest (7 / 10) (12 + 12 * 32) clearedBuffers"
    by (simp_all add: depthTest_def clearedBuffers_def)
  have k: "\<not> USE_K_BUFFER standardConfig"
    by (simp add: standardConfig_def)
  have r1: "depths
        (writeFragment standardConfig farTriangle (tri_of farTriangle) (Vec3 (3/5) (1/5) (1/5))
           (7 / 10) (12 + 12 * 32)
          (writeFragment standardConfig nearTriangle (tri_of nearTriangle) (Vec3 (3/5) (1/5) (1/5))
             (3 / 10) (12 + 12 * 32)
            (lowerDepth float_as_int (7 / 10) (12 + 12 * 32)
              (lowerDepth float_as_int (3 / 10) (12 + 12 * 32) clearedBuffers))))
        (12 + 12 * 32) = Fin (3 / 10)"
    by (simp add: lowerDepth_def fatomicMin_cell clearedBuffers_def)
  have r2: "f_color (fragmentBuffer
        (writeFragment standardConfig farTriangle (tri_of farTriangle) (Vec3 (3/5) (1/5) (1/5))
           (7 / 10) (12 + 12 * 32)
          (writeFragment standardConfig nearTriangle (tri_of nearTriangle) (Vec3 (3/5) (1/5) (1/5))
             (3 / 10) (12 + 12 * 32)
            (lowerDepth float_as_int (7 / 10) (12 + 12 * 32)
              (lowerDepth float_as_int (3 / 10) (12 + 12 * 32) clearedBuffers))))
        (12 + 12 * 32)) = Vec4 0 0 1 1"
    by (simp add: writeFragment_color [OF k] farTriangle_def)
  show ?thesis
    unfolding b1 b2 d1 d2 col
    using c1 k1 k2 n1 n2 e1 e2 t r1 r2 by (intro conjI) (assumption | rule refl)+
qed

text \<open>
  The point-in-triangle test in floating point is the conjunction of the six closed
  bounds; a component that is \<open>NaN\<close> fails it.
\<close>

lemma isBarycentricCoordInBounds32_finite:
  "isBarycentricCoordInBounds32 (FVec3 (Fin a) (Fin b) (Fin c))
     \<longleftrightarrow> 0 \<le> a \<and> a \<le> 1 \<and> 0 \<le> b \<and> b \<le> 1 \<and> 0 \<le> c \<and> c \<le> 1"
  by (simp add: isBarycentricCoordInBounds32_def)

lemma isBarycentricCoordInBounds32_NaN:
  "\<not> isBarycentricCoordInBounds32 (FVec3 NaN b c)"
  "\<not> isBarycentricCoordInBounds32 (FVec3 a NaN c)"
  "\<not> isBarycentricCoordInBounds32 (FVec3 a b NaN)"
  by (simp_all add: isBarycentricCoordInBounds32_def)

text \<open>
  A triangle whose signed area is computed as 0 covers no pixel: the quotients by the
  area are \<open>NaN\<close> or infinite.
\<close>

lemma zero_area_rejected:
  assumes "calculateSignedArea32 (t0, t1, t2) = Fin 0"
  shows "\<not> isBarycentricCoordInBounds32 (calculateBarycentricCoordinate32 (t0, t1, t2) p)"
proof -
  define c where "c = calculateBarycentricCoordinate32 (t0, t1, t2) p"
  have d: "\<not> (fle (Fin 0) (fdiv round32 n (Fin 0)) \<and> fle (fdiv round32 n (Fin 0)) (Fin 1))" for n
    by (cases n) simp_all
  obtain n where "fy3 c = fdiv round32 n (Fin 0)"
    unfolding c_def
    by (simp add: Let_def calculateBarycentricCoordinateValue32_def assms
          del: calculateSignedArea32.simps)
  then have "\<not> isBarycentricCoordInBounds32 c"
    using d [of n] by (auto simp add: isBarycentricCoordInBounds32_def)
  then show ?thesis
    unfolding c_def .
qed

text \<open>
  C6, evaluated where it fails. The pixel (1, 2) lies on the edge from (3, 0) to (0, 3) of
  the triangle with the vertices (0, 0), (3, 0) and (0, 3): its exact barycentric
  coordinate is (0, 1/3, 2/3). In floating point \<open>beta\<close> and \<open>gamma\<close> are the floats
  nearest to 1/3 and 2/3, \<open>11184811 / 2 ^ 25\<close> and \<open>11184811 / 2 ^ 24\<close>, whose sum
  exceeds 1 by \<open>2 ^ -25\<close>; \<open>alpha = 1.0 - beta - gamma\<close> is \<open>- 2 ^ -25\<close>, and the
  test of \<open>_rasterize\<close> rejects the pixel. The same holds for the triangle on the other
  side of the edge, with the vertices (3, 3), (0, 3) and (3, 0): the pixel on the edge
  that the two triangles share is in neither.
\<close>

theorem pixel_on_shared_edge_rejected:
  "calculateBarycentricCoordinate (Vec3 0 0 1, Vec3 3 0 1, Vec3 0 3 1) (Vec2 1 2)
     = Vec3 0 (1 / 3) (2 / 3)
   \<and> isBarycentricCoordInBounds
        (calculateBarycentricCoordinate (Vec3 0 0 1, Vec3 3 0 1, Vec3 0 3 1) (Vec2 1 2))
   \<and> calculateBarycentricCoordinate32
        (FVec3 (Fin 0) (Fin 0) (Fin 1), FVec3 (Fin 3) (Fin 0) (Fin 1), FVec3 (Fin 0) (Fin 3) (Fin 1))
        (FVec2 (Fin 1) (Fin 2))
       = FVec3 (Fin (- (1 / 2 ^ 25))) (Fin (11184811 / 2 ^ 25)) (Fin (11184811 / 2 ^ 24))
   \<and> \<not> pixelInBounds32
        (FVec3 (Fin 0) (Fin 0) (Fin 1), FVec3 (Fin 3) (Fin 0) (Fin 1), FVec3 (Fin 0) (Fin 3) (Fin 1))
        1 2
   \<and> calculateBarycentricCoordinate (Vec3 3 3 1, Vec3 0 3 1, Vec3 3 0 1) (Vec2 1 2)
     = Vec3 0 (2 / 3) (1 / 3)
   \<and> isBarycentricCoordInBounds
        (calculateBarycentricCoordinate (Vec3 3 3 1, Vec3 0 3 1, Vec3 3 0 1) (Vec2 1 2))
   \<and> calculateBarycentricCoordinate32
        (FVec3 (Fin 3) (Fin 3) (Fin 1), FVec3 (Fin 0) (Fin 3) (Fin 1), FVec3 (Fin 3) (Fin 0) (Fin 1))
        (FVec2 (Fin 1) (Fin 2))
       = FVec3 (Fin (- (1 / 2 ^ 25))) (Fin (11184811 / 2 ^ 24)) (Fin (11184811 / 2 ^ 25))
   \<and> \<not> pixelInBounds32
        (FVec3 (Fin 3) (Fin 3) (Fin 1), FVec3 (Fin 0) (Fin 3) (Fin 1), FVec3 (Fin 3) (Fin 0) (Fin 1))
        1 2"
proof -
  have e1: "calculateBarycentricCoordinate (Vec3 0 0 1, Vec3 3 0 1, Vec3 0 3 1) (Vec2 1 2)
              = Vec3 0 (1 / 3) (2 / 3)"
    by (simp add: calculateBarycentricCoordinateValue_def Let_def)
  have e2: "calculateBarycentricCoordinate (Vec3 3 3 1, Vec3 0 3 1, Vec3 3 0 1) (Vec2 1 2)
              = Vec3 0 (2 / 3) (1 / 3)"
    by (simp add: calculateBarycentricCoordinateValue_def Let_def)
  have i: "isBarycentricCoordInBounds (Vec3 0 (1 / 3) (2 / 3))"
          "isBarycentricCoordInBounds (Vec3 0 (2 / 3) (1 / 3))"
    by (simp_all add: isBarycentricCoordInBounds_def)
  have f1: "calculateBarycentricCoordinate32
        (FVec3 (Fin 0) (Fin 0) (Fin 1), FVec3 (Fin 3) (Fin 0) (Fin 1), FVec3 (Fin 0) (Fin 3) (Fin 1))
        (FVec2 (Fin 1) (Fin 2))
       = FVec3 (Fin (- (1 / 2 ^ 25))) (Fin (11184811 / 2 ^ 25)) (Fin (11184811 / 2 ^ 24))"
    by code_simp
  have f2: "calculateBarycentricCoordinate32
        (FVec3 (Fin 3) (Fin 3) (Fin 1), FVec3 (Fin 0) (Fin 3) (Fin 1), FVec3 (Fin 3) (Fin 0) (Fin 1))
        (FVec2 (Fin 1) (Fin 2))
       = FVec3 (Fin (- (1 / 2 ^ 25))) (Fin (11184811 / 2 ^ 24)) (Fin (11184811 / 2 ^ 25))"
    by code_simp
  have r1: "\<not> pixelInBounds32
        (FVec3 (Fin 0) (Fin 0) (Fin 1), FVec3 (Fin 3) (Fin 0) (Fin 1), FVec3 (Fin 0) (Fin 3) (Fin 1))
        1 2"
    by code_simp
  have r2: "\<not> pixelInBounds32
        (FVec3 (Fin 3) (Fin 3) (Fin 1), FVec3 (Fin 0) (Fin 3) (Fin 1), FVec3 (Fin 3) (Fin 0) (Fin 1))
        1 2"
    by code_simp
  show ?thesis
    unfolding e1 e2 using i f1 f2 r1 r2 by (intro conjI) (assumption | rule refl)+
qed

text \<open>
  The bounding box is clamped to the closed box from 0 to the width and from 0 to the
  height, so the pixels scanned have \<open>x\<close> up to and including the width and \<open>y\<close> up to
  and including the height.
\<close>

lemma scanRange_bounds:
  assumes "0 \<le> lo" "hi \<le> real_of_int n" "i \<in> set (scanRange lo hi)"
  shows "0 \<le> i \<and> i \<le> n"
proof -
  have "itrunc lo \<le> i" "i \<le> \<lfloor>hi\<rfloor>"
    using assms(3) by (simp_all add: scanRange_def)
  moreover have "0 \<le> itrunc lo"
    using assms(1) by (simp add: itrunc_def)
  moreover have "\<lfloor>hi\<rfloor> \<le> n"
    using assms(2) by (simp add: floor_le_iff)
  ultimately show ?thesis by linarith
qed

lemma scannedPixels_in_closed_box:
  assumes "0 \<le> w" "0 \<le> h" "(x, y) \<in> set (scannedPixels (getAABBForTriangle tri w h))"
  shows "0 \<le> x \<and> x \<le> w \<and> 0 \<le> y \<and> y \<le> h"
proof -
  obtain t0 t1 t2 where tri: "tri = (t0, t1, t2)" by (cases tri)
  have c: "\<And>r n. 0 \<le> n \<Longrightarrow> 0 \<le> glm_clamp r 0 (real_of_int n)
             \<and> glm_clamp r 0 (real_of_int n) \<le> real_of_int n"
    by (simp add: glm_clamp_def)
  have "x \<in> set (scanRange (x3 (min_aabb (getAABBForTriangle tri w h)))
                          (x3 (max_aabb (getAABBForTriangle tri w h))))"
       "y \<in> set (scanRange (y3 (min_aabb (getAABBForTriangle tri w h)))
                          (y3 (max_aabb (getAABBForTriangle tri w h))))"
    using assms(3) by (simp_all add: scannedPixels_def)
  then show ?thesis
    unfolding tri using c [OF assms(1)] c [OF assms(2)]
    by (auto dest!: scanRange_bounds [rotated 2])
qed

text \<open>
  C4, evaluated where it fails. For an image of width 4 and height 4 and the triangle with
  the projected vertices (0, 0), (10, 0) and (0, 10), the scan of \<open>_rasterize\<close> reaches
  the pixel (4, 4): the box is clamped to \<open>[0, 4] x [0, 4]\<close> and both loops run up to and
  including the clamped maximum. The pixel is inside the triangle, and the thread writes
  the depth at the flat index \<open>4 + 4 * 4 = 20\<close>, outside \<open>[0, 16)\<close>.
\<close>

theorem scan_reaches_pixel_outside_image:
  "(4, 4) \<in> set (scannedPixels (getAABBForTriangle (tri_of bigTriangle) 4 4))
   \<and> isBarycentricCoordInBounds (calculateBarycentricCoordinate (tri_of bigTriangle) (Vec2 4 4))
   \<and> depths (rasterizeThread standardConfig float_as_int 1 (\<lambda>i. bigTriangle) 4 4 0
               clearedBuffers) (4 + 4 * 4) = Fin 1
   \<and> depths clearedBuffers (4 + 4 * 4) = PInf
   \<and> \<not> (4 + 4 * 4 < (4::int) * 4)"
proof -
  have s: "scannedPixels (getAABBForTriangle (tri_of bigTriangle) 4 4)
             = List.product [0, 1, 2, 3, 4] [0, 1, 2, 3, 4]"
    by (simp add: scannedPixels_def bigTriangle_def scanRange_def glm_clamp_def itrunc_def
          upto.simps)
  have b: "isBarycentricCoordInBounds
             (calculateBarycentricCoordinate (tri_of bigTriangle) (Vec2 4 4))"
    by (simp add: bigTriangle_def calculateBarycentricCoordinateValue_def Let_def
          isBarycentricCoordInBounds_def)
  have t: "depths (rasterizeThread standardConfig float_as_int 1 (\<lambda>i. bigTriangle) 4 4 0
                     clearedBuffers) (4 + 4 * 4) = Fin 1"
    unfolding rasterizeThread_def Let_def s
    by (simp add: rasterizePixel_def bigTriangle_def calculateBarycentricCoordinateValue_def
          Let_def isBarycentricCoordInBounds_def processFragment_def standardConfig_def
          fatomicMin_cell flt_not_fle clearedBuffers_def neg3_def dot3_def)
  show ?thesis
    using b t by (simp add: s clearedBuffers_def)
qed

text \<open>
  C7, evaluated where it fails. For a texture of width 4 and height 2 and the texture
  coordinate (0, 1/4), the lookup of \<open>_rasterize\<close> computes the texel index
  \<open>(int)(u * W) + (int)(v * W) * H = 2\<close>, where the row-major index
  \<open>floor(u * W) + floor(v * H) * W\<close> is 0; on a texture that is white at texel 2 and
  black elsewhere the colour read is white.
\<close>

theorem nearest_lookup_swaps_width_and_height:
  "nearestTexIndex (Vec2 0 (1/4)) 4 2 = 2
   \<and> spec_nearestTexIndex (Vec2 0 (1/4)) 4 2 = 0
   \<and> nearestPixelColor (\<lambda>i. if 6 \<le> i \<and> i < 9 then 255 else 0) (Vec2 0 (1/4)) 4 2
       = Vec4 1 1 1 1"
  by (simp add: nearestTexIndex_def spec_nearestTexIndex_def nearestPixelColor_def itrunc_def)

text \<open>
  Where the two indices agree: a square texture and a texture coordinate without a
  negative component.
\<close>

lemma nearestTexIndex_square:
  "0 \<le> x2 uv \<Longrightarrow> 0 \<le> y2 uv \<Longrightarrow> 0 \<le> n \<Longrightarrow>
   nearestTexIndex uv n n = spec_nearestTexIndex uv n n"
  by (simp add: nearestTexIndex_def spec_nearestTexIndex_def itrunc_def)

text \<open>
  The k-buffer build: a fragment adds its weighted colour and alpha to the four
  components of the accumulator of its pixel, and assigns its alpha to the revealage of
  the pixel. \<open>rasterize\<close> clears both buffers before it launches \<open>_rasterize\<close>.
\<close>

lemma kbuffer_accum_added:
  "USE_K_BUFFER cfg \<Longrightarrow>
   depthAccum (writeFragment cfg primitive tri b d i st) i =
     (let c = fragmentColor cfg primitive tri b d;
          alpha = kbufferAlpha c;
          w = kbufferWeight alpha d;
          acc = depthAccum st i
      in Vec4 (x4 acc + x4 c * w) (y4 acc + y4 c * w) (z4 acc + z4 c * w) (w4 acc + alpha * w))"
  by (simp add: writeFragment_def Let_def)

lemma kbuffer_revealage_assigned:
  "USE_K_BUFFER cfg \<Longrightarrow>
   depthRevealage (writeFragment cfg primitive tri b d i st) i
     = kbufferAlpha (fragmentColor cfg primitive tri b d)"
  by (simp add: writeFragment_def Let_def)

lemma clearBuffers_accumulation:
  "0 \<le> i \<Longrightarrow> i < width * height \<Longrightarrow>
   depthAccum (clearBuffers width height st) i = Vec4 0 0 0 0
   \<and> depthRevealage (clearBuffers width height st) i = float_0x01010101"
  by (simp add: clearBuffers_def cudaMemset_def)

lemma kbuffer_example_pixel:
  assumes "0 < z"
  shows "rasterizePixel kbufferConfig float_as_int
       (flatTriangle (Vec3 10 10 z) (Vec3 20 10 z) (Vec3 10 20 z) c)
       (Vec3 10 10 z, Vec3 20 10 z, Vec3 10 20 z) 32 12 12 st =
     writeFragment kbufferConfig (flatTriangle (Vec3 10 10 z) (Vec3 20 10 z) (Vec3 10 20 z) c)
       (Vec3 10 10 z, Vec3 20 10 z, Vec3 10 20 z) (Vec3 (3/5) (1/5) (1/5)) z (12 + 12 * 32) st"
proof -
  have "3 / (5 * z) + 1 / (5 * z) + 1 / (5 * z) = 1 / z"
    using assms by (simp add: field_simps)
  then have d: "getPerspectiveCorrectZAtCoordinate (Vec3 (3/5) (1/5) (1/5))
                  (Vec3 10 10 z, Vec3 20 10 z, Vec3 10 20 z) = z"
    by (simp add: Let_def)
  show ?thesis
    unfolding rasterizePixel_def Let_def example_barycentric processFragment_def d
    by (simp add: kbufferConfig_def isBarycentricCoordInBounds_def)
qed

text \<open>
  C8, evaluated where it fails. In the k-buffer build two fragments fall on the pixel
  (12, 12) of a cleared image: a grey one (alpha 1/20, weight 300) and a black one (alpha
  1/10, weight 300). The accumulator holds the sum of the two weighted contributions in
  either order. The revealage holds the alpha of the fragment processed last, 1/10 in
  one order and 1/20 in the other: it is assigned, not accumulated.
\<close>

theorem kbuffer_revealage_overwritten:
  "depthRevealage
     (rasterizePixel kbufferConfig float_as_int blackTriangle (tri_of blackTriangle) 32 12 12
       (rasterizePixel kbufferConfig float_as_int greyTriangle (tri_of greyTriangle) 32 12 12
          clearedBuffers)) (12 + 12 * 32) = 1 / 10
   \<and> depthRevealage
     (rasterizePixel kbufferConfig float_as_int greyTriangle (tri_of greyTriangle) 32 12 12
       (rasterizePixel kbufferConfig float_as_int blackTriangle (tri_of blackTriangle) 32 12 12
          clearedBuffers)) (12 + 12 * 32) = 1 / 20
   \<and> depthAccum
     (rasterizePixel kbufferConfig float_as_int blackTriangle (tri_of blackTriangle) 32 12 12
       (rasterizePixel kbufferConfig float_as_int greyTriangle (tri_of greyTriangle) 32 12 12
          clearedBuffers)) (12 + 12 * 32) = Vec4 150 150 150 45
   \<and> depthAccum
     (rasterizePixel kbufferConfig float_as_int greyTriangle (tri_of greyTriangle) 32 12 12
       (rasterizePixel kbufferConfig float_as_int blackTriangle (tri_of blackTriangle) 32 12 12
          clearedBuffers)) (12 + 12 * 32) = Vec4 150 150 150 45"
proof -
  have k: "USE_K_BUFFER kbufferConfig" by (simp add: kbufferConfig_def)
  have ag: "kbufferAlpha (Vec4 (1/2) (1/2) (1/2) 1) = 1 / 20"
    by (simp add: kbufferAlpha_def glm_clamp_def)
  have ab: "kbufferAlpha (Vec4 0 0 0 1) = 1 / 10"
    by (simp add: kbufferAlpha_def glm_clamp_def)
  have wg: "kbufferWeight (1 / 20) (3 / 10) = 300"
    by (simp add: kbufferWeight_def glm_clamp_def Let_def)
  have wb: "kbufferWeight (1 / 10) (7 / 10) = 300"
    by (simp add: kbufferWeight_def glm_clamp_def Let_def)
  show ?thesis
    unfolding greyTriangle_def blackTriangle_def tri_of_flatTriangle
    by (simp add: kbuffer_example_pixel kbuffer_revealage_assigned [OF k]
          kbuffer_accum_added [OF k] Let_def ag ab wg wb clearedBuffers_def)
qed

section \<open>Culling\<close>

text \<open>
  With \<open>BACKFACE_CULLING\<close>, \<open>culledNumPrimitives\<close> is the distance of the end of the
  kept primitives in \<open>dev_culledPrimitives\<close> from the start of the other array,
  \<open>dev_primitives\<close>: the number kept plus the distance between the two arrays.
\<close>

lemma culledNumPrimitives_value:
  assumes "BACKFACE_CULLING cfg"
  shows "snd (cullPrimitives cfg dev_primitives dev_culledPrimitives n primitives culledPrimitives) =
     (let kept = int (length (filter (\<lambda>p. \<not> shouldBackfaceCull p) (map primitives [0 .. n - 1])))
      in if dev_culledPrimitives + kept - dev_primitives \<le> 0 then 1
         else dev_culledPrimitives + kept - dev_primitives)"
proof -
  have m: "map (cudaMemcpy culledPrimitives primitives n) [0 .. n - 1] = map primitives [0 .. n - 1]"
    by (rule map_cong) (auto simp: cudaMemcpy_def)
  show ?thesis
    unfolding cullPrimitives_def remove_if_def Let_def m using assms by simp
qed

text \<open>
  Two arrays of \<open>n\<close> elements that do not overlap: the count is 1, or exceeds the
  number of primitives kept by at least \<open>n\<close>.
\<close>

lemma culledNumPrimitives_disjoint_arrays:
  assumes c: "BACKFACE_CULLING cfg"
    and d: "dev_primitives + n \<le> dev_culledPrimitives \<or> dev_culledPrimitives + n \<le> dev_primitives"
  shows "(let kept = int (length (filter (\<lambda>p. \<not> shouldBackfaceCull p)
                                   (map primitives [0 .. n - 1])));
              count = snd (cullPrimitives cfg dev_primitives dev_culledPrimitives n
                             primitives culledPrimitives)
          in count = 1 \<or> kept + n \<le> count)"
proof -
  have "length (filter (\<lambda>p. \<not> shouldBackfaceCull p) (map primitives [0 .. n - 1]))
          \<le> length (map primitives [0 .. n - 1])"
    by (rule length_filter_le)
  then have "int (length (filter (\<lambda>p. \<not> shouldBackfaceCull p) (map primitives [0 .. n - 1])))
          \<le> max 0 n"
    by simp
  then show ?thesis
    unfolding culledNumPrimitives_value [OF c] Let_def using d by auto
qed

text \<open>
  C3, evaluated where it fails. \<open>BACKFACE_CULLING\<close> build, two primitives, both front
  facing (\<open>shouldBackfaceCull\<close> is false for both), \<open>dev_primitives\<close> at the element
  address 0 and \<open>dev_culledPrimitives\<close> behind it at the element address 2. Both
  primitives survive, and the count handed to the rasterizer is 4.
\<close>

theorem culled_count_measured_from_other_array:
  "\<not> shouldBackfaceCull nearTriangle \<and> \<not> shouldBackfaceCull farTriangle
   \<and> snd (cullPrimitives cullingConfig 0 2 2
            (\<lambda>i. if i = 0 then nearTriangle else farTriangle) culledPrimitives) = 4"
proof -
  have n: "\<not> shouldBackfaceCull nearTriangle"
    by (simp add: shouldBackfaceCull_def nearTriangle_def flatTriangle_def exampleVertex_def
          sub4_def cross3_def dot3_def vec3_of_def neg3_def)
  have f: "\<not> shouldBackfaceCull farTriangle"
    by (simp add: shouldBackfaceCull_def farTriangle_def flatTriangle_def exampleVertex_def
          sub4_def cross3_def dot3_def vec3_of_def neg3_def)
  have u: "[0 .. 2 - 1] = [0, 1::int]" by (simp add: upto.simps)
  show ?thesis
    using n f
    by (simp add: cullPrimitives_def cullingConfig_def remove_if_def cudaMemcpy_def Let_def u)
qed

section \<open>Kernel launches\<close>

lemma blocks_cover:
  fixes i n k :: int
  assumes "0 < k" "i < n"
  shows "i \<le> ((n + k - 1) div k) * k - 1"
proof -
  have "(n + k - 1) div k * k + (n + k - 1) mod k = n + k - 1"
    by simp
  moreover have "(n + k - 1) mod k < k"
    using assms(1) by simp
  ultimately show ?thesis
    using assms(2) by linarith
qed

lemma in_launch1d:
  assumes "0 \<le> i" "i < n"
  shows "i \<in> set (launch1d n)"
  using blocks_cover [of 128 i n] assms by (simp add: launch1d_def)

lemma blocks_of_eight_cover:
  fixes i n :: int
  assumes "i < n"
  shows "i \<le> ((n - 1) div 8 + 1) * 8 - 1"
proof -
  have "(n - 1) div 8 * 8 + (n - 1) mod 8 = n - 1"
    by simp
  moreover have "(n - 1) mod 8 < 8"
    by simp
  moreover have "((n - 1) div 8 + 1) * 8 = (n - 1) div 8 * 8 + 8"
    by (simp add: algebra_simps)
  ultimately show ?thesis
    using assms by linarith
qed

lemma in_launch2d:
  assumes "0 \<le> x" "x < w" "0 \<le> y" "y < h"
  shows "(x, y) \<in> set (launch2d w h)"
  using blocks_of_eight_cover [OF assms(2)] blocks_of_eight_cover [OF assms(4)] assms
  by (simp add: launch2d_def)

lemma fold_unchanged:
  "(\<And>t s. t \<in> set ts \<Longrightarrow> f t s = s) \<Longrightarrow> fold f ts s = s"
  by (induction ts arbitrary: s) simp_all

lemma fold_pointwise_unchanged:
  "(\<And>t s. t \<in> set ts \<Longrightarrow> f t s (i::int) = s i) \<Longrightarrow> fold f ts s i = s i"
  by (induction ts arbitrary: s) simp_all

section \<open>Clearing the depth buffer\<close>

lemma fold_initDepth:
  "fold (initDepth w h) ts depth i =
     (if \<exists>(x, y) \<in> set ts. x < w \<and> y < h \<and> x + y * w = i then PInf else depth i)"
proof (induction ts arbitrary: depth)
  case Nil
  show ?case by simp
next
  case (Cons t ts)
  obtain x y where t: "t = (x, y)" by (cases t)
  show ?case
    unfolding fold_simps Cons.IH t
    by (auto simp: initDepth_def)
qed

text \<open>
  After the clearing in \<open>rasterize\<close> the depth of every pixel of the image is
  \<open>INFINITY\<close>: the first fragment of a frame at a pixel passes the depth test,
  whatever its depth.
\<close>

lemma clearBuffers_depth:
  assumes "0 \<le> x" "x < width" "0 \<le> y" "y < height"
  shows "depths (clearBuffers width height st) (x + y * width) = PInf"
    and "flt (Fin d) (depths (clearBuffers width height st) (x + y * width))"
proof -
  have "\<exists>(x', y') \<in> set (launch2d width height).
          x' < width \<and> y' < height \<and> x' + y' * width = x + y * width"
    using in_launch2d [OF assms] assms by blast
  then show "depths (clearBuffers width height st) (x + y * width) = PInf"
    by (simp add: clearBuffers_def initDepthKernel_def fold_initDepth)
  then show "flt (Fin d) (depths (clearBuffers width height st) (x + y * width))"
    by simp
qed

section \<open>Present\<close>

lemma fold_sendImageToPBO:
  "fold (sendImageToPBO w h img) ts pbo i =
     (if \<exists>(x, y) \<in> set ts. x < w \<and> y < h \<and> x + y * w = i
      then Uchar4 (to_uchar (glm_clamp (x4 (img i)) 0 1 * 255))
                  (to_uchar (glm_clamp (y4 (img i)) 0 1 * 255))
                  (to_uchar (glm_clamp (z4 (img i)) 0 1 * 255))
                  (to_uchar (glm_clamp (z4 (img i)) 0 1 * 255))
      else pbo i)"
proof (induction ts arbitrary: pbo)
  case Nil
  show ?case by simp
next
  case (Cons t ts)
  obtain x y where t: "t = (x, y)" by (cases t)
  show ?case
    unfolding fold_simps Cons.IH t
    by (auto simp: sendImageToPBO_def Let_def)
qed

text \<open>
  C9. For every pixel \<open>(x, y)\<close> of the image, after \<open>sendImageToPBO\<close> the element of
  the surface at the pixel holds, in its first three channels, the red, green and blue
  channel of the framebuffer clamped to the interval from 0 to 1 and multiplied by 255
  (truncated to the 8-bit channel), and in its fourth channel the value computed from the
  blue channel of the framebuffer; the alpha channel of the framebuffer is not read.
\<close>

theorem present_writes_blue_into_alpha:
  assumes "0 \<le> x" "x < w" "0 \<le> y" "y < h"
  shows "sendImageToPBOKernel w h img pbo (x + y * w) =
     Uchar4 (to_uchar (glm_clamp (x4 (img (x + y * w))) 0 1 * 255))
            (to_uchar (glm_clamp (y4 (img (x + y * w))) 0 1 * 255))
            (to_uchar (glm_clamp (z4 (img (x + y * w))) 0 1 * 255))
            (to_uchar (glm_clamp (z4 (img (x + y * w))) 0 1 * 255))"
proof -
  have "\<exists>(x', y') \<in> set (launch2d w h). x' < w \<and> y' < h \<and> x' + y' * w = x + y * w"
    using in_launch2d [OF assms] assms by blast
  then show ?thesis
    unfolding sendImageToPBOKernel_def fold_sendImageToPBO by simp
qed

text \<open>
  A framebuffer colour (1/2, 3/2, 1/5, 0) is presented as (127, 255, 51, 51): the fourth
  channel repeats the third, although the alpha of the framebuffer is 0.
\<close>

theorem present_writes_blue_into_alpha_witness:
  "sendImageToPBOKernel 2 2 (\<lambda>i. Vec4 (1/2) (3/2) (1/5) 0) (\<lambda>i. Uchar4 0 0 0 0) (1 + 1 * 2)
     = Uchar4 127 255 51 51"
  using present_writes_blue_into_alpha
          [where x = 1 and w = 2 and y = 1 and h = 2
             and img = "\<lambda>i. Vec4 (1/2) (3/2) (1/5) 0" and pbo = "\<lambda>i. Uchar4 0 0 0 0"]
  by (simp add: to_uchar_def glm_clamp_def itrunc_def)

section \<open>Vertex stage\<close>

text \<open>A thread of the vertex stage changes the output vertices of the part and nothing else.\<close>

lemma vertexTransformAndAssembly_frame:
  "\<exists>f. vertexTransformAndAssembly n MVP MV MVn w h vid p = p \<lparr> dev_verticesOut := f \<rparr>"
proof (cases "vid < n")
  case True
  then show ?thesis
    unfolding vertexTransformAndAssembly_def Let_def by (simp only: if_True) blast
next
  case False
  have "p = p \<lparr> dev_verticesOut := dev_verticesOut p \<rparr>" by simp
  with False show ?thesis
    unfolding vertexTransformAndAssembly_def by (simp only: if_False) blast
qed

lemma vertex_fold_frame:
  "\<exists>f. fold (vertexTransformAndAssembly n MVP MV MVn w h) ts p = p \<lparr> dev_verticesOut := f \<rparr>"
proof (induction ts arbitrary: p)
  case Nil
  have "p = p \<lparr> dev_verticesOut := dev_verticesOut p \<rparr>" by simp
  then show ?case by (simp only: fold_simps) blast
next
  case (Cons t ts)
  obtain f where f: "vertexTransformAndAssembly n MVP MV MVn w h t p = p \<lparr> dev_verticesOut := f \<rparr>"
    using vertexTransformAndAssembly_frame by blast
  obtain g where g: "fold (vertexTransformAndAssembly n MVP MV MVn w h) ts (p \<lparr> dev_verticesOut := f \<rparr>)
      = p \<lparr> dev_verticesOut := f \<rparr> \<lparr> dev_verticesOut := g \<rparr>"
    using Cons.IH by blast
  show ?case
    by (rule exI [of _ g]) (simp add: f g)
qed

lemma vertexKernel_frame:
  "\<exists>f. vertexTransformAndAssemblyKernel MVP MV MVn w h p = p \<lparr> dev_verticesOut := f \<rparr>"
  unfolding vertexTransformAndAssemblyKernel_def by (rule vertex_fold_frame)

lemma vertex_thread_pos:
  "t < n \<Longrightarrow> pos (dev_verticesOut (vertexTransformAndAssembly n MVP MV MVn w h t p) t) =
      (let clip = mat4_mul MVP (Vec4 (x3 (dev_position p t)) (y3 (dev_position p t))
                                        (z3 (dev_position p t)) 1)
            in Vec4 (0.5 * real_of_int w * (x4 clip / w4 clip + 1))
                    (0.5 * real_of_int h * (1 - y4 clip / w4 clip))
                    (z4 clip / w4 clip) (w4 clip / w4 clip))"
  by (cases "part_dev_diffuseTex p") (simp_all add: vertexTransformAndAssembly_def Let_def div4_def)

lemma vertex_thread_other:
  "vid \<noteq> t \<Longrightarrow> dev_verticesOut (vertexTransformAndAssembly n MVP MV MVn w h t p) vid
     = dev_verticesOut p vid"
  by (simp add: vertexTransformAndAssembly_def Let_def)

lemma vertex_thread_skip:
  "\<not> t < n \<Longrightarrow> vertexTransformAndAssembly n MVP MV MVn w h t p = p"
  by (simp add: vertexTransformAndAssembly_def)

text \<open>The position of an output vertex after any sequence of threads of the vertex stage.\<close>

lemma vertex_fold_pos:
  "pos (dev_verticesOut (fold (vertexTransformAndAssembly n MVP MV MVn w h) ts p) vid) =
     (if vid \<in> set ts \<and> vid < n
      then (let clip = mat4_mul MVP (Vec4 (x3 (dev_position p vid)) (y3 (dev_position p vid))
                                        (z3 (dev_position p vid)) 1)
            in Vec4 (0.5 * real_of_int w * (x4 clip / w4 clip + 1))
                    (0.5 * real_of_int h * (1 - y4 clip / w4 clip))
                    (z4 clip / w4 clip) (w4 clip / w4 clip))
      else pos (dev_verticesOut p vid))"
proof (induction ts arbitrary: p)
  case Nil
  show ?case by simp
next
  case (Cons t ts)
  obtain f where f: "vertexTransformAndAssembly n MVP MV MVn w h t p = p \<lparr> dev_verticesOut := f \<rparr>"
    using vertexTransformAndAssembly_frame by blast
  have dp: "dev_position (vertexTransformAndAssembly n MVP MV MVn w h t p) = dev_position p"
    by (simp add: f)
  show ?case
  proof (cases "vid = t")
    case True
    show ?thesis
    proof (cases "t < n")
      case True
      with \<open>vid = t\<close> show ?thesis
        unfolding fold_simps Cons.IH dp by (simp add: vertex_thread_pos)
    next
      case False
      with \<open>vid = t\<close> show ?thesis
        unfolding fold_simps Cons.IH dp by (simp add: vertex_thread_skip)
    qed
  next
    case False
    then show ?thesis
      unfolding fold_simps Cons.IH dp by (simp add: vertex_thread_other)
  qed
qed

lemma half_scale_bounds:
  fixes n :: int and r :: real
  assumes "0 \<le> n" "0 \<le> r" "r \<le> 2"
  shows "0 \<le> 0.5 * real_of_int n * r \<and> 0.5 * real_of_int n * r \<le> real_of_int n"
proof -
  have "0 \<le> real_of_int n * r"
    using assms by simp
  moreover have "real_of_int n * r \<le> real_of_int n * 2"
    using assms by (intro mult_left_mono) simp_all
  ultimately show ?thesis by simp
qed

text \<open>
  C5. For every vertex \<open>vid\<close> of a part and every matrix \<open>MVP\<close>, the position that
  the vertex stage writes has \<open>x = 0.5 * width * (x_ndc + 1)\<close> and
  \<open>y = 0.5 * height * (1 - y_ndc)\<close>, where \<open>x_ndc\<close> and \<open>y_ndc\<close> are the clip-space
  position \<open>MVP * (position, 1)\<close> divided by its \<open>w\<close>. With the identity as
  \<open>MVP\<close> the position read back is this map of the \<open>x\<close> and \<open>y\<close> of the vertex, and
  it lies in \<open>[0, width] x [0, height]\<close> when they lie between -1 and 1. (The quotient
  is that of the model; for a clip-space \<open>w\<close> of 0 the float result is not modelled.)
\<close>

theorem vertex_stage_viewport_position:
  assumes "0 \<le> vid" "vid < numVertices part"
  shows "(let clip = mat4_mul MVP (Vec4 (x3 (dev_position part vid)) (y3 (dev_position part vid))
                                         (z3 (dev_position part vid)) 1);
              out = dev_verticesOut
                      (vertexTransformAndAssemblyKernel MVP MV MV_normal width height part) vid
          in x4 (pos out) = 0.5 * real_of_int width * (x4 clip / w4 clip + 1)
           \<and> y4 (pos out) = 0.5 * real_of_int height * (1 - y4 clip / w4 clip))
       \<and> (let out = dev_verticesOut
                      (vertexTransformAndAssemblyKernel identity4 MV MV_normal width height part) vid
          in x4 (pos out) = 0.5 * real_of_int width * (x3 (dev_position part vid) + 1)
           \<and> y4 (pos out) = 0.5 * real_of_int height * (1 - y3 (dev_position part vid))
           \<and> (0 \<le> width \<and> 0 \<le> height
                \<and> - 1 \<le> x3 (dev_position part vid) \<and> x3 (dev_position part vid) \<le> 1
                \<and> - 1 \<le> y3 (dev_position part vid) \<and> y3 (dev_position part vid) \<le> 1
              \<longrightarrow> 0 \<le> x4 (pos out) \<and> x4 (pos out) \<le> real_of_int width
                \<and> 0 \<le> y4 (pos out) \<and> y4 (pos out) \<le> real_of_int height))"
proof -
  let ?p = "dev_position part vid"
  have m: "vid \<in> set (launch1d (numVertices part)) \<and> vid < numVertices part"
    using in_launch1d [OF assms] assms by simp
  have P: "\<And>M. pos (dev_verticesOut
               (vertexTransformAndAssemblyKernel M MV MV_normal width height part) vid) =
     (let clip = mat4_mul M (Vec4 (x3 ?p) (y3 ?p) (z3 ?p) 1)
      in Vec4 (0.5 * real_of_int width * (x4 clip / w4 clip + 1))
              (0.5 * real_of_int height * (1 - y4 clip / w4 clip))
              (z4 clip / w4 clip) (w4 clip / w4 clip))"
    unfolding vertexTransformAndAssemblyKernel_def vertex_fold_pos
    using m by (simp only: simp_thms if_True)
  have I: "mat4_mul identity4 (Vec4 (x3 ?p) (y3 ?p) (z3 ?p) 1) = Vec4 (x3 ?p) (y3 ?p) (z3 ?p) 1"
    by (simp add: mat4_mul_def identity4_def)
  have B: "0 \<le> width \<and> 0 \<le> height \<and> - 1 \<le> x3 ?p \<and> x3 ?p \<le> 1 \<and> - 1 \<le> y3 ?p \<and> y3 ?p \<le> 1
           \<longrightarrow> 0 \<le> 0.5 * real_of_int width * (x3 ?p + 1)
             \<and> 0.5 * real_of_int width * (x3 ?p + 1) \<le> real_of_int width
             \<and> 0 \<le> 0.5 * real_of_int height * (1 - y3 ?p)
             \<and> 0.5 * real_of_int height * (1 - y3 ?p) \<le> real_of_int height"
    using half_scale_bounds [of width "x3 ?p + 1"] half_scale_bounds [of height "1 - y3 ?p"]
    by simp
  show ?thesis
    unfolding Let_def P I using B by simp
qed

text \<open>
  The vertex (1/2, -1/2, 1/5) of the example part, an 800 by 600 image: under the
  matrix that doubles \<open>x\<close>, \<open>y\<close> and \<open>w\<close>, and under the identity, the viewport
  position is (600, 450).
\<close>

theorem vertex_stage_viewport_position_witness:
  "x4 (pos (dev_verticesOut (vertexTransformAndAssemblyKernel
        (Mat4 (Vec4 2 0 0 0) (Vec4 0 2 0 0) (Vec4 0 0 1 0) (Vec4 0 0 0 2))
        identity4 identity3 800 600 (examplePart TRIANGLES 3)) 0)) = 600
   \<and> y4 (pos (dev_verticesOut (vertexTransformAndAssemblyKernel
        (Mat4 (Vec4 2 0 0 0) (Vec4 0 2 0 0) (Vec4 0 0 1 0) (Vec4 0 0 0 2))
        identity4 identity3 800 600 (examplePart TRIANGLES 3)) 0)) = 450
   \<and> x4 (pos (dev_verticesOut (vertexTransformAndAssemblyKernel
        identity4 identity4 identity3 800 600 (examplePart TRIANGLES 3)) 0)) = 600
   \<and> y4 (pos (dev_verticesOut (vertexTransformAndAssemblyKernel
        identity4 identity4 identity3 800 600 (examplePart TRIANGLES 3)) 0)) = 450"
proof -
  have n: "numVertices (examplePart TRIANGLES 3) = 3"
    and p: "dev_position (examplePart TRIANGLES 3) 0 = Vec3 (1/2) (- 1/2) (1/5)"
    by (simp_all add: examplePart_def)
  show ?thesis
    using vertex_stage_viewport_position
            [where vid = 0 and part = "examplePart TRIANGLES 3"
               and MVP = "Mat4 (Vec4 2 0 0 0) (Vec4 0 2 0 0) (Vec4 0 0 1 0) (Vec4 0 0 0 2)"
               and MV = identity4 and MV_normal = identity3 and width = 800 and height = 600]
    unfolding n p by (simp add: Let_def mat4_mul_def)
qed

section \<open>Primitive assembly\<close>

lemma primitiveAssemblyKernel_not_triangles:
  "primitiveMode p \<noteq> TRIANGLES \<Longrightarrow> primitiveAssemblyKernel cur p prims = prims"
  unfolding primitiveAssemblyKernel_def
  by (rule fold_unchanged) (simp add: primitiveAssembly_def)

text \<open>A part of \<open>k\<close> triangles with \<open>3 * k\<close> indices writes the \<open>k\<close> slots from its
  first slot on, and no other.\<close>

lemma primitiveAssemblyKernel_triangles_range:
  assumes ty: "part_primitiveType p = Triangle"
    and n: "numIndices p = 3 * k"
    and s: "s < cur \<or> cur + k \<le> s"
  shows "primitiveAssemblyKernel cur p prims s = prims s"
  unfolding primitiveAssemblyKernel_def
proof (rule fold_pointwise_unchanged)
  fix t :: int and q :: "int \<Rightarrow> Primitive"
  assume "t \<in> set (launch1d (numIndices p))"
  then have t0: "0 \<le> t" by (simp add: launch1d_def)
  show "primitiveAssembly (numIndices p) cur p t q s = q s"
  proof (cases "t < numIndices p \<and> primitiveMode p = TRIANGLES")
    case True
    then have "t < 3 * k" using n by simp
    then have "t div 3 < k" by linarith
    moreover have "0 \<le> t div 3" using t0 by simp
    ultimately have "t div 3 + cur \<noteq> s" using s by linarith
    then show ?thesis
      by (simp add: primitiveAssembly_def Let_def ty)
  next
    case False
    then show ?thesis by (auto simp: primitiveAssembly_def)
  qed
qed

text \<open>
  A part whose type and count are those of the switch of \<open>rasterizeSetBuffers\<close> is a
  fixed point of \<open>setPrimitiveInfo\<close>.
\<close>

lemma setPrimitiveInfo_triangles:
  assumes "setPrimitiveInfo p = p" "primitiveMode p = TRIANGLES" "numIndices p mod 3 = 0"
  shows "part_primitiveType p = Triangle \<and> numIndices p = 3 * numPrimitives p"
proof -
  have e: "p \<lparr> part_primitiveType := Triangle, numPrimitives := numIndices p div 3 \<rparr> = p"
    using assms(1,2) by (simp add: setPrimitiveInfo_def)
  have "part_primitiveType (p \<lparr> part_primitiveType := Triangle,
                                 numPrimitives := numIndices p div 3 \<rparr>) = Triangle"
       "numPrimitives (p \<lparr> part_primitiveType := Triangle,
                             numPrimitives := numIndices p div 3 \<rparr>) = numIndices p div 3"
    by simp_all
  then have "part_primitiveType p = Triangle" "numPrimitives p = numIndices p div 3"
    unfolding e by simp_all
  then show ?thesis using assms(3) by presburger
qed

lemma setPrimitiveInfo_idem: "setPrimitiveInfo (setPrimitiveInfo p) = setPrimitiveInfo p"
  by (cases "primitiveMode p") (simp_all add: setPrimitiveInfo_def)

lemma kernel_outside_own_slots:
  assumes su: "setPrimitiveInfo p = p"
    and tr: "primitiveMode p = TRIANGLES \<longrightarrow> numIndices p mod 3 = 0"
    and s: "s < cur \<or> cur + numPrimitives p \<le> s"
  shows "primitiveAssemblyKernel cur
           (vertexTransformAndAssemblyKernel MVP MV MVn w h p) prims s = prims s"
proof -
  obtain f where f: "vertexTransformAndAssemblyKernel MVP MV MVn w h p = p \<lparr> dev_verticesOut := f \<rparr>"
    using vertexKernel_frame by blast
  show ?thesis
  proof (cases "primitiveMode p = TRIANGLES")
    case True
    with setPrimitiveInfo_triangles [OF su True] tr
    have "part_primitiveType p = Triangle" "numIndices p = 3 * numPrimitives p" by simp_all
    then show ?thesis
      unfolding f using s
      by (intro primitiveAssemblyKernel_triangles_range [where k = "numPrimitives p"]) simp_all
  next
    case False
    then show ?thesis
      unfolding f by (simp add: primitiveAssemblyKernel_not_triangles)
  qed
qed

lemma assembleParts_append:
  "assembleParts MVP MV MVn w h cur (xs @ ys) prims =
     assembleParts MVP MV MVn w h (cur + totalNumPrimitives xs) ys
       (assembleParts MVP MV MVn w h cur xs prims)"
  by (induction xs arbitrary: cur prims) (simp_all add: totalNumPrimitives_def add.assoc)

lemma totalNumPrimitives_nonneg:
  "\<forall>p \<in> set ps. 0 \<le> numPrimitives p \<Longrightarrow> 0 \<le> totalNumPrimitives ps"
  by (induction ps) (simp_all add: totalNumPrimitives_def)

text \<open>The loop over the parts writes no slot below its first slot and none behind its last.\<close>

lemma assembleParts_outside:
  assumes "\<forall>p \<in> set ps. setPrimitiveInfo p = p \<and> 0 \<le> numPrimitives p
             \<and> (primitiveMode p = TRIANGLES \<longrightarrow> numIndices p mod 3 = 0)"
    and "s < cur \<or> cur + totalNumPrimitives ps \<le> s"
  shows "assembleParts MVP MV MVn w h cur ps prims s = prims s"
  using assms
proof (induction ps arbitrary: cur prims)
  case Nil
  show ?case by simp
next
  case (Cons p ps)
  have t: "totalNumPrimitives (p # ps) = numPrimitives p + totalNumPrimitives ps"
    by (simp add: totalNumPrimitives_def)
  have nn: "0 \<le> totalNumPrimitives ps" "0 \<le> numPrimitives p"
    using Cons.prems(1) by (simp_all add: totalNumPrimitives_nonneg)
  have "assembleParts MVP MV MVn w h (cur + numPrimitives p) ps
          (primitiveAssemblyKernel cur (vertexTransformAndAssemblyKernel MVP MV MVn w h p) prims) s
        = primitiveAssemblyKernel cur (vertexTransformAndAssemblyKernel MVP MV MVn w h p) prims s"
    using Cons.prems t nn by (intro Cons.IH) auto
  also have "\<dots> = prims s"
    using Cons.prems t nn by (intro kernel_outside_own_slots) auto
  finally show ?case by simp
qed

text \<open>
  C10, as amended. For a mesh part whose mode is \<open>TRIANGLE_STRIP\<close> or
  \<open>TRIANGLE_FAN\<close>, buffer setup counts \<open>numIndices - 2\<close> primitives, and they enter
  the total. The primitive-assembly kernel launched for the part writes nothing (it writes
  only for the mode \<open>TRIANGLES\<close>). The slots reserved for the part, those from the sum
  of the counts of the parts before it on, are after the assembly of all parts as they
  were before it, and with culling off they reach the rasterizer so in the copied array,
  when the other parts are as setup makes them, with counts that are not negative and,
  for parts of triangles, a number of indices that is a multiple of 3.
\<close>

theorem strip_and_fan_slots_unwritten_by_assembly:
  assumes mode: "primitiveMode part = TRIANGLE_STRIP \<or> primitiveMode part = TRIANGLE_FAN"
  shows "numPrimitives (setPrimitiveInfo part) = numIndices part - 2
       \<and> totalNumPrimitives (before @ [setPrimitiveInfo part] @ after)
           = totalNumPrimitives before + (numIndices part - 2) + totalNumPrimitives after
       \<and> primitiveAssemblyKernel cur
            (vertexTransformAndAssemblyKernel MVP MV MV_normal width height (setPrimitiveInfo part))
            primitives = primitives
       \<and> ((\<forall>p \<in> set (before @ after). setPrimitiveInfo p = p \<and> 0 \<le> numPrimitives p
               \<and> (primitiveMode p = TRIANGLES \<longrightarrow> numIndices p mod 3 = 0))
           \<and> totalNumPrimitives before \<le> s
           \<and> s < totalNumPrimitives before + (numIndices part - 2)
          \<longrightarrow> assembleParts MVP MV MV_normal width height 0
                 (before @ [setPrimitiveInfo part] @ after) primitives s = primitives s
            \<and> (\<not> BACKFACE_CULLING cfg \<longrightarrow>
                 fst (cullPrimitives cfg dev_primitives dev_culledPrimitives
                        (totalNumPrimitives (before @ [setPrimitiveInfo part] @ after))
                        (assembleParts MVP MV MV_normal width height 0
                           (before @ [setPrimitiveInfo part] @ after) primitives)
                        culledPrimitives) s = primitives s))"
proof -
  let ?p = "setPrimitiveInfo part"
  let ?b = "totalNumPrimitives before"
  let ?parts = "before @ [?p] @ after"
  have cnt: "numPrimitives ?p = numIndices part - 2"
    using mode by (auto simp: setPrimitiveInfo_def)
  have tot: "totalNumPrimitives ?parts = ?b + (numIndices part - 2) + totalNumPrimitives after"
    using cnt by (simp add: totalNumPrimitives_def)
  have pm: "primitiveMode ?p = primitiveMode part"
    by (simp add: setPrimitiveInfo_def split: option.splits)
  obtain f where f: "vertexTransformAndAssemblyKernel MVP MV MV_normal width height ?p
                       = ?p \<lparr> dev_verticesOut := f \<rparr>"
    using vertexKernel_frame by blast
  have own: "\<And>c prims. primitiveAssemblyKernel c
               (vertexTransformAndAssemblyKernel MVP MV MV_normal width height ?p) prims = prims"
    unfolding f using mode pm by (intro primitiveAssemblyKernel_not_triangles) auto
  have frame: "assembleParts MVP MV MV_normal width height 0 ?parts primitives s = primitives s
       \<and> (\<not> BACKFACE_CULLING cfg \<longrightarrow>
            fst (cullPrimitives cfg dev_primitives dev_culledPrimitives (totalNumPrimitives ?parts)
                   (assembleParts MVP MV MV_normal width height 0 ?parts primitives)
                   culledPrimitives) s = primitives s)"
    if H: "\<forall>p \<in> set (before @ after). setPrimitiveInfo p = p \<and> 0 \<le> numPrimitives p
               \<and> (primitiveMode p = TRIANGLES \<longrightarrow> numIndices p mod 3 = 0)"
      and lo: "?b \<le> s" and hi: "s < ?b + (numIndices part - 2)"
  proof -
    have Hb: "\<forall>p \<in> set before. setPrimitiveInfo p = p \<and> 0 \<le> numPrimitives p
               \<and> (primitiveMode p = TRIANGLES \<longrightarrow> numIndices p mod 3 = 0)"
      and Ha: "\<forall>p \<in> set after. setPrimitiveInfo p = p \<and> 0 \<le> numPrimitives p
               \<and> (primitiveMode p = TRIANGLES \<longrightarrow> numIndices p mod 3 = 0)"
      using H by simp_all
    have "assembleParts MVP MV MV_normal width height 0 ?parts primitives s
          = assembleParts MVP MV MV_normal width height (?b + numPrimitives ?p) after
              (assembleParts MVP MV MV_normal width height 0 before primitives) s"
      by (simp add: assembleParts_append own)
    also have "\<dots> = assembleParts MVP MV MV_normal width height 0 before primitives s"
      using Ha hi cnt by (intro assembleParts_outside) simp_all
    also have "\<dots> = primitives s"
      using Hb lo by (intro assembleParts_outside) simp_all
    finally have asm: "assembleParts MVP MV MV_normal width height 0 ?parts primitives s
                         = primitives s" .
    have b0: "0 \<le> ?b" using Hb by (intro totalNumPrimitives_nonneg) simp
    have a0: "0 \<le> totalNumPrimitives after" using Ha by (intro totalNumPrimitives_nonneg) simp
    have rng: "0 \<le> s \<and> s < totalNumPrimitives ?parts"
      using lo hi b0 a0 tot by linarith
    show ?thesis
      using rng asm by (simp add: cullPrimitives_def cudaMemcpy_def Let_def)
  qed
  show ?thesis
    using cnt tot own frame by blast
qed

text \<open>
  A part of triangles with 3 indices followed by a strip with 4 indices: the strip counts
  2 primitives, in the slots 1 and 2, and the slot 2 is after the assembly of both parts
  as it was before.
\<close>

theorem strip_and_fan_slots_unwritten_by_assembly_witness:
  "numPrimitives (setPrimitiveInfo (examplePart TRIANGLE_STRIP 4)) = 2
   \<and> totalNumPrimitives [setPrimitiveInfo (examplePart TRIANGLES 3),
                          setPrimitiveInfo (examplePart TRIANGLE_STRIP 4)] = 3
   \<and> assembleParts identity4 identity4 identity3 32 32 0
        [setPrimitiveInfo (examplePart TRIANGLES 3),
         setPrimitiveInfo (examplePart TRIANGLE_STRIP 4)] (\<lambda>i. bigTriangle) 2 = bigTriangle"
proof -
  have m: "primitiveMode (examplePart TRIANGLE_STRIP 4) = TRIANGLE_STRIP
           \<or> primitiveMode (examplePart TRIANGLE_STRIP 4) = TRIANGLE_FAN"
    by (simp add: examplePart_def)
  have n: "numIndices (examplePart TRIANGLE_STRIP 4) = 4"
    by (simp add: examplePart_def)
  have t: "numPrimitives (setPrimitiveInfo (examplePart TRIANGLES 3)) = 1"
          "primitiveMode (setPrimitiveInfo (examplePart TRIANGLES 3)) = TRIANGLES"
          "numIndices (setPrimitiveInfo (examplePart TRIANGLES 3)) = 3"
    by (simp_all add: examplePart_def setPrimitiveInfo_def)
  have b: "totalNumPrimitives [setPrimitiveInfo (examplePart TRIANGLES 3)] = 1"
    by (simp add: totalNumPrimitives_def t)
  show ?thesis
    using strip_and_fan_slots_unwritten_by_assembly
            [OF m, where before = "[setPrimitiveInfo (examplePart TRIANGLES 3)]"
               and after = "[]" and s = 2 and primitives = "\<lambda>i. bigTriangle"
               and MVP = identity4 and MV = identity4 and MV_normal = identity3
               and width = 32 and height = 32]
    unfolding n b by (simp add: setPrimitiveInfo_idem t totalNumPrimitives_def)
qed

text \<open>
  The example part in a viewport of 32 by 32, with the identity for the three matrices:
  the vertex stage writes the three output vertices, and the assembly of a part of
  triangles is the work of the threads below the number of its indices.
\<close>

lemma fold_upto_skip:
  assumes "\<And>t s. n \<le> t \<Longrightarrow> f t s = s" "0 \<le> n" "n \<le> m + 1"
  shows "fold f [0 .. m] s = fold f [0 .. n - 1] s"
proof -
  have "[0 .. m] = [0 .. n - 1] @ [n .. m]"
  proof (cases "n = 0")
    case True
    then show ?thesis by simp
  next
    case False
    then show ?thesis
      using assms(2,3) upto_split2 [of 0 "n - 1" m] by simp
  qed
  moreover have "fold f [n .. m] s' = s'" for s'
    by (rule fold_unchanged) (simp add: assms(1))
  ultimately show ?thesis by simp
qed

lemma vertex_thread_example:
  "vid < 3 \<Longrightarrow> part_dev_diffuseTex p = None \<Longrightarrow> part_materialId p = - 1 \<Longrightarrow>
   dev_normal p vid = Vec3 0 0 1 \<Longrightarrow>
   dev_verticesOut p vid = exampleVertex (Vec3 0 0 0) (Vec4 0 0 0 0) \<Longrightarrow>
   vertexTransformAndAssembly 3 identity4 identity4 identity3 32 32 vid p
    = p \<lparr> dev_verticesOut := (dev_verticesOut p)(vid :=
         (exampleVertex (Vec3 (16 * (x3 (dev_position p vid) + 1))
                              (16 * (1 - y3 (dev_position p vid)))
                              (z3 (dev_position p vid))) (Vec4 1 1 1 1))
           \<lparr> eyePos := dev_position p vid \<rparr>) \<rparr>"
  by (cases "dev_position p vid") (simp add: vertexTransformAndAssembly_def Let_def
          mat4_mul_def identity4_def identity3_def mat3_mul_def div4_def vec3_of_def normalize3_def
          dot3_def scale3_def exampleVertex_def)

lemma examplePart_fields:
  "primitiveMode (setPrimitiveInfo (examplePart mode n)) = mode"
  "numIndices (setPrimitiveInfo (examplePart mode n)) = n"
  "numVertices (setPrimitiveInfo (examplePart mode n)) = 3"
  "part_dev_diffuseTex (setPrimitiveInfo (examplePart mode n)) = None"
  "part_materialId (setPrimitiveInfo (examplePart mode n)) = - 1"
  "dev_normal (setPrimitiveInfo (examplePart mode n)) = (\<lambda>i. Vec3 0 0 1)"
  "dev_indices (setPrimitiveInfo (examplePart mode n)) = (\<lambda>i. word_of_int (i mod 3))"
  "dev_verticesOut (setPrimitiveInfo (examplePart mode n))
     = (\<lambda>i. exampleVertex (Vec3 0 0 0) (Vec4 0 0 0 0))"
  "dev_position (setPrimitiveInfo (examplePart mode n))
     = (\<lambda>i. if i = 0 then Vec3 (1/2) (- 1/2) (1/5)
             else if i = 1 then Vec3 1 0 (1/5) else Vec3 0 1 (1/5))"
  by (simp_all add: setPrimitiveInfo_def examplePart_def split: option.splits)

lemma examplePart_count:
  "numPrimitives (setPrimitiveInfo (examplePart TRIANGLES n)) = n div 3"
  "numPrimitives (setPrimitiveInfo (examplePart TRIANGLE_STRIP n)) = n - 2"
  "part_primitiveType (setPrimitiveInfo (examplePart TRIANGLES n)) = Triangle"
  by (simp_all add: setPrimitiveInfo_def examplePart_def)

lemma launch1d_one_block:
  assumes "0 < n" "n \<le> 128"
  shows "launch1d n = [0 .. 127]"
proof -
  have "n + 128 - 1 = 128 * 1 + (n - 1)" by simp
  then have "(n + 128 - 1) div 128 = 1"
    using assms by (intro int_div_pos_eq [where r = "n - 1"]) simp_all
  then show ?thesis by (simp add: launch1d_def)
qed

lemma vertexKernel_example:
  "vertexTransformAndAssemblyKernel identity4 identity4 identity3 32 32
      (setPrimitiveInfo (examplePart mode n))
   = (setPrimitiveInfo (examplePart mode n))
       \<lparr> dev_verticesOut := (\<lambda>i. exampleVertex (Vec3 0 0 0) (Vec4 0 0 0 0))
            (0 := exampleOut0, 1 := exampleOut1, 2 := exampleOut2) \<rparr>"
proof -
  have l: "launch1d 3 = [0 .. 127]"
    by (rule launch1d_one_block) simp_all
  have u: "[0 .. 3 - 1] = [0, 1, 2::int]" by (simp add: upto.simps)
  have sk: "fold (vertexTransformAndAssembly 3 identity4 identity4 identity3 32 32) [0 .. 127] p
          = fold (vertexTransformAndAssembly 3 identity4 identity4 identity3 32 32) [0 .. 3 - 1] p"
    for p
    by (rule fold_upto_skip) (simp_all add: vertexTransformAndAssembly_def)
  show ?thesis
    unfolding vertexTransformAndAssemblyKernel_def examplePart_fields l sk u
    by (simp add: vertex_thread_example examplePart_fields exampleOut0_def exampleOut1_def
          exampleOut2_def)
qed


lemma assemblyKernel_example:
  assumes "0 < n" "n \<le> 128"
  shows "primitiveAssemblyKernel cur
     ((setPrimitiveInfo (examplePart TRIANGLES n)) \<lparr> dev_verticesOut := F \<rparr>) prims
   = fold (primitiveAssembly n cur
        ((setPrimitiveInfo (examplePart TRIANGLES n)) \<lparr> dev_verticesOut := F \<rparr>))
        [0 .. n - 1] prims"
  unfolding primitiveAssemblyKernel_def
  using assms
  by (simp add: examplePart_fields launch1d_one_block)
     (rule fold_upto_skip, simp_all add: primitiveAssembly_def)

lemma upto_small:
  "[0 .. 1] = [0, 1::int]" "[0 .. 2] = [0, 1, 2::int]" "[0 .. 3] = [0, 1, 2, 3::int]"
  by (simp_all add: upto.simps)

text \<open>
  C10 as stated fails, in three ways. A part of triangles with 4 indices counts one
  primitive, and its thread 3 writes the first vertex of the slot behind its own, the slot
  1, which is the first slot of the strip that follows. A strip with 1 index counts -1
  primitives, so that the part of triangles behind it starts one slot early, in the slot 1
  of the strip with 4 indices before the two. With culling, \<open>remove_if\<close> moves the
  primitives that are kept to the front: the slot 0, reserved for a strip with 3 indices
  and holding a triangle that is culled, holds in the array handed to the rasterizer the
  triangle that the part behind the strip assembled.
\<close>

theorem strip_slot_written_counterexample:
  "primitiveMode (examplePart TRIANGLE_STRIP 4) = TRIANGLE_STRIP
   \<and> totalNumPrimitives [setPrimitiveInfo (examplePart TRIANGLES 4)] = 1
   \<and> numPrimitives (setPrimitiveInfo (examplePart TRIANGLE_STRIP 4)) = 2
   \<and> v (assembleParts identity4 identity4 identity3 32 32 0
          [setPrimitiveInfo (examplePart TRIANGLES 4),
           setPrimitiveInfo (examplePart TRIANGLE_STRIP 4)] (\<lambda>i. bigTriangle) 1) 0 = exampleOut0
   \<and> v bigTriangle 0 \<noteq> exampleOut0
   \<and> numPrimitives (setPrimitiveInfo (examplePart TRIANGLE_STRIP 1)) = - 1
   \<and> v (assembleParts identity4 identity4 identity3 32 32 0
          [setPrimitiveInfo (examplePart TRIANGLE_STRIP 4),
           setPrimitiveInfo (examplePart TRIANGLE_STRIP 1),
           setPrimitiveInfo (examplePart TRIANGLES 3)] (\<lambda>i. bigTriangle) 1) 0 = exampleOut0
   \<and> numPrimitives (setPrimitiveInfo (examplePart TRIANGLE_STRIP 3)) = 1
   \<and> v (fst (cullPrimitives cullingConfig 0 2
               (totalNumPrimitives [setPrimitiveInfo (examplePart TRIANGLE_STRIP 3),
                                    setPrimitiveInfo (examplePart TRIANGLES 3)])
               (assembleParts identity4 identity4 identity3 32 32 0
                  [setPrimitiveInfo (examplePart TRIANGLE_STRIP 3),
                   setPrimitiveInfo (examplePart TRIANGLES 3)] (\<lambda>i. backTriangle))
               (\<lambda>i. backTriangle)) 0) 0 = exampleOut0
   \<and> v backTriangle 0 \<noteq> exampleOut0"
proof -
  have m: "primitiveMode (examplePart TRIANGLE_STRIP 4) = TRIANGLE_STRIP"
    by (simp add: examplePart_def)
  have n: "totalNumPrimitives [setPrimitiveInfo (examplePart TRIANGLES 4)] = 1"
          "numPrimitives (setPrimitiveInfo (examplePart TRIANGLE_STRIP 4)) = 2"
          "numPrimitives (setPrimitiveInfo (examplePart TRIANGLE_STRIP 1)) = - 1"
          "numPrimitives (setPrimitiveInfo (examplePart TRIANGLE_STRIP 3)) = 1"
    by (simp_all add: totalNumPrimitives_def examplePart_count)
  have a: "v (assembleParts identity4 identity4 identity3 32 32 0
          [setPrimitiveInfo (examplePart TRIANGLES 4),
           setPrimitiveInfo (examplePart TRIANGLE_STRIP 4)] (\<lambda>i. bigTriangle) 1) 0 = exampleOut0"
    by (simp add: assemblyKernel_example upto_small primitiveAssemblyKernel_not_triangles
          vertexKernel_example examplePart_fields examplePart_count primitiveAssembly_def Let_def)
  have b: "v (assembleParts identity4 identity4 identity3 32 32 0
          [setPrimitiveInfo (examplePart TRIANGLE_STRIP 4),
           setPrimitiveInfo (examplePart TRIANGLE_STRIP 1),
           setPrimitiveInfo (examplePart TRIANGLES 3)] (\<lambda>i. bigTriangle) 1) 0 = exampleOut0"
    by (simp add: assemblyKernel_example upto_small primitiveAssemblyKernel_not_triangles
          vertexKernel_example examplePart_fields examplePart_count primitiveAssembly_def Let_def)
  have d: "v bigTriangle 0 \<noteq> exampleOut0" "v backTriangle 0 \<noteq> exampleOut0"
    by (simp_all add: bigTriangle_def backTriangle_def flatTriangle_def exampleVertex_def
          exampleOut0_def)
  have cb: "shouldBackfaceCull backTriangle"
    by (simp add: shouldBackfaceCull_def backTriangle_def flatTriangle_def exampleVertex_def
          sub4_def cross3_def dot3_def vec3_of_def neg3_def)
  have as: "assembleParts identity4 identity4 identity3 32 32 0
           [setPrimitiveInfo (examplePart TRIANGLE_STRIP 3),
            setPrimitiveInfo (examplePart TRIANGLES 3)] (\<lambda>i. backTriangle)
         = (\<lambda>i. backTriangle)
             (1 := backTriangle \<lparr> v := (v backTriangle)
                     (0 := exampleOut0, 1 := exampleOut1, 2 := exampleOut2) \<rparr>)"
    by (simp add: assemblyKernel_example upto_small primitiveAssemblyKernel_not_triangles
        vertexKernel_example examplePart_fields examplePart_count primitiveAssembly_def Let_def)
  have cf: "\<not> shouldBackfaceCull (backTriangle \<lparr> v := (v backTriangle)
                     (0 := exampleOut0, 1 := exampleOut1, 2 := exampleOut2) \<rparr>)"
    by (simp add: shouldBackfaceCull_def exampleOut0_def exampleOut1_def exampleOut2_def
          exampleVertex_def sub4_def cross3_def dot3_def vec3_of_def neg3_def)
  have c: "v (fst (cullPrimitives cullingConfig 0 2
               (totalNumPrimitives [setPrimitiveInfo (examplePart TRIANGLE_STRIP 3),
                                    setPrimitiveInfo (examplePart TRIANGLES 3)])
               (assembleParts identity4 identity4 identity3 32 32 0
                  [setPrimitiveInfo (examplePart TRIANGLE_STRIP 3),
                   setPrimitiveInfo (examplePart TRIANGLES 3)] (\<lambda>i. backTriangle))
               (\<lambda>i. backTriangle)) 0) 0 = exampleOut0"
    unfolding as using cb cf
    by (simp add: cullPrimitives_def cullingConfig_def remove_if_def cudaMemcpy_def Let_def
          upto_small totalNumPrimitives_def examplePart_count)
  show ?thesis
    using m n a b c d by (intro conjI) assumption+
qed

end
